theory Spec2Isabelle
  imports Complex_Main "HOL-Library.Log_Nat"
begin

section \<open>JavaScript values\<close>

text \<open>
  A JavaScript number is either NaN, one of the two infinities, or a finite binary64
  number, carried as the real it denotes; the two zeros are identified. Each arithmetic
  operation and each reading of a numeral rounds the exact result to binary64.
\<close>

datatype jsnum = NaN | NegInf | Fin real | PosInf

text \<open>The values that reach the components: JSON data, with \<open>undefined\<close> for an absent property.\<close>

datatype jsval =
    JUndefined
  | JNull
  | JBool bool
  | JNum jsnum
  | JStr string
  | JArr "jsval list"
  | JObj "(string \<times> jsval) list"

datatype error = TypeError

subsection \<open>Rounding to binary64\<close>

fun js_neg :: "jsnum \<Rightarrow> jsnum" where
  "js_neg NaN = NaN"
| "js_neg NegInf = PosInf"
| "js_neg PosInf = NegInf"
| "js_neg (Fin a) = Fin (- a)"

text \<open>The nearest integer, a tie going to the even one.\<close>

definition rne :: "real \<Rightarrow> int" where
  "rne t =
     (let f = \<lfloor>t\<rfloor>; r = t - of_int f
      in if r < 1 / 2 then f else if 1 / 2 < r then f + 1 else if even f then f else f + 1)"

text \<open>The binary exponent \<open>e\<close> of a positive number: \<open>2^e \<le> x < 2^(e+1)\<close>.\<close>

definition expo :: "real \<Rightarrow> int" where
  "expo x = (if 1 \<le> x then bitlen \<lfloor>x\<rfloor> - 1 else - bitlen (\<lceil>1 / x\<rceil> - 1))"

text \<open>
  The exponent that binary64 uses, which stops at -1022 for the subnormal numbers, and
  the spacing of the binary64 numbers there: 52 bits below the exponent.
\<close>

definition cexp :: "real \<Rightarrow> int" where
  "cexp x = max (expo x) (- 1022)"

definition ulp :: "real \<Rightarrow> real" where
  "ulp x = 2 powi (cexp x - 52)"

definition rounded :: "real \<Rightarrow> real" where
  "rounded x = of_int (rne (x / ulp x)) * ulp x"

definition overflow_threshold :: real where
  "overflow_threshold = 2 ^ 1024"

text \<open>
  A real that is not negative, rounded to the nearest binary64 number, ties to even; it
  is infinite when the rounded value reaches \<open>2^1024\<close>.
\<close>

definition round_abs :: "real \<Rightarrow> jsnum" where
  "round_abs x =
     (if x = 0 then Fin 0
      else if overflow_threshold \<le> rounded x then PosInf else Fin (rounded x))"

definition round64 :: "real \<Rightarrow> jsnum" where
  "round64 x = (if x < 0 then js_neg (round_abs (- x)) else round_abs x)"

text \<open>
  A number inside a JSON value stands as it is written; what the engine holds of it is
  its binary64 value.
\<close>

fun num_val :: "jsnum \<Rightarrow> jsnum" where
  "num_val (Fin q) = round64 q"
| "num_val n = n"

subsection \<open>Arithmetic\<close>

fun js_add :: "jsnum \<Rightarrow> jsnum \<Rightarrow> jsnum" where
  "js_add NaN _ = NaN"
| "js_add _ NaN = NaN"
| "js_add PosInf NegInf = NaN"
| "js_add NegInf PosInf = NaN"
| "js_add PosInf _ = PosInf"
| "js_add _ PosInf = PosInf"
| "js_add NegInf _ = NegInf"
| "js_add _ NegInf = NegInf"
| "js_add (Fin a) (Fin b) = round64 (a + b)"

definition js_sub :: "jsnum \<Rightarrow> jsnum \<Rightarrow> jsnum" where
  "js_sub a b = js_add a (js_neg b)"

text \<open>The sign of a number that is not NaN: \<open>-1\<close>, \<open>0\<close> or \<open>1\<close>.\<close>

fun js_sgn :: "jsnum \<Rightarrow> int" where
  "js_sgn NaN = 0"
| "js_sgn NegInf = - 1"
| "js_sgn PosInf = 1"
| "js_sgn (Fin a) = (if a < 0 then - 1 else if a = 0 then 0 else 1)"

definition signed_inf :: "int \<Rightarrow> jsnum" where
  "signed_inf s = (if s < 0 then NegInf else if s = 0 then NaN else PosInf)"

fun js_mul :: "jsnum \<Rightarrow> jsnum \<Rightarrow> jsnum" where
  "js_mul NaN _ = NaN"
| "js_mul _ NaN = NaN"
| "js_mul (Fin a) (Fin b) = round64 (a * b)"
| "js_mul a b = signed_inf (js_sgn a * js_sgn b)"

text \<open>Division; a zero divisor is the positive zero.\<close>

fun js_div :: "jsnum \<Rightarrow> jsnum \<Rightarrow> jsnum" where
  "js_div NaN _ = NaN"
| "js_div _ NaN = NaN"
| "js_div (Fin a) (Fin b) = (if b = 0 then signed_inf (js_sgn (Fin a)) else round64 (a / b))"
| "js_div (Fin a) _ = Fin 0"
| "js_div a (Fin b) = signed_inf (js_sgn a * (if b < 0 then - 1 else 1))"
| "js_div _ _ = NaN"

text \<open>\<open>a > b\<close> and \<open>a <= b\<close> on numbers: false as soon as one side is NaN.\<close>

fun js_le :: "jsnum \<Rightarrow> jsnum \<Rightarrow> bool" where
  "js_le NaN _ = False"
| "js_le _ NaN = False"
| "js_le NegInf _ = True"
| "js_le _ PosInf = True"
| "js_le (Fin a) (Fin b) = (a \<le> b)"
| "js_le _ _ = False"

definition js_gt :: "jsnum \<Rightarrow> jsnum \<Rightarrow> bool" where
  "js_gt a b = (a \<noteq> NaN \<and> b \<noteq> NaN \<and> \<not> js_le a b)"

definition isNaN :: "jsnum \<Rightarrow> bool" where
  "isNaN a = (a = NaN)"

fun Math_abs :: "jsnum \<Rightarrow> jsnum" where
  "Math_abs NaN = NaN"
| "Math_abs NegInf = PosInf"
| "Math_abs PosInf = PosInf"
| "Math_abs (Fin a) = Fin \<bar>a\<bar>"

fun Math_ceil :: "jsnum \<Rightarrow> jsnum" where
  "Math_ceil (Fin a) = Fin (of_int \<lceil>a\<rceil>)"
| "Math_ceil a = a"

text \<open>
  \<open>Math.round\<close> rounds to the nearest integer, a half towards plus infinity; like
  \<open>Math.abs\<close> and \<open>Math.ceil\<close> it is exact on a binary64 number.
\<close>

fun Math_round :: "jsnum \<Rightarrow> jsnum" where
  "Math_round (Fin a) = Fin (of_int \<lfloor>a + 1 / 2\<rfloor>)"
| "Math_round a = a"

definition Math_max :: "jsnum \<Rightarrow> jsnum \<Rightarrow> jsnum" where
  "Math_max a b = (if a = NaN \<or> b = NaN then NaN else if js_le a b then b else a)"

text \<open>\<open>n || 0\<close> on a number: NaN and zero are falsy.\<close>

definition or_zero :: "jsnum \<Rightarrow> jsnum" where
  "or_zero n = (if n = NaN \<or> n = Fin 0 then Fin 0 else n)"

subsection \<open>Truthiness and property access\<close>

fun truthy :: "jsval \<Rightarrow> bool" where
  "truthy JUndefined = False"
| "truthy JNull = False"
| "truthy (JBool b) = b"
| "truthy (JNum n) = (num_val n \<noteq> NaN \<and> num_val n \<noteq> Fin 0)"
| "truthy (JStr s) = (s \<noteq> [])"
| "truthy (JArr _) = True"
| "truthy (JObj _) = True"

text \<open>\<open>v != null\<close>: neither \<open>null\<close> nor \<open>undefined\<close>.\<close>

definition not_nullish :: "jsval \<Rightarrow> bool" where
  "not_nullish v = (v \<noteq> JNull \<and> v \<noteq> JUndefined)"

definition is_digit :: "char \<Rightarrow> bool" where
  "is_digit c = (c \<in> set ''0123456789'')"

definition digit_val :: "char \<Rightarrow> int" where
  "digit_val c = of_char c - 48"

text \<open>The value of a string of decimal digits, most significant first.\<close>

definition digits_val :: "string \<Rightarrow> int" where
  "digits_val ds = foldl (\<lambda>acc c. 10 * acc + digit_val c) 0 ds"

text \<open>An array index as a property key: \<open>0\<close>, or digits without a leading zero.\<close>

definition index_of_key :: "string \<Rightarrow> nat option" where
  "index_of_key k =
     (if k \<noteq> [] \<and> list_all is_digit k \<and> (k = ''0'' \<or> hd k \<noteq> CHR ''0'')
      then Some (nat (digits_val k)) else None)"

text \<open>
  \<open>v[k]\<close> on a value that is neither \<open>null\<close> nor \<open>undefined\<close>: the data properties
  of objects, arrays and strings; \<open>undefined\<close> when there is none. Inherited properties
  are left out: the components read none (their keys are \<open>start_date\<close>, \<open>end_date\<close>,
  \<open>geometry\<close>, \<open>coordinates\<close>, \<open>properties\<close>, \<open>value\<close>, \<open>0\<close> and \<open>1\<close>).
\<close>

fun own_prop :: "jsval \<Rightarrow> string \<Rightarrow> jsval" where
  "own_prop (JObj kvs) k = (case map_of kvs k of Some v \<Rightarrow> v | None \<Rightarrow> JUndefined)"
| "own_prop (JArr xs) k =
     (if k = ''length'' then JNum (Fin (of_nat (length xs)))
      else case index_of_key k of
             Some i \<Rightarrow> (if i < length xs then xs ! i else JUndefined)
           | None \<Rightarrow> JUndefined)"
| "own_prop (JStr s) k =
     (if k = ''length'' then JNum (Fin (of_nat (length s)))
      else case index_of_key k of
             Some i \<Rightarrow> (if i < length s then JStr [s ! i] else JUndefined)
           | None \<Rightarrow> JUndefined)"
| "own_prop _ k = JUndefined"

text \<open>\<open>v.k\<close> in general: reading a property of \<open>null\<close> or \<open>undefined\<close> throws.\<close>

definition js_get :: "jsval \<Rightarrow> string \<Rightarrow> error + jsval" where
  "js_get v k = (if not_nullish v then Inr (own_prop v k) else Inl TypeError)"

subsection \<open>parseFloat and parseInt\<close>

text \<open>
  White space: tab, line feed, vertical tab, form feed, carriage return, space and the
  no-break space. The white space beyond code 255 has no place in these strings.
\<close>

definition is_ws :: "char \<Rightarrow> bool" where
  "is_ws c = (c \<in> set [CHR 0x09, CHR 0x0A, CHR 0x0B, CHR 0x0C, CHR 0x0D, CHR 0x20, CHR 0xA0])"

fun scan_sign :: "string \<Rightarrow> int \<times> string" where
  "scan_sign [] = (1, [])"
| "scan_sign (c # r) =
     (if c = CHR ''-'' then (- 1, r) else if c = CHR ''+'' then (1, r) else (1, c # r))"

text \<open>The value of an exponent part \<open>e\<close>, sign, digits at the head of a string; 0 when there is none.\<close>

fun scan_exp :: "string \<Rightarrow> int" where
  "scan_exp [] = 0"
| "scan_exp (c # r) =
     (if c = CHR ''e'' \<or> c = CHR ''E''
      then (let (sg, r') = scan_sign r; ds = takeWhile is_digit r'
            in if ds = [] then 0 else sg * digits_val ds)
      else 0)"

definition pow10 :: "int \<Rightarrow> real" where
  "pow10 e = (if 0 \<le> e then 10 ^ nat e else 1 / 10 ^ nat (- e))"

text \<open>
  \<open>parseFloat\<close> on a string: leading white space is skipped, then the longest prefix
  that is a decimal literal (or a signed \<open>Infinity\<close>) is read and rounded to binary64;
  NaN when there is none.
\<close>

definition parseFloat_str :: "string \<Rightarrow> jsnum" where
  "parseFloat_str s =
     (let (sg, r) = scan_sign (dropWhile is_ws s) in
      if take 8 r = ''Infinity'' then signed_inf sg
      else
        let ip = takeWhile is_digit r;
            r1 = dropWhile is_digit r;
            dot = (r1 \<noteq> [] \<and> hd r1 = CHR ''.'');
            fp = (if dot then takeWhile is_digit (tl r1) else []);
            r2 = (if dot then dropWhile is_digit (tl r1) else r1)
        in if ip = [] \<and> fp = [] then NaN
           else round64 (of_int sg
                         * (of_int (digits_val ip) + of_int (digits_val fp) / 10 ^ length fp)
                         * pow10 (scan_exp r2)))"

text \<open>\<open>parseInt(s, 10)\<close> on a string: white space, a sign, then the decimal digits.\<close>

definition parseInt_str :: "string \<Rightarrow> jsnum" where
  "parseInt_str s =
     (let (sg, r) = scan_sign (dropWhile is_ws s);
          ds = takeWhile is_digit r
      in if ds = [] then NaN else round64 (of_int (sg * digits_val ds)))"

text \<open>The number of decimal digits of an integer that is not negative.\<close>

function ndigits :: "int \<Rightarrow> nat" where
  "ndigits n = (if n < 10 then 1 else Suc (ndigits (n div 10)))"
  by pat_completeness auto
termination
  by (relation "measure nat") auto

declare ndigits.simps [simp del]

text \<open>
  The decimal exponent \<open>e\<close> of a positive number, \<open>10^e \<le> q < 10^(e+1)\<close>, and its first
  significant decimal digit.
\<close>

definition dec_exp :: "real \<Rightarrow> int" where
  "dec_exp q = (if 1 \<le> q then int (ndigits \<lfloor>q\<rfloor>) - 1 else - int (ndigits (\<lceil>1 / q\<rceil> - 1)))"

definition lead_digit :: "real \<Rightarrow> int" where
  "lead_digit q = \<lfloor>q / 10 powi dec_exp q\<rfloor>"

text \<open>
  The string of a number is the shortest decimal that reads back as the number. It
  starts with the first digit of the number, or with the digit after it when the
  one-digit decimal made of that next digit already reads back as the number (the
  binary64 number of \<open>5e-7\<close> lies just below it and prints as \<open>5e-7\<close>).
\<close>

definition repr_lead_digit :: "real \<Rightarrow> int" where
  "repr_lead_digit x =
     (let d = lead_digit x
      in if round64 (of_int (d + 1) * 10 powi dec_exp x) = Fin x
         then (if d = 9 then 1 else d + 1) else d)"

text \<open>
  \<open>parseInt(n, 10)\<close> on a number goes through the number's string: decimal notation
  from the binary64 number of \<open>1e-6\<close> up to \<open>1e21\<close>, where the integer part is read,
  and exponent notation outside, where only the first digit is.
\<close>

fun parseInt_num :: "jsnum \<Rightarrow> jsnum" where
  "parseInt_num (Fin x) =
     (if x = 0 then Fin 0
      else if js_le (round64 (1 / 10 ^ 6)) (Fin \<bar>x\<bar>) \<and> \<bar>x\<bar> < 10 ^ 21
      then Fin (of_int (if x < 0 then - \<lfloor>- x\<rfloor> else \<lfloor>x\<rfloor>))
      else Fin (of_int ((if x < 0 then - 1 else 1) * repr_lead_digit \<bar>x\<bar>)))"
| "parseInt_num _ = NaN"

text \<open>
  On other values both go through the value's string: an array prints its elements
  separated by commas (\<open>null\<close> and \<open>undefined\<close> as the empty string), so only its first
  element can be read; booleans, \<open>null\<close>, \<open>undefined\<close> and objects print no number.
\<close>

fun parseFloat :: "jsval \<Rightarrow> jsnum" where
  "parseFloat (JNum n) = num_val n"
| "parseFloat (JStr s) = parseFloat_str s"
| "parseFloat (JArr (x # xs)) = (if x = JNull \<or> x = JUndefined then NaN else parseFloat x)"
| "parseFloat _ = NaN"

fun parseInt10 :: "jsval \<Rightarrow> jsnum" where
  "parseInt10 (JNum n) = parseInt_num (num_val n)"
| "parseInt10 (JStr s) = parseInt_str s"
| "parseInt10 (JArr (x # xs)) = (if x = JNull \<or> x = JUndefined then NaN else parseInt10 x)"
| "parseInt10 _ = NaN"

subsection \<open>Dates\<close>

text \<open>
  A Date object holds a time value, an integer of milliseconds since the epoch of
  magnitude at most 8.64e15, or is invalid. No Date holds a time value beyond that
  range; one written here reads as invalid.
\<close>

datatype jsdate = Date int | InvalidDate

fun valueOf :: "jsdate \<Rightarrow> jsnum" where
  "valueOf (Date t) = (if \<bar>t\<bar> \<le> 8640000000000000 then Fin (of_int t) else NaN)"
| "valueOf InvalidDate = NaN"

definition DayFromYear :: "int \<Rightarrow> int" where
  "DayFromYear y = 365 * (y - 1970) + (y - 1969) div 4 - (y - 1901) div 100 + (y - 1601) div 400"

definition leap_year :: "int \<Rightarrow> bool" where
  "leap_year y = (y mod 4 = 0 \<and> (y mod 100 \<noteq> 0 \<or> y mod 400 = 0))"

definition days_in_month :: "int \<Rightarrow> nat \<Rightarrow> int" where
  "days_in_month y m =
     (if m = 2 then (if leap_year y then 29 else 28)
      else if m \<in> set [4, 6, 9, 11] then 30 else 31)"

definition days_before_month :: "int \<Rightarrow> nat \<Rightarrow> int" where
  "days_before_month y m = sum_list (map (days_in_month y) [1..<m])"

text \<open>The date-only form \<open>YYYY-MM-DD\<close> of the date-time string format, read as UTC midnight.\<close>

definition parse_date_only :: "string \<Rightarrow> jsdate" where
  "parse_date_only s =
     (let ys = take 4 s; ms = take 2 (drop 5 s); ds = drop 8 s;
          y = digits_val ys; m = nat (digits_val ms); d = digits_val ds
      in if length s = 10 \<and> s ! 4 = CHR ''-'' \<and> s ! 7 = CHR ''-''
            \<and> list_all is_digit (ys @ ms @ ds)
            \<and> 1 \<le> m \<and> m \<le> 12 \<and> 1 \<le> d \<and> d \<le> days_in_month y m
         then Date ((DayFromYear y + days_before_month y m + d - 1) * 86400000)
         else InvalidDate)"

text \<open>
  An instance of the Date constructor, exact on the date-only strings above and on
  numbers (a time value, truncated and limited to 8.64e15 in magnitude). On every other
  argument it answers with an invalid date, which an engine need not do: it serves the
  concrete windows below, and the general statements hold for every constructor.
\<close>

fun date_of_number :: "jsnum \<Rightarrow> jsdate" where
  "date_of_number (Fin q) =
     (if \<bar>q\<bar> \<le> 8640000000000000 then Date (if q < 0 then - \<lfloor>- q\<rfloor> else \<lfloor>q\<rfloor>) else InvalidDate)"
| "date_of_number _ = InvalidDate"

fun Date_new :: "jsval \<Rightarrow> jsdate" where
  "Date_new (JStr s) = parse_date_only s"
| "Date_new (JNum n) = date_of_number (num_val n)"
| "Date_new _ = InvalidDate"

section \<open>Camp resource management page\<close>

text \<open>
  The duration of the camp in days, from the camp details fetched for the page
  (\<open>null\<close> until they arrive).
\<close>

definition calculateCampDurationDays :: "(jsval \<Rightarrow> jsdate) \<Rightarrow> jsval \<Rightarrow> jsnum" where
  "calculateCampDurationDays newDate campDetails =
     (if truthy campDetails \<and> truthy (own_prop campDetails ''start_date'')
         \<and> truthy (own_prop campDetails ''end_date'')
      then
        let startDate = newDate (own_prop campDetails ''start_date'');
            endDate = newDate (own_prop campDetails ''end_date'');
            diffTime = Math_abs (js_sub (valueOf endDate) (valueOf startDate));
            diffDays = js_add (Math_ceil (js_div diffTime (Fin (1000 * 60 * 60 * 24)))) (Fin 1)
        in if js_gt diffDays (Fin 0) then diffDays else Fin 1
      else Fin 1)"

text \<open>Camp details that carry the two dates of the window.\<close>

definition camp_window :: "jsval \<Rightarrow> jsval \<Rightarrow> jsval" where
  "camp_window start_date end_date = JObj [(''start_date'', start_date), (''end_date'', end_date)]"

text \<open>
  The duration as the specification words it, on the two dates of the window (none when
  the window is absent): one day for a missing or invalid date and for an end before the
  start, otherwise the days from start to end, rounded up, plus one, and at least one.
\<close>

fun computeDurationDays_spec :: "(jsdate \<times> jsdate) option \<Rightarrow> int" where
  "computeDurationDays_spec (Some (Date s, Date e)) =
     (if e < s then 1 else max 1 (\<lceil>of_int (e - s) / (86400000 :: real)\<rceil> + 1))"
| "computeDurationDays_spec _ = 1"

subsection \<open>Cost estimate\<close>

text \<open>The entries of the three lists. The identifier is absent on a draft.\<close>

record entry =
  name :: string
  notes' :: string
  entry_id :: "string option"

record staff = entry +
  role :: string
  origin :: string
  contact :: string

record medicine = entry +
  unit :: string
  quantityPerPatient :: jsval

record equipment = entry +
  quantity :: jsval

record unit_costs =
  staffPerDay :: jsnum
  medicinePerUnit :: jsnum
  equipmentPerItem :: jsnum

definition placeholderCosts :: unit_costs where
  "placeholderCosts = \<lparr>staffPerDay = Fin 50, medicinePerUnit = Fin 2, equipmentPerItem = Fin 75\<rparr>"

record cost_estimate =
  cost_min :: jsnum
  cost_max :: jsnum

text \<open>
  The estimate that the page stores. What the callback closes over is passed in: the
  unit costs, the camp details, the three lists and the target patients (a number when
  fetched, the text of the input field once edited). The numerals \<open>0.85\<close> and \<open>1.15\<close>
  are their binary64 numbers.
\<close>

definition calculateEstimatedCost ::
  "unit_costs \<Rightarrow> (jsval \<Rightarrow> jsdate) \<Rightarrow> jsval \<Rightarrow> staff list \<Rightarrow> medicine list \<Rightarrow> equipment list
     \<Rightarrow> jsval \<Rightarrow> cost_estimate" where
  "calculateEstimatedCost costs newDate campDetails staffList medicineList equipmentList targetPatients =
     (let durationDays = calculateCampDurationDays newDate campDetails;
          staffCost = foldl (\<lambda>total _. js_add total (js_mul (staffPerDay costs) durationDays))
                        (Fin 0) staffList;
          medicineCost = foldl (\<lambda>total med.
                            let qty = or_zero (parseFloat (quantityPerPatient med));
                                numPatients = or_zero (parseInt10 targetPatients)
                            in js_add total (js_mul (js_mul qty numPatients) (medicinePerUnit costs)))
                           (Fin 0) medicineList;
          equipmentCost = foldl (\<lambda>total equip.
                            let qty = or_zero (parseInt10 (quantity equip))
                            in js_add total (js_mul qty (equipmentPerItem costs)))
                           (Fin 0) equipmentList;
          totalBaseCost = js_add (js_add staffCost medicineCost) equipmentCost
      in \<lparr>cost_min = Math_round (js_mul totalBaseCost (round64 (85 / 100))),
          cost_max = Math_round (js_mul totalBaseCost (round64 (115 / 100)))\<rparr>)"

text \<open>
  The estimate as the specification words it: three sums, a base, and the band around
  it, in binary64 arithmetic, each sum taken from left to right starting from 0. How a
  field is read as a number is a parameter: \<open>real_of\<close> for the quantity per patient,
  \<open>count_of\<close> for the target patients and the equipment quantities.
\<close>

definition js_sum :: "jsnum list \<Rightarrow> jsnum" where
  "js_sum xs = foldl js_add (Fin 0) xs"

definition cost_band :: "jsnum \<Rightarrow> cost_estimate" where
  "cost_band base =
     \<lparr>cost_min = Math_round (js_mul base (round64 (85 / 100))),
      cost_max = Math_round (js_mul base (round64 (115 / 100)))\<rparr>"

definition staffCost_spec :: "unit_costs \<Rightarrow> jsnum \<Rightarrow> staff list \<Rightarrow> jsnum" where
  "staffCost_spec costs durationDays staffList =
     js_sum (map (\<lambda>_. js_mul (staffPerDay costs) durationDays) staffList)"

definition medicineCost_spec ::
  "(jsval \<Rightarrow> jsnum) \<Rightarrow> (jsval \<Rightarrow> jsnum) \<Rightarrow> unit_costs \<Rightarrow> medicine list \<Rightarrow> jsval \<Rightarrow> jsnum" where
  "medicineCost_spec real_of count_of costs medicineList targetPatients =
     js_sum (map (\<lambda>med. js_mul (js_mul (real_of (quantityPerPatient med)) (count_of targetPatients))
                         (medicinePerUnit costs)) medicineList)"

definition equipmentCost_spec :: "(jsval \<Rightarrow> jsnum) \<Rightarrow> unit_costs \<Rightarrow> equipment list \<Rightarrow> jsnum" where
  "equipmentCost_spec count_of costs equipmentList =
     js_sum (map (\<lambda>equip. js_mul (count_of (quantity equip)) (equipmentPerItem costs)) equipmentList)"

definition estimateCost_spec ::
  "(jsval \<Rightarrow> jsnum) \<Rightarrow> (jsval \<Rightarrow> jsnum) \<Rightarrow> unit_costs \<Rightarrow> jsnum \<Rightarrow> staff list \<Rightarrow> medicine list
     \<Rightarrow> equipment list \<Rightarrow> jsval \<Rightarrow> cost_estimate" where
  "estimateCost_spec real_of count_of costs durationDays staffList medicineList equipmentList targetPatients =
     cost_band
       (js_add
          (js_add (staffCost_spec costs durationDays staffList)
             (medicineCost_spec real_of count_of costs medicineList targetPatients))
          (equipmentCost_spec count_of costs equipmentList))"

text \<open>
  The reading in the specification's words: a number counts as itself, a string that is
  a decimal numeral as the number it writes, and anything else, being non-numeric or
  missing, as 0.
\<close>

definition is_numeral :: "string \<Rightarrow> bool" where
  "is_numeral s =
     (let ip = takeWhile is_digit s; r = dropWhile is_digit s
      in (ip \<noteq> [] \<and> r = [])
         \<or> (r \<noteq> [] \<and> hd r = CHR ''.'' \<and> tl r \<noteq> [] \<and> list_all is_digit (tl r)))"

fun numeric_or_zero :: "jsval \<Rightarrow> jsnum" where
  "numeric_or_zero (JNum n) = (if num_val n = NaN then Fin 0 else num_val n)"
| "numeric_or_zero (JStr s) = (if is_numeral s then parseFloat_str s else Fin 0)"
| "numeric_or_zero _ = Fin 0"

text \<open>The reading in the code: the parsed numeric prefix, or 0 when there is none.\<close>

definition parsed_real :: "jsval \<Rightarrow> jsnum" where
  "parsed_real v = or_zero (parseFloat v)"

definition parsed_count :: "jsval \<Rightarrow> jsnum" where
  "parsed_count v = or_zero (parseInt10 v)"

text \<open>A number that is finite and not negative, and one that is moreover an integer.\<close>

fun nonneg_finite :: "jsnum \<Rightarrow> bool" where
  "nonneg_finite (Fin q) = (0 \<le> q)"
| "nonneg_finite _ = False"

fun nonneg_integer :: "jsnum \<Rightarrow> bool" where
  "nonneg_integer (Fin q) = (0 \<le> q \<and> of_int \<lfloor>q\<rfloor> = q)"
| "nonneg_integer _ = False"

text \<open>A number that is not a negative one: NaN and plus infinity pass.\<close>

fun not_below_zero :: "jsnum \<Rightarrow> bool" where
  "not_below_zero (Fin q) = (0 \<le> q)"
| "not_below_zero NegInf = False"
| "not_below_zero _ = True"

text \<open>The invariant of a cost estimate in the specification.\<close>

definition valid_estimate :: "cost_estimate \<Rightarrow> bool" where
  "valid_estimate c =
     (nonneg_integer (cost_min c) \<and> nonneg_integer (cost_max c) \<and> js_le (cost_min c) (cost_max c))"

subsection \<open>Adding and removing entries\<close>

record page_state =
  staffList :: "staff list"
  medicineList :: "medicine list"
  equipmentList :: "equipment list"
  newStaff :: staff
  newMedicine :: medicine
  newEquipment :: equipment

definition blank_staff :: staff where
  "blank_staff = \<lparr>name = [], notes' = [], entry_id = None, role = [], origin = [], contact = []\<rparr>"

definition blank_medicine :: medicine where
  "blank_medicine = \<lparr>name = [], notes' = [], entry_id = None, unit = [],
                      quantityPerPatient = JNum (Fin 0)\<rparr>"

definition blank_equipment :: equipment where
  "blank_equipment = \<lparr>name = [], notes' = [], entry_id = None, quantity = JNum (Fin 0)\<rparr>"

text \<open>The decimal numeral of an integer that is not negative.\<close>

function dec_string :: "int \<Rightarrow> string" where
  "dec_string n =
     (if n < 10 then [''0123456789'' ! nat n]
      else dec_string (n div 10) @ [''0123456789'' ! nat (n mod 10)])"
  by pat_completeness auto
termination
  by (relation "measure nat") auto

declare dec_string.simps [simp del]

text \<open>The temporary identifier made from the clock, \<open>Date.now()\<close>.\<close>

definition temp_id :: "int \<Rightarrow> string" where
  "temp_id now = ''temp-'' @ dec_string now"

definition addItem :: "string \<Rightarrow> int \<Rightarrow> page_state \<Rightarrow> page_state" where
  "addItem type now st =
     (if type = ''staff'' \<and> name (newStaff st) \<noteq> [] then
        st\<lparr>staffList := staffList st @ [(newStaff st)\<lparr>entry_id := Some (temp_id now)\<rparr>],
           newStaff := blank_staff\<rparr>
      else if type = ''medicine'' \<and> name (newMedicine st) \<noteq> [] then
        st\<lparr>medicineList := medicineList st @ [(newMedicine st)\<lparr>entry_id := Some (temp_id now)\<rparr>],
           newMedicine := blank_medicine\<rparr>
      else if type = ''equipment'' \<and> name (newEquipment st) \<noteq> [] then
        st\<lparr>equipmentList := equipmentList st @ [(newEquipment st)\<lparr>entry_id := Some (temp_id now)\<rparr>],
           newEquipment := blank_equipment\<rparr>
      else st)"

text \<open>\<open>list.filter((_, i) => i !== index)\<close>.\<close>

definition filter_index :: "int \<Rightarrow> 'a list \<Rightarrow> 'a list" where
  "filter_index index xs = map snd (filter (\<lambda>(i, _). int i \<noteq> index) (enumerate 0 xs))"

definition removeItem :: "string \<Rightarrow> int \<Rightarrow> page_state \<Rightarrow> page_state" where
  "removeItem type index st =
     (if type = ''staff'' then st\<lparr>staffList := filter_index index (staffList st)\<rparr>
      else if type = ''medicine'' then st\<lparr>medicineList := filter_index index (medicineList st)\<rparr>
      else if type = ''equipment'' then st\<lparr>equipmentList := filter_index index (equipmentList st)\<rparr>
      else st)"

text \<open>A page with two entries in each list and the given drafts, for the examples.\<close>

definition page_with :: "staff \<Rightarrow> medicine \<Rightarrow> equipment \<Rightarrow> page_state" where
  "page_with s m e =
     \<lparr>staffList = [blank_staff\<lparr>name := ''Asha''\<rparr>, blank_staff\<lparr>name := ''Ravi''\<rparr>],
      medicineList = [blank_medicine\<lparr>name := ''Paracetamol''\<rparr>, blank_medicine\<lparr>name := ''Zinc''\<rparr>],
      equipmentList = [blank_equipment\<lparr>name := ''Stretcher''\<rparr>, blank_equipment\<lparr>name := ''Scale''\<rparr>],
      newStaff = s, newMedicine = m, newEquipment = e\<rparr>"

section \<open>Organizer dashboard: the heat map\<close>

record indicator =
  key :: string
  label :: string
  invert :: "bool option"

definition selectableIndicators :: "indicator list" where
  "selectableIndicators =
     [\<lparr>key = ''2'', label = ''Population below age 15 years (%)'', invert = None\<rparr>,
      \<lparr>key = ''9'', label = ''Improved sanitation facility (%)'', invert = Some True\<rparr>,
      \<lparr>key = ''12'', label = ''Health insurance coverage (%)'', invert = Some True\<rparr>,
      \<lparr>key = ''16'', label = ''Women married before age 18 (%)'', invert = None\<rparr>,
      \<lparr>key = ''18'', label = ''Teenage mothers/pregnancy (%)'', invert = None\<rparr>,
      \<lparr>key = ''49'', label = ''Children 12-23m fully vaccinated (%)'', invert = Some True\<rparr>,
      \<lparr>key = ''73'', label = ''Children under 5 stunted (%)'', invert = None\<rparr>,
      \<lparr>key = ''74'', label = ''Children under 5 wasted (%)'', invert = None\<rparr>,
      \<lparr>key = ''76'', label = ''Children under 5 underweight (%)'', invert = None\<rparr>,
      \<lparr>key = ''81'', label = ''Children 6-59m anaemic (%)'', invert = None\<rparr>,
      \<lparr>key = ''84'', label = ''Women 15-49y anaemic (%)'', invert = None\<rparr>,
      \<lparr>key = ''88'', label = ''Women: High/v.high blood sugar/meds (%)'', invert = None\<rparr>,
      \<lparr>key = ''91'', label = ''Men: High/v.high blood sugar/meds (%)'', invert = None\<rparr>,
      \<lparr>key = ''94'', label = ''Women: Elevated BP/meds (%)'', invert = None\<rparr>,
      \<lparr>key = ''97'', label = ''Men: Elevated BP/meds (%)'', invert = None\<rparr>]"

text \<open>\<open>selectableIndicators.find(ind => ind.key === selectedIndicator)\<close>.\<close>

definition indicatorDetail :: "string \<Rightarrow> indicator option" where
  "indicatorDetail selectedIndicator = find (\<lambda>ind. key ind = selectedIndicator) selectableIndicators"

text \<open>\<open>indicatorDetail && indicatorDetail.invert\<close>.\<close>

definition inverted :: "indicator option \<Rightarrow> bool" where
  "inverted detail = (case detail of None \<Rightarrow> False | Some ind \<Rightarrow> invert ind = Some True)"

text \<open>\<open>filter\<close> and \<open>map\<close> with a callback that may throw: the first exception ends the call.\<close>

fun js_filter :: "('a \<Rightarrow> error + bool) \<Rightarrow> 'a list \<Rightarrow> error + 'a list" where
  "js_filter p [] = Inr []"
| "js_filter p (x # xs) =
     (case p x of
        Inl e \<Rightarrow> Inl e
      | Inr b \<Rightarrow> (case js_filter p xs of
                    Inl e \<Rightarrow> Inl e
                  | Inr ys \<Rightarrow> Inr (if b then x # ys else ys)))"

fun js_map :: "('a \<Rightarrow> error + 'b) \<Rightarrow> 'a list \<Rightarrow> error + 'b list" where
  "js_map f [] = Inr []"
| "js_map f (x # xs) =
     (case f x of
        Inl e \<Rightarrow> Inl e
      | Inr y \<Rightarrow> (case js_map f xs of Inl e \<Rightarrow> Inl e | Inr ys \<Rightarrow> Inr (y # ys)))"

definition bind_err :: "error + 'a \<Rightarrow> ('a \<Rightarrow> error + 'b) \<Rightarrow> error + 'b" where
  "bind_err r f = (case r of Inl e \<Rightarrow> Inl e | Inr v \<Rightarrow> f v)"

text \<open>
  The callback of the filter. Every conjunct reads a property of the feature first, so
  a feature that is \<open>null\<close> throws; the later reads are guarded by the earlier conjuncts.
\<close>

definition keep_feature :: "jsval \<Rightarrow> error + bool" where
  "keep_feature feature =
     bind_err (js_get feature ''geometry'') (\<lambda>geometry.
       if \<not> truthy geometry then Inr False
       else bind_err (js_get geometry ''coordinates'') (\<lambda>coordinates.
         if \<not> truthy coordinates then Inr False
         else bind_err (js_get feature ''properties'') (\<lambda>properties.
           if \<not> truthy properties then Inr False
           else bind_err (js_get properties ''value'') (\<lambda>v.
             Inr (not_nullish v \<and> \<not> isNaN (parseFloat v))))))"

text \<open>A heat sample: latitude, longitude, intensity, as the array handed to the map layer.\<close>

type_synonym heat_sample = "jsval \<times> jsval \<times> jsnum"

text \<open>The callback of the map.\<close>

definition to_sample :: "indicator option \<Rightarrow> jsval \<Rightarrow> error + heat_sample" where
  "to_sample detail feature =
     bind_err (js_get feature ''properties'') (\<lambda>properties.
     bind_err (js_get properties ''value'') (\<lambda>v.
       let intensity = parseFloat v;
           intensity = (if inverted detail
                        then Math_max (Fin 0) (js_sub (Fin 100) intensity) else intensity)
       in bind_err (js_get feature ''geometry'') (\<lambda>geometry.
          bind_err (js_get geometry ''coordinates'') (\<lambda>coordinates.
          bind_err (js_get coordinates ''1'') (\<lambda>lat.
          bind_err (js_get coordinates ''0'') (\<lambda>lng.
            Inr (lat, lng, intensity)))))))"

text \<open>The samples made from the features of the fetched collection.\<close>

definition processedData :: "indicator option \<Rightarrow> jsval list \<Rightarrow> error + heat_sample list" where
  "processedData detail features =
     (if length features > 0
      then bind_err (js_filter keep_feature features) (js_map (to_sample detail))
      else Inr [])"

text \<open>What the component shows: the samples, or none after an exception, which is caught.\<close>

definition heatmapData :: "indicator option \<Rightarrow> jsval list \<Rightarrow> heat_sample list" where
  "heatmapData detail features =
     (case processedData detail features of Inl e \<Rightarrow> [] | Inr samples \<Rightarrow> samples)"

text \<open>A feature with the given coordinates and value, as the data source sends it.\<close>

definition geo_feature :: "jsval \<Rightarrow> jsval \<Rightarrow> jsval" where
  "geo_feature coordinates v =
     JObj [(''type'', JStr ''Feature''),
           (''geometry'', JObj [(''type'', JStr ''Point''), (''coordinates'', coordinates)]),
           (''properties'', JObj [(''value'', v)])]"

text \<open>
  The filter as the specification words it: a geometry that is not null, a coordinate
  pair that parses to two finite numbers, and a value that parses to a finite number.
\<close>

fun is_finite :: "jsnum \<Rightarrow> bool" where
  "is_finite (Fin q) = True"
| "is_finite _ = False"

definition spec_keeps :: "jsval \<Rightarrow> bool" where
  "spec_keeps feature =
     (let geometry = own_prop feature ''geometry'';
          coordinates = own_prop geometry ''coordinates'';
          v = own_prop (own_prop feature ''properties'') ''value''
      in not_nullish geometry
         \<and> is_finite (parseFloat (own_prop coordinates ''0''))
         \<and> is_finite (parseFloat (own_prop coordinates ''1''))
         \<and> is_finite (parseFloat v))"

text \<open>The filter as the code applies it to a feature that is not \<open>null\<close>.\<close>

definition kept :: "jsval \<Rightarrow> bool" where
  "kept feature =
     (let geometry = own_prop feature ''geometry'';
          properties = own_prop feature ''properties'';
          v = own_prop properties ''value''
      in truthy geometry \<and> truthy (own_prop geometry ''coordinates'') \<and> truthy properties
         \<and> not_nullish v \<and> parseFloat v \<noteq> NaN)"

text \<open>The raw value of a feature, and the intensity the specification derives from it.\<close>

definition rawValue :: "jsval \<Rightarrow> jsnum" where
  "rawValue feature = parseFloat (own_prop (own_prop feature ''properties'') ''value'')"

definition spec_intensity :: "bool \<Rightarrow> jsnum \<Rightarrow> jsnum" where
  "spec_intensity inverted_flag raw = (if inverted_flag then Math_max (Fin 0) (js_sub (Fin 100) raw) else raw)"

text \<open>The coordinates of a feature, and the sample that a kept feature gives.\<close>

definition coordinates_of :: "jsval \<Rightarrow> jsval" where
  "coordinates_of feature = own_prop (own_prop feature ''geometry'') ''coordinates''"

definition sample_of :: "indicator option \<Rightarrow> jsval \<Rightarrow> heat_sample" where
  "sample_of detail feature =
     (own_prop (coordinates_of feature) ''1'', own_prop (coordinates_of feature) ''0'',
      spec_intensity (inverted detail) (rawValue feature))"

text \<open>The constraints of a heat sample in the specification.\<close>

fun in_range :: "real \<Rightarrow> real \<Rightarrow> jsval \<Rightarrow> bool" where
  "in_range lo hi (JNum (Fin q)) = (lo \<le> q \<and> q \<le> hi)"
| "in_range lo hi _ = False"

fun is_HeatSample :: "heat_sample \<Rightarrow> bool" where
  "is_HeatSample (lat, lng, intensity) =
     (in_range (- 90) 90 lat \<and> in_range (- 180) 180 lng \<and> nonneg_finite intensity)"

section \<open>Properties of the rounding\<close>

lemma rne_bounds: "\<bar>of_int (rne t) - t\<bar> \<le> 1 / 2"
  unfolding rne_def Let_def by (auto simp: abs_if) linarith+

lemma rne_mono: "s \<le> t \<Longrightarrow> rne s \<le> rne t"
proof -
  assume st: "s \<le> t"
  then have fl: "\<lfloor>s\<rfloor> \<le> \<lfloor>t\<rfloor>" by (rule floor_mono)
  have lo: "\<lfloor>t\<rfloor> \<le> rne t" and hi: "rne s \<le> \<lfloor>s\<rfloor> + 1"
    unfolding rne_def Let_def by auto
  show ?thesis
  proof (cases "\<lfloor>s\<rfloor> = \<lfloor>t\<rfloor>")
    case False
    with fl lo hi show ?thesis by linarith
  next
    case True
    with st show ?thesis
      unfolding rne_def Let_def by auto
  qed
qed

lemma rne_int: "rne (of_int n) = n"
  by (simp add: rne_def)

lemma rne_nonneg: "0 \<le> t \<Longrightarrow> 0 \<le> rne t"
  using rne_mono [of 0 t] rne_int [of 0] by simp

lemma expo_bounds:
  assumes "0 < x"
  shows "2 powi expo x \<le> x" and "x < 2 powi (expo x + 1)"
proof -
  show "2 powi expo x \<le> x"
  proof (cases "1 \<le> x")
    case True
    then have pos: "0 < \<lfloor>x\<rfloor>" by linarith
    from bitlen_bounds [OF pos] have "2 ^ nat (bitlen \<lfloor>x\<rfloor> - 1) \<le> \<lfloor>x\<rfloor>" by simp
    then have "(2 :: real) ^ nat (bitlen \<lfloor>x\<rfloor> - 1) \<le> of_int \<lfloor>x\<rfloor>"
      by (metis of_int_le_iff of_int_numeral of_int_power)
    also have "\<dots> \<le> x" by simp
    finally have "(2 :: real) ^ nat (bitlen \<lfloor>x\<rfloor> - 1) \<le> x" .
    moreover have "1 \<le> bitlen \<lfloor>x\<rfloor>"
      using pos by (simp add: bitlen_alt_def)
    ultimately show ?thesis
      using True by (simp add: expo_def power_int_def)
  next
    case False
    with assms have inv: "1 < 1 / x" by simp
    define m where "m = \<lceil>1 / x\<rceil>"
    have m2: "2 \<le> m" unfolding m_def using inv by linarith
    then have pos: "0 < m - 1" by simp
    define k where "k = bitlen (m - 1)"
    from bitlen_bounds [OF pos] have "m - 1 < 2 ^ nat k" by (simp add: k_def)
    then have "m \<le> 2 ^ nat k" by simp
    then have "(of_int m :: real) \<le> 2 ^ nat k"
      by (metis of_int_le_iff of_int_numeral of_int_power)
    moreover have "1 / x \<le> of_int m" unfolding m_def by simp
    ultimately have "1 / x \<le> 2 ^ nat k" by linarith
    then have "1 / 2 ^ nat k \<le> x"
      using assms by (simp add: field_simps)
    moreover have "1 \<le> k" unfolding k_def using pos by (simp add: bitlen_alt_def)
    ultimately show ?thesis
      using False by (simp add: expo_def m_def [symmetric] k_def [symmetric] power_int_def
          field_simps)
  qed
  show "x < 2 powi (expo x + 1)"
  proof (cases "1 \<le> x")
    case True
    then have pos: "0 < \<lfloor>x\<rfloor>" by linarith
    from bitlen_bounds [OF pos] have "\<lfloor>x\<rfloor> < 2 ^ nat (bitlen \<lfloor>x\<rfloor>)" by simp
    then have "\<lfloor>x\<rfloor> + 1 \<le> 2 ^ nat (bitlen \<lfloor>x\<rfloor>)" by simp
    then have "(of_int (\<lfloor>x\<rfloor> + 1) :: real) \<le> 2 ^ nat (bitlen \<lfloor>x\<rfloor>)"
      by (metis of_int_le_iff of_int_numeral of_int_power)
    moreover have "x < of_int (\<lfloor>x\<rfloor> + 1)" by linarith
    ultimately have "x < 2 ^ nat (bitlen \<lfloor>x\<rfloor>)" by linarith
    moreover have "0 \<le> bitlen \<lfloor>x\<rfloor>" by (rule bitlen_nonneg)
    ultimately show ?thesis
      using True by (simp add: expo_def power_int_def)
  next
    case False
    with assms have inv: "1 < 1 / x" by simp
    define m where "m = \<lceil>1 / x\<rceil>"
    have m2: "2 \<le> m" unfolding m_def using inv by linarith
    then have pos: "0 < m - 1" by simp
    define k where "k = bitlen (m - 1)"
    have k1: "1 \<le> k" unfolding k_def using pos by (simp add: bitlen_alt_def)
    from bitlen_bounds [OF pos] have "2 ^ nat (k - 1) \<le> m - 1" by (simp add: k_def)
    then have "(2 :: real) ^ nat (k - 1) \<le> of_int (m - 1)"
      by (metis of_int_le_iff of_int_numeral of_int_power)
    moreover have "of_int (m - 1) < 1 / x" unfolding m_def by linarith
    ultimately have "2 ^ nat (k - 1) < 1 / x" by linarith
    then have "x < 1 / 2 ^ nat (k - 1)"
      using assms by (simp add: field_simps)
    then show ?thesis
      using False k1 by (simp add: expo_def m_def [symmetric] k_def [symmetric] power_int_def
          nat_diff_distrib field_simps)
  qed
qed

lemma cexp_upper: "0 < x \<Longrightarrow> x < 2 powi (cexp x + 1)"
proof -
  assume x: "0 < x"
  have "(2 :: real) powi (expo x + 1) \<le> 2 powi (cexp x + 1)"
    by (rule power_int_increasing) (simp_all add: cexp_def)
  with expo_bounds(2) [OF x] show ?thesis by linarith
qed

lemma cexp_lower: "0 < x \<Longrightarrow> - 1022 < cexp x \<Longrightarrow> 2 powi cexp x \<le> x"
  using expo_bounds(1) [of x] by (simp add: cexp_def max_def split: if_splits)

lemma cexp_ge: "- 1022 \<le> cexp x"
  by (simp add: cexp_def)

lemma cexp_less:
  assumes "0 < x" "x < 2 powi k" "- 1022 < k"
  shows "cexp x < k"
proof (rule ccontr)
  assume "\<not> cexp x < k"
  then have ge: "k \<le> cexp x" by simp
  with assms(3) have "- 1022 < cexp x" by simp
  with assms(1) have "2 powi cexp x \<le> x" by (rule cexp_lower)
  moreover have "(2 :: real) powi k \<le> 2 powi cexp x"
    using ge by (intro power_int_increasing) simp_all
  ultimately show False using assms(2) by linarith
qed

lemma cexp_mono:
  assumes "0 < x" "x \<le> y"
  shows "cexp x \<le> cexp y"
proof -
  have "y < 2 powi (cexp y + 1)"
    using assms by (intro cexp_upper) simp
  with assms have "x < 2 powi (cexp y + 1)" by simp
  moreover have "- 1022 < cexp y + 1"
    using cexp_ge [of y] by simp
  ultimately have "cexp x < cexp y + 1"
    using assms(1) by (intro cexp_less)
  then show ?thesis by simp
qed

lemma ulp_pos: "0 < ulp x"
  by (simp add: ulp_def)

lemma rounded_error: "\<bar>rounded x - x\<bar> \<le> ulp x / 2"
proof -
  have "\<bar>of_int (rne (x / ulp x)) - x / ulp x\<bar> \<le> 1 / 2"
    by (rule rne_bounds)
  then have "\<bar>of_int (rne (x / ulp x)) - x / ulp x\<bar> * ulp x \<le> 1 / 2 * ulp x"
    using ulp_pos [of x] by (intro mult_right_mono) simp_all
  moreover have "\<bar>of_int (rne (x / ulp x)) - x / ulp x\<bar> * ulp x = \<bar>rounded x - x\<bar>"
  proof -
    have "\<bar>of_int (rne (x / ulp x)) - x / ulp x\<bar> * ulp x
            = \<bar>(of_int (rne (x / ulp x)) - x / ulp x) * ulp x\<bar>"
      using ulp_pos [of x] by (simp add: abs_mult)
    also have "(of_int (rne (x / ulp x)) - x / ulp x) * ulp x = rounded x - x"
      using ulp_pos [of x] by (simp add: rounded_def left_diff_distrib)
    finally show ?thesis .
  qed
  ultimately show ?thesis by simp
qed

lemma rounded_nonneg: "0 \<le> x \<Longrightarrow> 0 \<le> rounded x"
  using ulp_pos [of x] rne_nonneg [of "x / ulp x"] by (simp add: rounded_def)

text \<open>Below a power of two the rounded value stays at or below it.\<close>

lemma rounded_le_pow:
  assumes "0 < x" "x < 2 powi k" "- 1022 < k"
  shows "rounded x \<le> 2 powi k"
proof -
  have lt: "cexp x < k" using assms by (rule cexp_less)
  define n where "n = nat (k - cexp x + 52)"
  have split: "(2 :: real) powi k = 2 ^ n * ulp x"
  proof -
    have "(2 :: real) powi k = 2 powi (int n + (cexp x - 52))"
      using lt by (simp add: n_def)
    also have "\<dots> = 2 powi int n * 2 powi (cexp x - 52)"
      by (rule power_int_add) simp
    finally show ?thesis by (simp add: ulp_def)
  qed
  have "x / ulp x \<le> 2 ^ n"
    using assms(2) ulp_pos [of x] by (simp add: split field_simps)
  then have "rne (x / ulp x) \<le> rne (of_int (2 ^ n))"
    by (intro rne_mono) simp
  then have "rne (x / ulp x) \<le> 2 ^ n"
    by (simp only: rne_int)
  then have "(of_int (rne (x / ulp x)) :: real) \<le> 2 ^ n"
    by (metis of_int_le_iff of_int_numeral of_int_power)
  then have "of_int (rne (x / ulp x)) * ulp x \<le> 2 ^ n * ulp x"
    using ulp_pos [of x] by (intro mult_right_mono) simp_all
  then show ?thesis by (simp add: rounded_def split)
qed

text \<open>From a normal power of two on the rounded value stays at or above it.\<close>

lemma rounded_ge_pow:
  assumes "0 < x" "- 1022 < cexp x"
  shows "2 powi cexp x \<le> rounded x"
proof -
  have split: "(2 :: real) powi cexp x = 2 ^ 52 * ulp x"
  proof -
    have "(2 :: real) powi cexp x = 2 powi (52 + (cexp x - 52))" by simp
    also have "\<dots> = 2 powi 52 * 2 powi (cexp x - 52)"
      by (rule power_int_add) simp
    finally show ?thesis by (simp add: ulp_def)
  qed
  have "2 powi cexp x \<le> x" using assms by (rule cexp_lower)
  then have "2 ^ 52 \<le> x / ulp x"
    using ulp_pos [of x] by (simp add: split field_simps)
  then have "rne (of_int (2 ^ 52)) \<le> rne (x / ulp x)"
    by (intro rne_mono) simp
  then have "2 ^ 52 \<le> rne (x / ulp x)"
    by (simp only: rne_int)
  then have "(2 :: real) ^ 52 \<le> of_int (rne (x / ulp x))"
    by (metis of_int_le_iff of_int_numeral of_int_power)
  then have "2 ^ 52 * ulp x \<le> of_int (rne (x / ulp x)) * ulp x"
    using ulp_pos [of x] by (intro mult_right_mono) simp_all
  then show ?thesis by (simp add: rounded_def split)
qed

lemma rounded_mono:
  assumes "0 < x" "x \<le> y"
  shows "rounded x \<le> rounded y"
proof (cases "cexp x = cexp y")
  case True
  then have u: "ulp x = ulp y" by (simp add: ulp_def)
  have "x / ulp y \<le> y / ulp y"
    using assms(2) ulp_pos [of y] by (simp add: divide_right_mono)
  then have "rne (x / ulp y) \<le> rne (y / ulp y)" by (rule rne_mono)
  then have "(of_int (rne (x / ulp y)) :: real) \<le> of_int (rne (y / ulp y))" by simp
  then show ?thesis
    using ulp_pos [of y] by (simp add: rounded_def u mult_right_mono)
next
  case False
  with cexp_mono [OF assms] have lt: "cexp x + 1 \<le> cexp y" by simp
  have y: "0 < y" using assms by simp
  have "- 1022 < cexp x + 1" using cexp_ge [of x] by simp
  with assms(1) cexp_upper [OF assms(1)] have "rounded x \<le> 2 powi (cexp x + 1)"
    by (intro rounded_le_pow)
  also have "\<dots> \<le> 2 powi cexp y"
    using lt by (intro power_int_increasing) simp_all
  also have "\<dots> \<le> rounded y"
    using y lt cexp_ge [of x] by (intro rounded_ge_pow) simp_all
  finally show ?thesis .
qed

text \<open>A number that is a multiple of its spacing is not changed.\<close>

lemma rounded_exact_int:
  assumes "0 < n" "n < 2 ^ 53"
  shows "rounded (of_int n) = of_int n"
proof -
  let ?x = "of_int n :: real"
  have pos: "0 < ?x" using assms(1) by simp
  have "?x < 2 ^ 53"
    using assms(2) by (metis of_int_less_iff of_int_numeral of_int_power)
  then have "?x < 2 powi 53" by simp
  with pos have "cexp ?x < 53" by (intro cexp_less) simp_all
  then have le: "cexp ?x \<le> 52" by simp
  define k where "k = nat (52 - cexp ?x)"
  have u: "ulp ?x = 1 / 2 ^ k"
    using le by (simp add: ulp_def k_def power_int_def field_simps)
  have "?x / ulp ?x = of_int (n * 2 ^ k)"
    by (simp add: u)
  then have "rne (?x / ulp ?x) = n * 2 ^ k"
    by (simp only: rne_int)
  then show ?thesis
    by (simp add: rounded_def u)
qed

lemma round_abs_nonneg_cases:
  assumes "0 \<le> x"
  shows "round_abs x = PosInf \<or> (\<exists>y. round_abs x = Fin y \<and> 0 \<le> y)"
  using rounded_nonneg [OF assms] by (auto simp: round_abs_def)

lemma round64_not_NaN: "round64 x \<noteq> NaN"
proof (cases "x < 0")
  case True
  then have "0 \<le> - x" by simp
  from round_abs_nonneg_cases [OF this] True show ?thesis
    by (auto simp: round64_def)
next
  case False
  then have "0 \<le> x" by simp
  from round_abs_nonneg_cases [OF this] False show ?thesis
    by (auto simp: round64_def)
qed

lemma js_neg_neg: "js_neg (js_neg v) = v"
  by (cases v) simp_all

lemma round64_minus: "round64 (- x) = js_neg (round64 x)"
proof -
  consider "x < 0" | "x = 0" | "0 < x" by linarith
  then show ?thesis
  proof cases
    case 1
    then show ?thesis by (simp add: round64_def js_neg_neg)
  next
    case 2
    then show ?thesis by (simp add: round64_def round_abs_def)
  next
    case 3
    then show ?thesis by (simp add: round64_def)
  qed
qed

lemma overflow_above: "k \<le> 1023 \<Longrightarrow> (2 :: real) powi k < overflow_threshold"
proof -
  assume "k \<le> 1023"
  then have "(2 :: real) powi k \<le> 2 powi 1023"
    by (intro power_int_increasing) simp_all
  also have "(2 :: real) powi 1023 < 2 powi 1024"
    by (intro power_int_strict_increasing) simp_all
  also have "(2 :: real) powi 1024 = overflow_threshold"
    by (simp add: overflow_threshold_def)
  finally show ?thesis .
qed

text \<open>Below a power of two, up to \<open>2^1023\<close>, rounding gives a finite number below it or it.\<close>

lemma round64_below_pow:
  assumes "0 \<le> x" "x < 2 powi k" "- 1022 < k" "k \<le> 1023"
  shows "\<exists>y. round64 x = Fin y \<and> 0 \<le> y \<and> y \<le> 2 powi k \<and> y = (if x = 0 then 0 else rounded x)"
proof (cases "x = 0")
  case True
  then show ?thesis by (simp add: round64_def round_abs_def)
next
  case False
  with assms(1) have pos: "0 < x" by simp
  have le: "rounded x \<le> 2 powi k"
    using pos assms(2,3) by (rule rounded_le_pow)
  with overflow_above [OF assms(4)] have "\<not> overflow_threshold \<le> rounded x" by simp
  with pos have "round64 x = Fin (rounded x)"
    by (simp add: round64_def round_abs_def)
  with le rounded_nonneg [OF assms(1)] False show ?thesis by simp
qed

lemma rounded_two_53: "rounded 9007199254740992 = 9007199254740992"
  by code_simp

lemma two_53: "(2 :: int) ^ 53 = 9007199254740992"
  by simp

text \<open>An integer of magnitude up to \<open>2^53\<close> is a binary64 number.\<close>

lemma round64_nat_int:
  assumes "0 \<le> n" "n \<le> 9007199254740992"
  shows "round64 (of_int n) = Fin (of_int n)"
proof -
  consider "n = 0" | "n = 9007199254740992" | "0 < n" "n < 2 ^ 53"
    using assms by (simp only: two_53) linarith
  then show ?thesis
  proof cases
    case 1
    then show ?thesis by (simp add: round64_def round_abs_def)
  next
    case 2
    have "(9007199254740992 :: real) < 2 powi 54" by simp
    then have "\<exists>y. round64 9007199254740992 = Fin y \<and> 0 \<le> y \<and> y \<le> 2 powi 54
                 \<and> y = (if (9007199254740992 :: real) = 0 then 0 else rounded 9007199254740992)"
      by (intro round64_below_pow) simp_all
    then show ?thesis
      using 2 by (simp add: rounded_two_53)
  next
    case 3
    let ?x = "of_int n :: real"
    have "?x < 2 ^ 53"
      using 3(2) by (metis of_int_less_iff of_int_numeral of_int_power)
    then have "?x < 2 powi 53" by simp
    then have "\<exists>y. round64 ?x = Fin y \<and> 0 \<le> y \<and> y \<le> 2 powi 53
                 \<and> y = (if ?x = 0 then 0 else rounded ?x)"
      using 3(1) by (intro round64_below_pow) simp_all
    then show ?thesis
      using 3 by (simp add: rounded_exact_int)
  qed
qed

lemma round64_int:
  assumes "\<bar>n\<bar> \<le> 9007199254740992"
  shows "round64 (of_int n) = Fin (of_int n)"
proof (cases "0 \<le> n")
  case True
  with assms show ?thesis by (intro round64_nat_int) simp_all
next
  case False
  with assms have "round64 (of_int (- n)) = Fin (of_int (- n))"
    by (intro round64_nat_int) simp_all
  then have "round64 (- of_int n) = Fin (- of_int n)" by simp
  then have "js_neg (round64 (of_int n)) = Fin (- of_int n)"
    by (simp only: round64_minus)
  then have "js_neg (js_neg (round64 (of_int n))) = js_neg (Fin (- of_int n))" by simp
  then show ?thesis by (simp add: js_neg_neg)
qed

text \<open>Rounding keeps the order of the numbers that are not negative.\<close>

lemma round64_mono:
  assumes "0 \<le> x" "x \<le> y" "round64 y = Fin v"
  shows "\<exists>u. round64 x = Fin u \<and> 0 \<le> u \<and> u \<le> v"
proof (cases "x = 0")
  case True
  have "0 \<le> y" using assms by simp
  then have "0 \<le> v"
    using assms(3) rounded_nonneg [of y] by (auto simp: round64_def round_abs_def split: if_splits)
  with True show ?thesis by (simp add: round64_def round_abs_def)
next
  case False
  with assms have pos: "0 < x" "0 < y" by simp_all
  from assms(3) pos have v: "v = rounded y" "\<not> overflow_threshold \<le> rounded y"
    by (auto simp: round64_def round_abs_def split: if_splits)
  have le: "rounded x \<le> rounded y"
    using pos(1) assms(2) by (rule rounded_mono)
  with v have "\<not> overflow_threshold \<le> rounded x" by simp
  with pos have "round64 x = Fin (rounded x)"
    by (simp add: round64_def round_abs_def)
  with le v rounded_nonneg [OF assms(1)] show ?thesis by simp
qed

lemma round64_nonneg:
  assumes "0 \<le> x"
  shows "round64 x = PosInf \<or> (\<exists>y. round64 x = Fin y \<and> 0 \<le> y)"
  using round_abs_nonneg_cases [OF assms] assms by (simp add: round64_def)

lemma cexp_eq:
  assumes "0 < x" "2 powi e \<le> x" "x < 2 powi (e + 1)" "- 1022 \<le> e"
  shows "cexp x = e"
proof -
  have "cexp x < e + 1"
    using assms by (intro cexp_less) simp_all
  moreover have "e \<le> cexp x"
  proof (rule ccontr)
    assume "\<not> e \<le> cexp x"
    then have "cexp x + 1 \<le> e" by simp
    then have "(2 :: real) powi (cexp x + 1) \<le> 2 powi e"
      by (intro power_int_increasing) simp_all
    with cexp_upper [OF assms(1)] assms(2) show False by linarith
  qed
  ultimately show ?thesis by simp
qed

text \<open>
  How the binary64 number of a positive real is checked: by its exponent and by the
  integer that its mantissa rounds to.
\<close>

lemma round64_cert:
  assumes "0 < x" "2 powi e \<le> x" "x < 2 powi (e + 1)" "- 1022 \<le> e" "e \<le> 1022"
    and "rne (x / 2 powi (e - 52)) = m"
  shows "round64 x = Fin (of_int m * 2 powi (e - 52))"
proof -
  have e: "cexp x = e" using assms(1-4) by (rule cexp_eq)
  have "x < 2 powi (e + 1)" by fact
  then have "\<exists>y. round64 x = Fin y \<and> 0 \<le> y \<and> y \<le> 2 powi (e + 1)
               \<and> y = (if x = 0 then 0 else rounded x)"
    using assms(1,4,5) by (intro round64_below_pow) simp_all
  with assms(1) have "round64 x = Fin (rounded x)" by auto
  then show ?thesis
    by (simp add: rounded_def ulp_def e assms(6))
qed

text \<open>The binary64 numbers of the numerals \<open>0.85\<close>, \<open>1.15\<close> and \<open>1e-6\<close>.\<close>

lemma lit_085: "round64 (17 / 20) = Fin (7656119366529843 / 9007199254740992)"
  using round64_cert [of "17 / 20" "- 1" 7656119366529843]
  by (simp add: rne_def power_int_minus)

lemma lit_115: "round64 (23 / 20) = Fin (2589569785738035 / 2251799813685248)"
  using round64_cert [of "23 / 20" 0 5179139571476070]
  by (simp add: rne_def power_int_minus)

lemma lit_1e_6: "round64 (1 / 1000000) = Fin (4722366482869645 / 4722366482869645213696)"
  using round64_cert [of "1 / 1000000" "- 20" 4722366482869645]
  by (simp add: rne_def power_int_minus)

section \<open>Properties of the camp duration\<close>

lemma abs_neg: "Math_abs (js_neg v) = Math_abs v"
  by (cases v) simp_all

lemma js_sub_swap: "js_sub b a = js_neg (js_sub a b)"
proof (cases a; cases b)
  fix x y
  assume "a = Fin x" "b = Fin y"
  moreover have "round64 (y + - x) = js_neg (round64 (x + - y))"
    using round64_minus [of "x + - y"] by simp
  ultimately show ?thesis by (simp add: js_sub_def)
qed (simp_all add: js_sub_def)

lemma abs_sub_commute: "Math_abs (js_sub a b) = Math_abs (js_sub b a)"
  by (simp add: js_sub_swap [of a b] abs_neg)

lemma day_ms: "(1000 * 60 * 60 * 24 :: real) = 86400000"
  by simp

text \<open>
  The quotient of a difference of up to \<open>2^53\<close> milliseconds by the day is rounded, but
  not across an integer: its ceiling is the ceiling of the exact quotient.
\<close>

lemma quotient_ceiling:
  fixes d :: int
  assumes "0 \<le> d" "d \<le> 9007199254740992"
  shows "\<exists>y. round64 (of_int d / 86400000) = Fin y
             \<and> \<lceil>y\<rceil> = \<lceil>of_int d / (86400000 :: real)\<rceil>
             \<and> 0 \<le> \<lceil>y\<rceil> \<and> \<lceil>y\<rceil> \<le> 134217728"
proof (cases "d = 0")
  case True
  then show ?thesis by (simp add: round64_def round_abs_def)
next
  case False
  with assms have dpos: "0 < d" by simp
  define x :: real where "x = of_int d / 86400000"
  have pos: "0 < x" using dpos by (simp add: x_def)
  have "(of_int d :: real) \<le> 9007199254740992"
    using assms(2) by (metis of_int_le_iff of_int_numeral)
  then have small: "x < 134217728" by (simp add: x_def)
  then have lt: "x < 2 powi 27" by simp
  from pos lt have "\<exists>y. round64 x = Fin y \<and> 0 \<le> y \<and> y \<le> 2 powi 27
                      \<and> y = (if x = 0 then 0 else rounded x)"
    by (intro round64_below_pow) simp_all
  with pos have r: "round64 x = Fin (rounded x)" by auto
  define c where "c = \<lceil>x\<rceil>"
  have c1: "1 \<le> c" unfolding c_def using pos by linarith
  have c2: "c \<le> 134217728" unfolding c_def using small by linarith
  have xc: "x \<le> of_int c" unfolding c_def by simp
  have upper: "rounded x \<le> of_int c"
  proof -
    have "rounded x \<le> rounded (of_int c)"
      using pos xc by (rule rounded_mono)
    also have "rounded (of_int c) = of_int c"
      using c1 c2 by (intro rounded_exact_int) simp_all
    finally show ?thesis .
  qed
  have lower: "of_int c - 1 < rounded x"
  proof -
    have "cexp x < 27" using pos lt by (intro cexp_less) simp_all
    then have "cexp x - 52 \<le> - 26" by simp
    then have "ulp x \<le> 2 powi (- 26)"
      unfolding ulp_def by (intro power_int_increasing) simp_all
    then have u: "ulp x / 2 \<le> 1 / 134217728"
      by (simp add: power_int_minus)
    have "of_int c - 1 < x" unfolding c_def by linarith
    then have "(of_int c - 1) * 86400000 < (of_int d :: real)"
      by (simp add: x_def field_simps)
    then have "(of_int ((c - 1) * 86400000) :: real) < of_int d" by simp
    then have "(c - 1) * 86400000 < d" by (simp only: of_int_less_iff)
    then have "(c - 1) * 86400000 + 1 \<le> d" by simp
    then have "(of_int ((c - 1) * 86400000 + 1) :: real) \<le> of_int d"
      by (simp only: of_int_le_iff)
    then have gap: "of_int c - 1 + 1 / 86400000 \<le> x"
      by (simp add: x_def field_simps)
    have "\<bar>rounded x - x\<bar> \<le> ulp x / 2" by (rule rounded_error)
    with u have "x - 1 / 134217728 \<le> rounded x" by linarith
    with gap show ?thesis by linarith
  qed
  from lower upper have ceil: "\<lceil>rounded x\<rceil> = c"
    by (intro ceiling_unique) simp_all
  have "0 \<le> \<lceil>rounded x\<rceil>" "\<lceil>rounded x\<rceil> \<le> 134217728"
    using c1 c2 by (simp_all only: ceil)
  moreover have "\<lceil>rounded x\<rceil> = \<lceil>x\<rceil>"
    by (simp only: ceil c_def)
  ultimately have "round64 x = Fin (rounded x) \<and> \<lceil>rounded x\<rceil> = \<lceil>x\<rceil>
                     \<and> 0 \<le> \<lceil>rounded x\<rceil> \<and> \<lceil>rounded x\<rceil> \<le> 134217728"
    using r by blast
  then show ?thesis
    unfolding x_def by blast
qed

lemma time_value: "\<bar>t\<bar> \<le> 8640000000000000 \<Longrightarrow> valueOf (Date t) = Fin (of_int t)"
  by simp

text \<open>The day count from a difference that came out finite and below \<open>2^54\<close>.\<close>

lemma day_count_integer:
  assumes "\<bar>t\<bar> \<le> 2 powi 54"
  shows "\<exists>n. 1 \<le> n \<and> js_add (Math_ceil (js_div (Math_abs (Fin t)) (Fin (1000 * 60 * 60 * 24))))
                          (Fin 1) = Fin (of_int n)"
proof -
  define x where "x = \<bar>t\<bar> / 86400000"
  have x0: "0 \<le> x" by (simp add: x_def)
  have "\<bar>t\<bar> \<le> 18014398509481984" using assms by simp
  then have "x < 268435456" by (simp add: x_def)
  then have "x < 2 powi 28" by simp
  with x0 obtain y where y: "round64 x = Fin y" "0 \<le> y" "y \<le> 2 powi 28"
    using round64_below_pow [of x 28] by auto
  define c where "c = \<lceil>y\<rceil>"
  have c0: "0 \<le> c" unfolding c_def using y(2) by linarith
  have "y \<le> 268435456" using y(3) by simp
  then have c1: "c \<le> 268435456" unfolding c_def by linarith
  have "round64 (of_int (c + 1)) = Fin (of_int (c + 1))"
    using c0 c1 by (intro round64_int) simp
  then have "js_add (Fin (of_int c)) (Fin 1) = Fin (of_int (c + 1))" by simp
  moreover have "Math_ceil (js_div (Math_abs (Fin t)) (Fin (1000 * 60 * 60 * 24))) = Fin (of_int c)"
    using y(1) by (simp add: x_def c_def)
  ultimately show ?thesis
    using c0 by (intro exI [of _ "c + 1"]) simp
qed

lemma difference_bounded:
  assumes "\<bar>s\<bar> \<le> 8640000000000000" "\<bar>e\<bar> \<le> 8640000000000000"
  shows "\<exists>t. js_sub (Fin (of_int e)) (Fin (of_int s)) = Fin t \<and> \<bar>t\<bar> \<le> 2 powi 54"
proof -
  define D :: real where "D = of_int (e - s)"
  have "\<bar>e - s\<bar> \<le> 17280000000000000" using assms by linarith
  then have "\<bar>D\<bar> \<le> 17280000000000000"
    unfolding D_def by (metis of_int_abs of_int_le_iff of_int_numeral)
  then have lt: "\<bar>D\<bar> < 2 powi 54" by simp
  then obtain y where y: "round64 \<bar>D\<bar> = Fin y" "0 \<le> y" "y \<le> 2 powi 54"
    using round64_below_pow [of "\<bar>D\<bar>" 54] by auto
  have sub: "js_sub (Fin (of_int e)) (Fin (of_int s)) = round64 D"
    by (simp add: js_sub_def D_def)
  show ?thesis
  proof (cases "0 \<le> D")
    case True
    with y sub show ?thesis by (intro exI [of _ y]) simp
  next
    case False
    then have "round64 (- D) = Fin y" using y(1) by simp
    then have "js_neg (round64 D) = Fin y" by (simp only: round64_minus)
    then have "js_neg (js_neg (round64 D)) = Fin (- y)" by simp
    then have "round64 D = Fin (- y)" by (simp only: js_neg_neg)
    with y sub show ?thesis by (intro exI [of _ "- y"]) simp
  qed
qed

lemma difference_exact:
  assumes "\<bar>e - s\<bar> \<le> 9007199254740992"
  shows "js_sub (Fin (of_int e)) (Fin (of_int s)) = Fin (of_int (e - s))"
  using round64_int [OF assms] by (simp add: js_sub_def)

lemma duration_of_dates:
  assumes "truthy cd" "truthy (own_prop cd ''start_date'')" "truthy (own_prop cd ''end_date'')"
    and "newDate (own_prop cd ''start_date'') = Date s"
    and "newDate (own_prop cd ''end_date'') = Date e"
    and "\<bar>s\<bar> \<le> 8640000000000000" "\<bar>e\<bar> \<le> 8640000000000000"
    and "\<bar>e - s\<bar> \<le> 9007199254740992"
  shows "calculateCampDurationDays newDate cd
           = Fin (of_int (\<lceil>of_int \<bar>e - s\<bar> / (86400000 :: real)\<rceil> + 1))"
proof -
  define d where "d = \<bar>e - s\<bar>"
  have d: "0 \<le> d" "d \<le> 9007199254740992" using assms(8) by (simp_all add: d_def)
  from quotient_ceiling [OF d] obtain y where
    y: "round64 (of_int d / 86400000) = Fin y" "\<lceil>y\<rceil> = \<lceil>of_int d / (86400000 :: real)\<rceil>"
       "0 \<le> \<lceil>y\<rceil>" "\<lceil>y\<rceil> \<le> 134217728"
    by blast
  define n where "n = \<lceil>y\<rceil> + 1"
  have diff: "Math_abs (js_sub (valueOf (Date e)) (valueOf (Date s))) = Fin (of_int d)"
    using assms(6,7) difference_exact [OF assms(8)] by (simp add: d_def)
  have quot: "Math_ceil (js_div (Fin (of_int d)) (Fin (1000 * 60 * 60 * 24))) = Fin (of_int \<lceil>y\<rceil>)"
    using y(1) by simp
  have "round64 (of_int n) = Fin (of_int n)"
    using y(3,4) by (intro round64_int) (simp add: n_def)
  then have days: "js_add (Fin (of_int \<lceil>y\<rceil>)) (Fin 1) = Fin (of_int n)"
    by (simp add: n_def)
  have "0 < n" using y(3) by (simp add: n_def)
  then have "\<not> (of_int n :: real) \<le> 0" by simp
  then have gt: "js_gt (Fin (of_int n)) (Fin 0)"
    by (simp only: js_gt_def js_le.simps jsnum.distinct simp_thms)
  have "calculateCampDurationDays newDate cd = Fin (of_int n)"
    unfolding calculateCampDurationDays_def Let_def
    using assms(1-5) gt by (simp only: diff quot days if_True simp_thms)
  then show ?thesis
    by (simp add: n_def y(2) d_def)
qed

lemma js_sub_NaN: "js_sub NaN b = NaN" "js_sub a NaN = NaN"
  by (cases a; simp add: js_sub_def)+

lemma duration_no_value:
  assumes "valueOf (newDate (own_prop cd ''start_date'')) = NaN
             \<or> valueOf (newDate (own_prop cd ''end_date'')) = NaN"
  shows "calculateCampDurationDays newDate cd = Fin 1"
proof -
  have "js_sub (valueOf (newDate (own_prop cd ''end_date'')))
               (valueOf (newDate (own_prop cd ''start_date''))) = NaN"
    using assms by (auto simp: js_sub_NaN)
  then show ?thesis
    by (simp add: calculateCampDurationDays_def js_gt_def)
qed

lemma duration_invalid:
  assumes "newDate (own_prop cd ''start_date'') = InvalidDate
             \<or> newDate (own_prop cd ''end_date'') = InvalidDate"
  shows "calculateCampDurationDays newDate cd = Fin 1"
  using assms by (intro duration_no_value) auto

lemma duration_absent:
  assumes "\<not> (truthy cd \<and> truthy (own_prop cd ''start_date'') \<and> truthy (own_prop cd ''end_date''))"
  shows "calculateCampDurationDays newDate cd = Fin 1"
  using assms by (auto simp: calculateCampDurationDays_def)

lemma valueOf_cases:
  "valueOf dt = NaN \<or> (\<exists>t. \<bar>t\<bar> \<le> 8640000000000000 \<and> valueOf dt = Fin (of_int t))"
  by (cases dt) auto

lemma duration_at_least_one: "\<exists>n. 1 \<le> n \<and> calculateCampDurationDays newDate cd = Fin (of_int n)"
proof (cases "truthy cd \<and> truthy (own_prop cd ''start_date'') \<and> truthy (own_prop cd ''end_date'')")
  case False
  then have "calculateCampDurationDays newDate cd = Fin (of_int 1)"
    using duration_absent [of cd newDate] by simp
  then show ?thesis by (intro exI [of _ 1]) simp
next
  case usable: True
  let ?s = "valueOf (newDate (own_prop cd ''start_date''))"
  let ?e = "valueOf (newDate (own_prop cd ''end_date''))"
  show ?thesis
  proof (cases "?s = NaN \<or> ?e = NaN")
    case True
    then have "calculateCampDurationDays newDate cd = Fin (of_int 1)"
      using duration_no_value [of newDate cd] by simp
    then show ?thesis by (intro exI [of _ 1]) simp
  next
    case False
    then obtain s e where s: "\<bar>s\<bar> \<le> 8640000000000000" "?s = Fin (of_int s)"
      and e: "\<bar>e\<bar> \<le> 8640000000000000" "?e = Fin (of_int e)"
      using valueOf_cases [of "newDate (own_prop cd ''start_date'')"]
        valueOf_cases [of "newDate (own_prop cd ''end_date'')"] by auto
    from difference_bounded [OF s(1) e(1)] obtain t where
      t: "js_sub (Fin (of_int e)) (Fin (of_int s)) = Fin t" "\<bar>t\<bar> \<le> 2 powi 54"
      by blast
    from day_count_integer [OF t(2)] obtain n where
      n: "1 \<le> n" "js_add (Math_ceil (js_div (Math_abs (Fin t)) (Fin (1000 * 60 * 60 * 24))))
                     (Fin 1) = Fin (of_int n)"
      by blast
    have "\<not> (of_int n :: real) \<le> 0" using n(1) by simp
    then have gt: "js_gt (Fin (of_int n)) (Fin 0)"
      by (simp only: js_gt_def js_le.simps jsnum.distinct simp_thms)
    have "calculateCampDurationDays newDate cd = Fin (of_int n)"
      unfolding calculateCampDurationDays_def Let_def
      using usable gt by (simp only: s(2) e(2) t(1) n(2) if_True simp_thms)
    with n(1) show ?thesis by blast
  qed
qed

lemma camp_window_props:
  "truthy (camp_window a b)"
  "own_prop (camp_window a b) ''start_date'' = a"
  "own_prop (camp_window a b) ''end_date'' = b"
  by (simp_all add: camp_window_def)

lemma date_2025_01_01: "Date_new (JStr ''2025-01-01'') = Date 1735689600000"
  by (simp add: parse_date_only_def digits_val_def digit_val_def is_digit_def DayFromYear_def
      days_before_month_def days_in_month_def leap_year_def)

lemma date_2025_01_05: "Date_new (JStr ''2025-01-05'') = Date 1736035200000"
  by (simp add: parse_date_only_def digits_val_def digit_val_def is_digit_def DayFromYear_def
      days_before_month_def days_in_month_def leap_year_def)

lemma duration_of_window:
  assumes "truthy a" "truthy b" "newDate a = Date s" "newDate b = Date e"
    and "\<bar>s\<bar> \<le> 8640000000000000" "\<bar>e\<bar> \<le> 8640000000000000"
    and "\<bar>e - s\<bar> \<le> 9007199254740992"
  shows "calculateCampDurationDays newDate (camp_window a b)
           = Fin (of_int (\<lceil>of_int \<bar>e - s\<bar> / (86400000 :: real)\<rceil> + 1))"
  by (rule duration_of_dates) (simp_all only: camp_window_props assms)

lemma duration_jan_1_to_5:
  "calculateCampDurationDays Date_new (camp_window (JStr ''2025-01-01'') (JStr ''2025-01-05'')) = Fin 5"
  using duration_of_window [OF _ _ date_2025_01_01 date_2025_01_05] by simp

lemma duration_jan_5_to_1:
  "calculateCampDurationDays Date_new (camp_window (JStr ''2025-01-05'') (JStr ''2025-01-01'')) = Fin 5"
  using duration_of_window [OF _ _ date_2025_01_05 date_2025_01_01] by simp

lemma duration_far_apart:
  "calculateCampDurationDays Date_new
     (camp_window (JNum (Fin (- 8640000000000000))) (JNum (Fin 4320000000000001)))
     = Fin 150000001"
proof -
  have ints: "round64 (- 8640000000000000) = Fin (- 8640000000000000)"
    "round64 4320000000000001 = Fin 4320000000000001"
    "round64 150000000 = Fin 150000000" "round64 150000001 = Fin 150000001"
    using round64_int [of "- 8640000000000000"] round64_int [of 4320000000000001]
      round64_int [of 150000000] round64_int [of 150000001]
    by simp_all
  have odd: "round64 12960000000000001 = Fin 12960000000000000"
    using round64_cert [of 12960000000000001 53 6480000000000000]
    by (simp add: rne_def)
  show ?thesis
    by (simp add: calculateCampDurationDays_def camp_window_props ints odd js_sub_def js_gt_def)
qed

text \<open>
  C2, as amended. For every Date constructor and every camp details:
  the duration is 1 when the details or one of the two dates is absent, and 1 when one of
  the two dates is invalid; when both dates are valid, with time values \<open>s\<close> and \<open>e\<close>
  in milliseconds that are at most \<open>2^53 = 9007199254740992\<close> apart, it is the absolute
  difference \<open>|e - s|\<close> in days, rounded up, plus 1, whichever of the two dates comes
  first; it is always an integer that is at least 1. A window whose start and end are the
  same date lasts 1 day, and the window from 2025-01-01 to 2025-01-05 lasts 5 days.
  Further apart the difference of the time values is rounded to binary64 before it is
  divided: the time values -8640000000000000 and 4320000000000001 give 150000001 days,
  one less than the days of their exact difference, rounded up, plus 1.
\<close>

theorem duration_days_amended:
  "(\<not> (truthy cd \<and> truthy (own_prop cd ''start_date'') \<and> truthy (own_prop cd ''end_date''))
      \<longrightarrow> calculateCampDurationDays newDate cd = Fin 1)
   \<and> (newDate (own_prop cd ''start_date'') = InvalidDate
        \<or> newDate (own_prop cd ''end_date'') = InvalidDate
      \<longrightarrow> calculateCampDurationDays newDate cd = Fin 1)
   \<and> (\<forall>s e. truthy cd \<and> truthy (own_prop cd ''start_date'') \<and> truthy (own_prop cd ''end_date'')
          \<and> newDate (own_prop cd ''start_date'') = Date s
          \<and> newDate (own_prop cd ''end_date'') = Date e
          \<and> \<bar>s\<bar> \<le> 8640000000000000 \<and> \<bar>e\<bar> \<le> 8640000000000000
          \<and> \<bar>e - s\<bar> \<le> 9007199254740992
      \<longrightarrow> calculateCampDurationDays newDate cd
            = Fin (of_int (\<lceil>of_int \<bar>e - s\<bar> / (86400000 :: real)\<rceil> + 1)))
   \<and> (\<exists>n. 1 \<le> n \<and> calculateCampDurationDays newDate cd = Fin (of_int n))
   \<and> (\<forall>d t. truthy d \<and> newDate d = Date t
      \<longrightarrow> calculateCampDurationDays newDate (camp_window d d) = Fin 1)
   \<and> calculateCampDurationDays Date_new (camp_window (JStr ''2025-01-01'') (JStr ''2025-01-05''))
       = Fin 5
   \<and> calculateCampDurationDays Date_new
        (camp_window (JNum (Fin (- 8640000000000000))) (JNum (Fin 4320000000000001)))
       = Fin 150000001
   \<and> \<lceil>of_int \<bar>4320000000000001 - (- 8640000000000000)\<bar> / (86400000 :: real)\<rceil> + 1 = 150000002"
proof (intro conjI allI impI)
  assume "\<not> (truthy cd \<and> truthy (own_prop cd ''start_date'') \<and> truthy (own_prop cd ''end_date''))"
  then show "calculateCampDurationDays newDate cd = Fin 1"
    by (rule duration_absent)
next
  assume "newDate (own_prop cd ''start_date'') = InvalidDate
            \<or> newDate (own_prop cd ''end_date'') = InvalidDate"
  then show "calculateCampDurationDays newDate cd = Fin 1"
    by (rule duration_invalid)
next
  fix s e
  assume "truthy cd \<and> truthy (own_prop cd ''start_date'') \<and> truthy (own_prop cd ''end_date'')
            \<and> newDate (own_prop cd ''start_date'') = Date s
            \<and> newDate (own_prop cd ''end_date'') = Date e
            \<and> \<bar>s\<bar> \<le> 8640000000000000 \<and> \<bar>e\<bar> \<le> 8640000000000000
            \<and> \<bar>e - s\<bar> \<le> 9007199254740992"
  then show "calculateCampDurationDays newDate cd
               = Fin (of_int (\<lceil>of_int \<bar>e - s\<bar> / (86400000 :: real)\<rceil> + 1))"
    using duration_of_dates [of cd newDate s e] by blast
next
  show "\<exists>n. 1 \<le> n \<and> calculateCampDurationDays newDate cd = Fin (of_int n)"
    by (rule duration_at_least_one)
next
  fix d t
  assume h: "truthy d \<and> newDate d = Date t"
  show "calculateCampDurationDays newDate (camp_window d d) = Fin 1"
  proof (cases "\<bar>t\<bar> \<le> 8640000000000000")
    case True
    with h show ?thesis
      using duration_of_window [of d d newDate t t] by simp
  next
    case False
    with h have "valueOf (newDate (own_prop (camp_window d d) ''start_date'')) = NaN"
      by (simp add: camp_window_props)
    then show ?thesis
      by (intro duration_no_value) simp
  qed
next
  show "calculateCampDurationDays Date_new (camp_window (JStr ''2025-01-01'') (JStr ''2025-01-05''))
          = Fin 5"
    by (rule duration_jan_1_to_5)
next
  show "calculateCampDurationDays Date_new
          (camp_window (JNum (Fin (- 8640000000000000))) (JNum (Fin 4320000000000001)))
          = Fin 150000001"
    by (rule duration_far_apart)
next
  show "\<lceil>of_int \<bar>4320000000000001 - (- 8640000000000000)\<bar> / (86400000 :: real)\<rceil> + 1 = 150000002"
    by simp
qed

theorem duration_days_amended_witness:
  "truthy (camp_window (JStr ''2025-01-05'') (JStr ''2025-01-01''))
   \<and> truthy (own_prop (camp_window (JStr ''2025-01-05'') (JStr ''2025-01-01'')) ''start_date'')
   \<and> truthy (own_prop (camp_window (JStr ''2025-01-05'') (JStr ''2025-01-01'')) ''end_date'')
   \<and> Date_new (own_prop (camp_window (JStr ''2025-01-05'') (JStr ''2025-01-01'')) ''start_date'')
       = Date 1736035200000
   \<and> Date_new (own_prop (camp_window (JStr ''2025-01-05'') (JStr ''2025-01-01'')) ''end_date'')
       = Date 1735689600000
   \<and> \<bar>1736035200000 :: int\<bar> \<le> 8640000000000000
   \<and> \<bar>1735689600000 :: int\<bar> \<le> 8640000000000000
   \<and> \<bar>1735689600000 - 1736035200000 :: int\<bar> \<le> 9007199254740992
   \<and> calculateCampDurationDays Date_new (camp_window (JStr ''2025-01-05'') (JStr ''2025-01-01''))
       = Fin 5
   \<and> \<not> truthy JNull
   \<and> calculateCampDurationDays Date_new JNull = Fin 1
   \<and> Date_new (own_prop (camp_window (JStr ''soon'') (JStr ''2025-01-01'')) ''start_date'')
       = InvalidDate
   \<and> calculateCampDurationDays Date_new (camp_window (JStr ''soon'') (JStr ''2025-01-01'')) = Fin 1
   \<and> truthy (JStr ''2025-01-01'')
   \<and> Date_new (JStr ''2025-01-01'') = Date 1735689600000
   \<and> calculateCampDurationDays Date_new (camp_window (JStr ''2025-01-01'') (JStr ''2025-01-01''))
       = Fin 1"
proof -
  let ?w = "camp_window (JStr ''2025-01-05'') (JStr ''2025-01-01'')"
  let ?v = "camp_window (JStr ''soon'') (JStr ''2025-01-01'')"
  have props: "truthy ?w" "truthy (own_prop ?w ''start_date'')" "truthy (own_prop ?w ''end_date'')"
    by (simp_all add: camp_window_props)
  have dates: "Date_new (own_prop ?w ''start_date'') = Date 1736035200000"
    "Date_new (own_prop ?w ''end_date'') = Date 1735689600000"
    by (simp_all only: camp_window_props date_2025_01_01 date_2025_01_05)
  have range: "\<bar>1736035200000 :: int\<bar> \<le> 8640000000000000"
    "\<bar>1735689600000 :: int\<bar> \<le> 8640000000000000"
    "\<bar>1735689600000 - 1736035200000 :: int\<bar> \<le> 9007199254740992"
    by simp_all
  have invalid: "Date_new (own_prop ?v ''start_date'') = InvalidDate"
    by (simp add: camp_window_props parse_date_only_def)
  from duration_days_amended [of ?w Date_new] props dates range
  have "calculateCampDurationDays Date_new ?w
          = Fin (of_int (\<lceil>of_int \<bar>1735689600000 - 1736035200000\<bar> / (86400000 :: real)\<rceil> + 1))"
    by blast
  then have five: "calculateCampDurationDays Date_new ?w = Fin 5"
    by simp
  have absent: "calculateCampDurationDays Date_new JNull = Fin 1"
    using duration_days_amended [of JNull Date_new] by simp
  have one: "calculateCampDurationDays Date_new ?v = Fin 1"
    using duration_days_amended [of ?v Date_new] invalid by blast
  have day: "truthy (JStr ''2025-01-01'')"
    by simp
  with duration_days_amended [of JNull Date_new] date_2025_01_01
  have same: "calculateCampDurationDays Date_new
                (camp_window (JStr ''2025-01-01'') (JStr ''2025-01-01'')) = Fin 1"
    by blast
  have null: "\<not> truthy JNull"
    by simp
  from props dates range five null absent invalid one day date_2025_01_01 same show ?thesis
    by (simp only: simp_thms)
qed

text \<open>
  C2 as stated fails: the window from 2025-01-05 back to 2025-01-01, whose end precedes
  its start, does not last the 1 day of the specification but 5 days.
\<close>

theorem duration_end_before_start_counterexample:
  "calculateCampDurationDays Date_new (camp_window (JStr ''2025-01-05'') (JStr ''2025-01-01''))
     \<noteq> Fin (of_int (computeDurationDays_spec
                       (Some (Date_new (JStr ''2025-01-05''), Date_new (JStr ''2025-01-01'')))))"
  by (simp add: duration_jan_5_to_1 date_2025_01_01 date_2025_01_05 del: Date_new.simps)

text \<open>
  C10. The duration is symmetric in the two dates of the window: for every Date
  constructor and every two values, swapping the start date and the end date leaves the
  duration unchanged; for two valid dates at most \<open>2^53\<close> milliseconds apart it is the
  same positive number of days, the absolute difference of the time values in days,
  rounded up, plus 1.
\<close>

theorem duration_symmetric:
  "calculateCampDurationDays newDate (camp_window d1 d2)
     = calculateCampDurationDays newDate (camp_window d2 d1)
   \<and> (\<forall>t1 t2. truthy d1 \<and> truthy d2 \<and> newDate d1 = Date t1 \<and> newDate d2 = Date t2
          \<and> \<bar>t1\<bar> \<le> 8640000000000000 \<and> \<bar>t2\<bar> \<le> 8640000000000000
          \<and> \<bar>t2 - t1\<bar> \<le> 9007199254740992
      \<longrightarrow> calculateCampDurationDays newDate (camp_window d2 d1)
            = Fin (of_int (\<lceil>of_int \<bar>t2 - t1\<bar> / (86400000 :: real)\<rceil> + 1))
          \<and> 0 < \<lceil>of_int \<bar>t2 - t1\<bar> / (86400000 :: real)\<rceil> + 1)"
proof (intro conjI allI impI)
  show "calculateCampDurationDays newDate (camp_window d1 d2)
          = calculateCampDurationDays newDate (camp_window d2 d1)"
    unfolding calculateCampDurationDays_def Let_def
    by (simp add: camp_window_props conj_commute
        abs_sub_commute [of "valueOf (newDate d2)" "valueOf (newDate d1)"])
next
  fix t1 t2
  assume h: "truthy d1 \<and> truthy d2 \<and> newDate d1 = Date t1 \<and> newDate d2 = Date t2
               \<and> \<bar>t1\<bar> \<le> 8640000000000000 \<and> \<bar>t2\<bar> \<le> 8640000000000000
               \<and> \<bar>t2 - t1\<bar> \<le> 9007199254740992"
  then have "\<bar>t1 - t2\<bar> \<le> 9007199254740992" by linarith
  with h have "calculateCampDurationDays newDate (camp_window d2 d1)
                 = Fin (of_int (\<lceil>of_int \<bar>t1 - t2\<bar> / (86400000 :: real)\<rceil> + 1))"
    using duration_of_window [of d2 d1 newDate t2 t1] by blast
  then show "calculateCampDurationDays newDate (camp_window d2 d1)
               = Fin (of_int (\<lceil>of_int \<bar>t2 - t1\<bar> / (86400000 :: real)\<rceil> + 1))"
    by (simp only: abs_minus_commute [of t1 t2])
next
  fix t1 t2
  have "(0 :: real) \<le> of_int \<bar>t2 - t1\<bar> / 86400000" by simp
  then have "0 \<le> \<lceil>of_int \<bar>t2 - t1\<bar> / (86400000 :: real)\<rceil>" by simp
  then show "0 < \<lceil>of_int \<bar>t2 - t1\<bar> / (86400000 :: real)\<rceil> + 1" by linarith
qed

theorem duration_symmetric_witness:
  "truthy (JStr ''2025-01-01'') \<and> truthy (JStr ''2025-01-05'')
   \<and> Date_new (JStr ''2025-01-01'') = Date 1735689600000
   \<and> Date_new (JStr ''2025-01-05'') = Date 1736035200000
   \<and> \<bar>1735689600000 :: int\<bar> \<le> 8640000000000000
   \<and> \<bar>1736035200000 :: int\<bar> \<le> 8640000000000000
   \<and> \<bar>1736035200000 - 1735689600000 :: int\<bar> \<le> 9007199254740992
   \<and> calculateCampDurationDays Date_new (camp_window (JStr ''2025-01-01'') (JStr ''2025-01-05''))
       = Fin 5
   \<and> calculateCampDurationDays Date_new (camp_window (JStr ''2025-01-05'') (JStr ''2025-01-01''))
       = Fin 5"
proof -
  have t: "truthy (JStr ''2025-01-01'')" "truthy (JStr ''2025-01-05'')"
    by simp_all
  have range: "\<bar>1735689600000 :: int\<bar> \<le> 8640000000000000"
    "\<bar>1736035200000 :: int\<bar> \<le> 8640000000000000"
    "\<bar>1736035200000 - 1735689600000 :: int\<bar> \<le> 9007199254740992"
    by simp_all
  note sym = duration_symmetric [of Date_new "JStr ''2025-01-01''" "JStr ''2025-01-05''"]
  from sym t date_2025_01_01 date_2025_01_05 range
  have "calculateCampDurationDays Date_new (camp_window (JStr ''2025-01-05'') (JStr ''2025-01-01''))
          = Fin (of_int (\<lceil>of_int \<bar>1736035200000 - 1735689600000\<bar> / (86400000 :: real)\<rceil> + 1))"
    by blast
  then have swapped: "calculateCampDurationDays Date_new
                     (camp_window (JStr ''2025-01-05'') (JStr ''2025-01-01'')) = Fin 5"
    by simp
  with sym have "calculateCampDurationDays Date_new
                   (camp_window (JStr ''2025-01-01'') (JStr ''2025-01-05'')) = Fin 5"
    by (simp only:)
  with swapped t date_2025_01_01 date_2025_01_05 range show ?thesis
    by (simp only: simp_thms)
qed

section \<open>Properties of the cost estimate\<close>

text \<open>Roundings that the examples below go through.\<close>

lemma round64_numeral:
  "(numeral k :: int) \<le> 9007199254740992 \<Longrightarrow> round64 (numeral k) = Fin (numeral k)"
  "(numeral k :: int) \<le> 9007199254740992 \<Longrightarrow> round64 (- numeral k) = Fin (- numeral k)"
  "round64 0 = Fin 0" "round64 1 = Fin 1"
  using round64_int [of "numeral k"] round64_int [of "- numeral k"] round64_int [of 0]
    round64_int [of 1]
  by simp_all

lemma round64_two_and_half: "round64 (5 / 2) = Fin (5 / 2)"
  using round64_cert [of "5 / 2" 1 5629499534213120]
  by (simp add: rne_def power_int_minus)

lemma small_number: "round64 (1 / 2000000) = Fin (4722366482869645 / 9444732965739290427392)"
  using round64_cert [of "1 / 2000000" "- 21" 4722366482869645]
  by (simp add: rne_def power_int_minus)

lemma tiny_le_one: "js_le (round64 (1 / 1000000)) (Fin x) = (4722366482869645 / 4722366482869645213696 \<le> x)"
  by (simp add: lit_1e_6)

lemma num_1e21: "round64 1000000000000000000000 = Fin 1000000000000000000000"
  using round64_cert [of 1000000000000000000000 69 7629394531250000]
  by (simp add: rne_def)

lemma num_2e21: "round64 2000000000000000000000 = Fin 2000000000000000000000"
  using round64_cert [of 2000000000000000000000 70 7629394531250000]
  by (simp add: rne_def)

lemma or_zero_round64: "or_zero (round64 z) = round64 z"
  by (simp add: or_zero_def round64_not_NaN)

text \<open>
  Overflow: what is \<open>2^1024\<close> or more rounds to plus infinity, as twice the binary64
  number of \<open>1e308\<close> does.
\<close>

lemma round64_overflow:
  assumes "overflow_threshold \<le> x"
  shows "round64 x = PosInf"
proof -
  have thr: "overflow_threshold = 2 powi 1024"
    by (simp add: overflow_threshold_def)
  have pos: "0 < x"
    using assms by (simp add: overflow_threshold_def)
  have big: "1024 \<le> cexp x"
  proof (rule ccontr)
    assume "\<not> 1024 \<le> cexp x"
    then have "cexp x + 1 \<le> 1024" by simp
    then have "(2 :: real) powi (cexp x + 1) \<le> 2 powi 1024"
      by (intro power_int_increasing) simp_all
    with cexp_upper [OF pos] assms thr show False by simp
  qed
  then have "(2 :: real) powi 1024 \<le> 2 powi cexp x"
    by (intro power_int_increasing) simp_all
  also have "\<dots> \<le> rounded x"
    using pos big by (intro rounded_ge_pow) simp_all
  finally have "overflow_threshold \<le> rounded x"
    by (simp only: thr)
  with pos show ?thesis
    by (simp add: round64_def round_abs_def)
qed

lemma round64_cert_top:
  assumes "2 powi 1023 \<le> x" "x < 2 powi 1024" "rne (x / 2 powi 971) = m" "m < 2 ^ 53"
  shows "round64 x = Fin (of_int m * 2 powi 971)"
proof -
  have "(0 :: real) < 2 powi 1023" by simp
  with assms(1) have pos: "0 < x" by linarith
  have e: "cexp x = 1023"
    using pos assms(1,2) by (intro cexp_eq) simp_all
  have "(1023 :: int) - 52 = 971" by simp
  then have r: "rounded x = of_int m * 2 powi 971"
    by (simp only: rounded_def ulp_def e assms(3))
  have "(of_int m :: real) < 2 ^ 53"
    using assms(4) by (metis of_int_less_iff of_int_numeral of_int_power)
  then have "of_int m * (2 :: real) powi 971 < 2 ^ 53 * 2 powi 971"
    by (intro mult_strict_right_mono) simp_all
  also have "(2 :: real) ^ 53 * 2 powi 971 = 2 powi 53 * 2 powi 971"
    by simp
  also have "\<dots> = 2 powi (53 + 971)"
    by (subst power_int_add) simp_all
  finally have "rounded x < overflow_threshold"
    by (simp add: r overflow_threshold_def)
  with pos show ?thesis
    by (simp add: round64_def round_abs_def r)
qed

lemma num_1e308:
  "round64 (10 ^ 308) = Fin 100000000000000001097906362944045541740492309677311846336810682903157585404911491537163328978494688899061249669721172515611590283743140088328307009198146046031271664502933027185697489699588559043338384466165001178426897626212945177628091195786707458122783970171784415105291802893207873272974885715430223118336"
  using round64_cert_top [of "10 ^ 308" 5010420900022432]
  by (simp add: rne_def)

lemma num_1e308_fixed:
  "round64 100000000000000001097906362944045541740492309677311846336810682903157585404911491537163328978494688899061249669721172515611590283743140088328307009198146046031271664502933027185697489699588559043338384466165001178426897626212945177628091195786707458122783970171784415105291802893207873272974885715430223118336
     = Fin 100000000000000001097906362944045541740492309677311846336810682903157585404911491537163328978494688899061249669721172515611590283743140088328307009198146046031271664502933027185697489699588559043338384466165001178426897626212945177628091195786707458122783970171784415105291802893207873272974885715430223118336"
  using round64_cert_top [of 100000000000000001097906362944045541740492309677311846336810682903157585404911491537163328978494688899061249669721172515611590283743140088328307009198146046031271664502933027185697489699588559043338384466165001178426897626212945177628091195786707458122783970171784415105291802893207873272974885715430223118336 5010420900022432]
  by (simp add: rne_def)

lemma twice_1e308:
  "round64 (2 * 100000000000000001097906362944045541740492309677311846336810682903157585404911491537163328978494688899061249669721172515611590283743140088328307009198146046031271664502933027185697489699588559043338384466165001178426897626212945177628091195786707458122783970171784415105291802893207873272974885715430223118336) = PosInf"
  by (rule round64_overflow) (simp add: overflow_threshold_def)

text \<open>The bands around some bases.\<close>

lemma band_150: "cost_band (Fin 150) = \<lparr>cost_min = Fin 128, cost_max = Fin 173\<rparr>"
  using round64_cert [of "574208952489738225 / 4503599627370496" 6 8972014882652160]
    round64_cert [of "194217733930352625 / 1125899906842624" 7 6069304185323520]
  by (simp add: cost_band_def lit_085 lit_115 rne_def power_int_minus)

lemma band_50: "cost_band (Fin 50) = \<lparr>cost_min = Fin 43, cost_max = Fin 57\<rparr>"
  using round64_cert [of "191402984163246075 / 4503599627370496" 5 5981343255101440]
    round64_cert [of "64739244643450875 / 1125899906842624" 5 8092405580431359]
  by (simp add: cost_band_def lit_085 lit_115 rne_def power_int_minus)

lemma band_4: "cost_band (Fin 4) = \<lparr>cost_min = Fin 3, cost_max = Fin 5\<rparr>"
  using round64_cert [of "7656119366529843 / 2251799813685248" 1 7656119366529843]
    round64_cert [of "2589569785738035 / 562949953421312" 2 5179139571476070]
  by (simp add: cost_band_def lit_085 lit_115 rne_def power_int_minus)

lemma band_5: "cost_band (Fin 5) = \<lparr>cost_min = Fin 4, cost_max = Fin 6\<rparr>"
  using round64_cert [of "38280596832649215 / 9007199254740992" 2 4785074604081152]
    round64_cert [of "12947848928690175 / 2251799813685248" 2 6473924464345088]
  by (simp add: cost_band_def lit_085 lit_115 rne_def power_int_minus)

lemma band_minus_20: "cost_band (Fin (- 20)) = \<lparr>cost_min = Fin (- 17), cost_max = Fin (- 23)\<rparr>"
proof -
  have "round64 (38280596832649215 / 2251799813685248) = Fin 17"
    "round64 (12947848928690175 / 562949953421312) = Fin 23"
    using round64_cert [of "38280596832649215 / 2251799813685248" 4 4785074604081152]
      round64_cert [of "12947848928690175 / 562949953421312" 4 6473924464345088]
    by (simp_all add: rne_def power_int_minus)
  then have "round64 (- (38280596832649215 / 2251799813685248)) = Fin (- 17)"
    "round64 (- (12947848928690175 / 562949953421312)) = Fin (- 23)"
    by (simp_all only: round64_minus js_neg.simps)
  then show ?thesis
    by (simp add: cost_band_def lit_085 lit_115)
qed

lemma band_300: "cost_band (Fin 300) = \<lparr>cost_min = Fin 255, cost_max = Fin 345\<rparr>"
  using round64_cert [of "574208952489738225 / 2251799813685248" 7 8972014882652160]
    round64_cert [of "194217733930352625 / 562949953421312" 8 6069304185323520]
  by (simp add: cost_band_def lit_085 lit_115 rne_def power_int_minus)

lemma band_725: "cost_band (Fin 725) = \<lparr>cost_min = Fin 616, cost_max = Fin 834\<rparr>"
  using round64_cert [of "5550686540734136175 / 9007199254740992" 9 5420592324935680]
    round64_cert [of "1877438094660075375 / 2251799813685248" 9 7333742557265919]
  by (simp add: cost_band_def lit_085 lit_115 rne_def power_int_minus)

text \<open>The estimate is the band around the three sums, and the staff sum repeats one product.\<close>

lemma estimate_is_formula:
  "calculateEstimatedCost costs newDate cd staff_list medicine_list equipment_list tp
     = estimateCost_spec parsed_real parsed_count costs (calculateCampDurationDays newDate cd)
         staff_list medicine_list equipment_list tp"
  unfolding calculateEstimatedCost_def estimateCost_spec_def cost_band_def staffCost_spec_def
    medicineCost_spec_def equipmentCost_spec_def js_sum_def Let_def parsed_real_def parsed_count_def
  by (simp only: foldl_map)

lemma foldl_ignores_entries:
  "length xs = length ys \<Longrightarrow> foldl (\<lambda>total _. g total) a xs = foldl (\<lambda>total _. g total) a ys"
proof (induction xs arbitrary: ys a)
  case Nil
  then show ?case by simp
next
  case (Cons x xs)
  then obtain y ys' where "ys = y # ys'" "length xs = length ys'"
    by (cases ys) auto
  with Cons.IH [of ys' "g a"] show ?case by simp
qed

lemma staff_sum_replicate:
  "staffCost_spec costs days staff_list
     = js_sum (replicate (length staff_list) (js_mul (staffPerDay costs) days))"
  by (simp add: staffCost_spec_def map_replicate_const)

lemma repeated_sum_exact:
  assumes "0 \<le> a" "0 \<le> p" "a + int n * p \<le> 9007199254740992"
  shows "foldl js_add (Fin (of_int a)) (replicate n (Fin (of_int p))) = Fin (of_int (a + int n * p))"
  using assms
proof (induction n arbitrary: a)
  case 0
  then show ?case by simp
next
  case (Suc n)
  have le: "a + p \<le> a + int (Suc n) * p"
    using Suc.prems(2) by (simp add: algebra_simps)
  then have "\<bar>a + p\<bar> \<le> 9007199254740992"
    using Suc.prems by simp
  then have "round64 (of_int (a + p)) = Fin (of_int (a + p))"
    by (rule round64_int)
  then have step: "js_add (Fin (of_int a)) (Fin (of_int p)) = Fin (of_int (a + p))"
    by simp
  have "0 \<le> a + p" using Suc.prems(1,2) by simp
  moreover have eq: "a + p + int n * p = a + int (Suc n) * p"
    by (simp add: algebra_simps)
  ultimately have "foldl js_add (Fin (of_int (a + p))) (replicate n (Fin (of_int p)))
                     = Fin (of_int (a + p + int n * p))"
    using Suc.prems(2,3) by (intro Suc.IH) simp_all
  then have "foldl js_add (js_add (Fin (of_int a)) (Fin (of_int p))) (replicate n (Fin (of_int p)))
               = Fin (of_int (a + int (Suc n) * p))"
    by (simp only: step eq)
  then show ?case
    by (simp only: replicate_Suc foldl_Cons)
qed

lemma staff_contribution_exact:
  assumes "0 \<le> r" "0 \<le> d" "int n * (r * d) \<le> 9007199254740992"
  shows "js_sum (replicate n (js_mul (Fin (of_int r)) (Fin (of_int d))))
           = Fin (of_int (int n * (r * d)))"
proof (cases n)
  case 0
  then show ?thesis by (simp add: js_sum_def)
next
  case (Suc k)
  have p: "0 \<le> r * d" using assms(1,2) by simp
  then have "0 \<le> int k * (r * d)" by simp
  then have "r * d \<le> int n * (r * d)"
    using Suc by (simp add: algebra_simps)
  with p assms(3) have "\<bar>r * d\<bar> \<le> 9007199254740992" by simp
  then have "round64 (of_int (r * d)) = Fin (of_int (r * d))"
    by (rule round64_int)
  then have "js_mul (Fin (of_int r)) (Fin (of_int d)) = Fin (of_int (r * d))"
    by simp
  moreover have "foldl js_add (Fin (of_int 0)) (replicate n (Fin (of_int (r * d))))
                   = Fin (of_int (0 + int n * (r * d)))"
    using p assms(3) by (intro repeated_sum_exact) simp_all
  ultimately show ?thesis
    by (simp add: js_sum_def)
qed

lemma base_of_staff_only:
  assumes "\<bar>N\<bar> \<le> 9007199254740992"
  shows "js_add (js_add (Fin (of_int N)) (js_sum [])) (js_sum []) = Fin (of_int N)"
  using round64_int [OF assms] by (simp add: js_sum_def)

text \<open>No product or sum of numbers that are not negative is negative.\<close>

lemma nonneg_finite_nbz: "nonneg_finite a \<Longrightarrow> not_below_zero a"
  by (cases a) simp_all

lemma round64_nbz: "0 \<le> x \<Longrightarrow> not_below_zero (round64 x)"
  using round64_nonneg [of x] by auto

lemma nbz_add: "not_below_zero a \<Longrightarrow> not_below_zero b \<Longrightarrow> not_below_zero (js_add a b)"
  by (cases a; cases b) (simp_all add: round64_nbz)

lemma nbz_mul: "not_below_zero a \<Longrightarrow> not_below_zero b \<Longrightarrow> not_below_zero (js_mul a b)"
  by (cases a; cases b) (simp_all add: round64_nbz signed_inf_def)

lemma nbz_foldl:
  "not_below_zero a \<Longrightarrow> \<forall>x \<in> set xs. not_below_zero x \<Longrightarrow> not_below_zero (foldl js_add a xs)"
  by (induction xs arbitrary: a) (simp_all add: nbz_add)

lemma nbz_sum: "\<forall>x \<in> set xs. not_below_zero x \<Longrightarrow> not_below_zero (js_sum xs)"
  unfolding js_sum_def by (rule nbz_foldl) simp_all

lemma duration_nbz: "not_below_zero (calculateCampDurationDays newDate cd)"
proof -
  obtain n where "1 \<le> n" "calculateCampDurationDays newDate cd = Fin (of_int n)"
    using duration_at_least_one by blast
  then show ?thesis by simp
qed

lemma lit_order:
  "(0 :: real) < 7656119366529843 / 9007199254740992"
  "(7656119366529843 / 9007199254740992 :: real) \<le> 2589569785738035 / 2251799813685248"
  by simp_all

text \<open>A base that is not negative, with a finite upper end, has a valid band.\<close>

lemma band_valid:
  assumes "not_below_zero base" "is_finite (cost_max (cost_band base))"
  shows "valid_estimate (cost_band base)"
proof -
  have "base \<noteq> NaN" "base \<noteq> PosInf" "base \<noteq> NegInf"
    using assms by (auto simp: cost_band_def lit_115 signed_inf_def)
  then obtain b where b: "base = Fin b"
    by (cases base) simp_all
  with assms(1) have b0: "0 \<le> b" by simp
  let ?lo = "b * 7656119366529843 / 9007199254740992"
  let ?hi = "b * 2589569785738035 / 2251799813685248"
  from assms(2) obtain v where v: "round64 ?hi = Fin v"
    by (cases "round64 ?hi") (simp_all add: cost_band_def b lit_115)
  have "0 \<le> ?lo" "?lo \<le> ?hi"
    using b0 mult_left_mono [OF lit_order(2) b0] by simp_all
  from round64_mono [OF this v] obtain u where u: "round64 ?lo = Fin u" "0 \<le> u" "u \<le> v"
    by blast
  have lo: "0 \<le> \<lfloor>u + 1 / 2\<rfloor>"
    using u(2) by simp
  have "u + 1 / 2 \<le> v + 1 / 2"
    using u(3) by simp
  then have mono: "\<lfloor>u + 1 / 2\<rfloor> \<le> \<lfloor>v + 1 / 2\<rfloor>"
    by (rule floor_mono)
  with lo have hi: "0 \<le> \<lfloor>v + 1 / 2\<rfloor>"
    by linarith
  show ?thesis
    using lo hi mono by (simp add: valid_estimate_def cost_band_def b lit_085 lit_115 u(1) v)
qed

text \<open>The first decimal digit of a positive number lies between 1 and 9.\<close>

lemma ndigits_bounds:
  "1 \<le> n \<Longrightarrow> 10 ^ (ndigits n - 1) \<le> n \<and> n < 10 ^ ndigits n"
proof (induction n rule: ndigits.induct)
  case (1 n)
  show ?case
  proof (cases "n < 10")
    case True
    with "1.prems" show ?thesis by (simp add: ndigits.simps [of n])
  next
    case False
    define k where "k = ndigits (n div 10)"
    have nk: "ndigits n = Suc k"
      using False by (simp add: ndigits.simps [of n] k_def)
    have "1 \<le> n div 10" using False by simp
    with "1.IH" [OF False] have ih: "10 ^ (k - 1) \<le> n div 10" "n div 10 < 10 ^ k"
      by (simp_all add: k_def)
    have k1: "1 \<le> k"
      by (simp add: k_def ndigits.simps [of "n div 10"])
    then have "(10 :: int) ^ k = 10 * 10 ^ (k - 1)"
      by (cases k) simp_all
    with ih(1) have lo: "10 ^ k \<le> n" by linarith
    from ih(2) have "n < 10 * 10 ^ k" by linarith
    with lo show ?thesis by (simp add: nk)
  qed
qed

lemma dec_exp_bounds:
  assumes "0 < q"
  shows "10 powi dec_exp q \<le> q" and "q < 10 powi (dec_exp q + 1)"
proof -
  have both: "10 powi dec_exp q \<le> q \<and> q < 10 powi (dec_exp q + 1)"
  proof (cases "1 \<le> q")
    case True
    define n where "n = \<lfloor>q\<rfloor>"
    define k where "k = ndigits n"
    have n1: "1 \<le> n" using True by (simp add: n_def le_floor_iff)
    from ndigits_bounds [OF n1] have b: "10 ^ (k - 1) \<le> n" "n < 10 ^ k"
      by (simp_all add: k_def)
    have k1: "1 \<le> k" by (simp add: k_def ndigits.simps [of n])
    have d: "dec_exp q = int (k - 1)"
      using True k1 by (simp add: dec_exp_def n_def k_def)
    have "(of_int (10 ^ (k - 1)) :: real) \<le> of_int n"
      using b(1) by (simp only: of_int_le_iff)
    also have "\<dots> \<le> q" by (simp add: n_def)
    finally have lo: "(10 :: real) ^ (k - 1) \<le> q" by simp
    have "n + 1 \<le> 10 ^ k" using b(2) by simp
    then have "(of_int (n + 1) :: real) \<le> of_int (10 ^ k)"
      by (simp only: of_int_le_iff)
    moreover have "q < of_int (n + 1)"
      by (simp add: n_def)
    ultimately have hi: "q < (10 :: real) ^ k" by simp
    have "dec_exp q + 1 = int k" using k1 by (simp add: d)
    then have "(10 :: real) powi (dec_exp q + 1) = 10 ^ k"
      by (simp only: power_int_of_nat)
    moreover have "(10 :: real) powi dec_exp q = 10 ^ (k - 1)"
      by (simp only: d power_int_of_nat)
    ultimately show ?thesis
      using lo hi by (simp only: simp_thms)
  next
    case False
    define r where "r = 1 / q"
    define n where "n = \<lceil>r\<rceil> - 1"
    define k where "k = ndigits n"
    have r1: "1 < r" using False assms by (simp add: r_def)
    then have n1: "1 \<le> n" by (simp add: n_def less_ceiling_iff)
    from ndigits_bounds [OF n1] have b: "10 ^ (k - 1) \<le> n" "n < 10 ^ k"
      by (simp_all add: k_def)
    have k1: "1 \<le> k" by (simp add: k_def ndigits.simps [of n])
    have d: "dec_exp q = - int k"
      using False by (simp add: dec_exp_def n_def k_def r_def)
    have nr: "of_int n < r" "r \<le> of_int n + 1"
      by (simp_all add: n_def) linarith+
    have "n + 1 \<le> 10 ^ k" using b(2) by simp
    then have "(of_int (n + 1) :: real) \<le> of_int (10 ^ k)"
      by (simp only: of_int_le_iff)
    with nr(2) have "r \<le> 10 ^ k" by simp
    then have "1 / q \<le> 10 ^ k" by (simp add: r_def)
    then have "1 \<le> 10 ^ k * q"
      using assms by (simp add: field_simps)
    then have lo: "1 / 10 ^ k \<le> q"
      by (simp add: field_simps)
    have "(of_int (10 ^ (k - 1)) :: real) \<le> of_int n"
      using b(1) by (simp only: of_int_le_iff)
    then have "(10 :: real) ^ (k - 1) \<le> of_int n" by simp
    with nr(1) have "(10 :: real) ^ (k - 1) < r" by linarith
    then have "(10 :: real) ^ (k - 1) < 1 / q" by (simp add: r_def)
    then have "10 ^ (k - 1) * q < 1"
      using assms by (simp add: field_simps)
    then have hi: "q < 1 / 10 ^ (k - 1)"
      by (simp add: field_simps)
    have e: "- int k + 1 = - int (k - 1)" using k1 by simp
    have "(10 :: real) powi (- int k) = 1 / 10 ^ k"
      by (simp add: power_int_minus field_simps)
    moreover have "(10 :: real) powi (- int k + 1) = 1 / 10 ^ (k - 1)"
      by (simp only: e) (simp add: power_int_minus field_simps)
    ultimately show ?thesis
      using lo hi by (simp add: d)
  qed
  from both show "10 powi dec_exp q \<le> q" and "q < 10 powi (dec_exp q + 1)"
    by simp_all
qed

lemma lead_digit_range:
  assumes "0 < q"
  shows "1 \<le> lead_digit q" and "lead_digit q \<le> 9"
proof -
  define p :: real where "p = 10 powi dec_exp q"
  have p: "0 < p" by (simp add: p_def)
  have "10 powi (dec_exp q + 1) = p * 10"
    by (simp add: p_def power_int_add)
  with dec_exp_bounds [OF assms] have "p \<le> q" "q < p * 10"
    by (simp_all add: p_def)
  then have "1 \<le> q / p" "q / p < 10"
    using p by (simp_all add: field_simps)
  then show "1 \<le> lead_digit q" and "lead_digit q \<le> 9"
    unfolding lead_digit_def p_def [symmetric] by (simp_all add: le_floor_iff floor_less_iff)
qed

lemma repr_lead_digit_range:
  assumes "0 < q"
  shows "1 \<le> repr_lead_digit q" and "repr_lead_digit q \<le> 9"
  using lead_digit_range [OF assms] by (simp_all add: repr_lead_digit_def Let_def)

text \<open>What \<open>parseFloat\<close> and \<open>parseInt\<close>, with 0 for NaN, make of numbers and of strings.\<close>

lemma parsed_real_number: "parsed_real (JNum (Fin q)) = round64 q"
  by (simp add: parsed_real_def or_zero_round64)

lemma parsed_count_int:
  assumes "0 \<le> k" "k \<le> 9007199254740992"
  shows "parsed_count (JNum (Fin (of_int k))) = Fin (of_int k)"
proof -
  have r: "round64 (of_int k) = Fin (of_int k)"
    using assms by (intro round64_int) simp
  show ?thesis
  proof (cases "k = 0")
    case True
    then show ?thesis using r by (simp add: parsed_count_def or_zero_def)
  next
    case False
    with assms(1) have k1: "1 \<le> k" by simp
    then have "(1 :: real) \<le> of_int k" by simp
    then have lo: "(4722366482869645 / 4722366482869645213696 :: real) \<le> \<bar>of_int k\<bar>" by simp
    have "(of_int k :: real) \<le> 9007199254740992"
      using assms(2) by (metis of_int_le_iff of_int_numeral)
    then have hi: "\<bar>of_int k :: real\<bar> < 10 ^ 21" using k1 by simp
    have "parseInt_num (Fin (of_int k)) = Fin (of_int k)"
      using k1 lo hi by (simp add: tiny_le_one del: of_int_abs)
    then show ?thesis
      using r k1 by (simp add: parsed_count_def or_zero_def)
  qed
qed

lemma parsed_count_decimal:
  assumes "round64 x = Fin y" "js_le (round64 (1 / 10 ^ 6)) (Fin \<bar>y\<bar>)" "\<bar>y\<bar> < 10 ^ 21"
  shows "parsed_count (JNum (Fin x)) = Fin (of_int (if y < 0 then - \<lfloor>- y\<rfloor> else \<lfloor>y\<rfloor>))"
proof -
  have "parseInt_num (Fin y) = Fin (of_int (if y < 0 then - \<lfloor>- y\<rfloor> else \<lfloor>y\<rfloor>))"
    using assms(2,3) by (simp only: parseInt_num.simps simp_thms if_True split: if_splits) simp
  then show ?thesis
    by (simp add: parsed_count_def assms(1) or_zero_def)
qed

lemma parsed_count_exponent:
  assumes "round64 x = Fin y" "y \<noteq> 0"
    and "\<not> (js_le (round64 (1 / 10 ^ 6)) (Fin \<bar>y\<bar>) \<and> \<bar>y\<bar> < 10 ^ 21)"
  shows "parsed_count (JNum (Fin x))
           = Fin (of_int ((if y < 0 then - 1 else 1) * repr_lead_digit \<bar>y\<bar>))"
    and "1 \<le> repr_lead_digit \<bar>y\<bar>" and "repr_lead_digit \<bar>y\<bar> \<le> 9"
proof -
  have pos: "0 < \<bar>y\<bar>" using assms(2) by simp
  from repr_lead_digit_range [OF pos]
  show d: "1 \<le> repr_lead_digit \<bar>y\<bar>" "repr_lead_digit \<bar>y\<bar> \<le> 9" .
  have "parseInt_num (Fin y) = Fin (of_int ((if y < 0 then - 1 else 1) * repr_lead_digit \<bar>y\<bar>))"
    using assms(2,3) by (simp only: parseInt_num.simps if_False)
  moreover have "(if y < 0 then - 1 else 1) * repr_lead_digit \<bar>y\<bar> \<noteq> 0"
    using d(1) by simp
  ultimately show "parsed_count (JNum (Fin x))
           = Fin (of_int ((if y < 0 then - 1 else 1) * repr_lead_digit \<bar>y\<bar>))"
    by (simp add: parsed_count_def assms(1) or_zero_def)
qed

lemma digit_not_ws: "is_digit c \<Longrightarrow> \<not> is_ws c \<and> c \<noteq> CHR ''-'' \<and> c \<noteq> CHR ''+''"
  by (auto simp: is_digit_def is_ws_def)

lemma sign_not_ws: "\<not> is_ws CHR ''+''" "\<not> is_ws CHR ''-''"
  by (simp_all add: is_ws_def)

lemma parsed_count_signed_digits:
  assumes "ds \<noteq> []" "list_all is_digit ds" "list_all is_ws ws" "rest = [] \<or> \<not> is_digit (hd rest)"
    and "sg = [] \<or> sg = ''+'' \<or> sg = ''-''"
  shows "parsed_count (JStr (ws @ sg @ ds @ rest))
           = round64 (of_int ((if sg = ''-'' then - 1 else 1) * digits_val ds))"
proof -
  obtain d ds' where ds: "ds = d # ds'"
    using assms(1) by (cases ds) simp_all
  with assms(2) have d: "is_digit d" by simp
  have "dropWhile is_ws (ws @ sg @ ds @ rest) = dropWhile is_ws (sg @ ds @ rest)"
    using assms(3) by (intro dropWhile_append2) (simp add: list_all_iff)
  also have "\<dots> = sg @ ds @ rest"
    using digit_not_ws [OF d] assms(5) by (auto simp: ds sign_not_ws)
  finally have skip: "dropWhile is_ws (ws @ sg @ ds @ rest) = sg @ ds @ rest" .
  have sign: "scan_sign (sg @ ds @ rest) = (if sg = ''-'' then - 1 else 1, ds @ rest)"
    using digit_not_ws [OF d] assms(5) by (auto simp: ds)
  have "takeWhile is_digit rest = []"
    using assms(4) by (cases rest) simp_all
  moreover have "takeWhile is_digit (ds @ rest) = ds @ takeWhile is_digit rest"
    using assms(2) by (intro takeWhile_append2) (simp add: list_all_iff)
  ultimately have digits: "takeWhile is_digit (ds @ rest) = ds" by simp
  have "parseInt_str (ws @ sg @ ds @ rest)
          = round64 (of_int ((if sg = ''-'' then - 1 else 1) * digits_val ds))"
    using assms(1) by (simp add: parseInt_str_def skip sign digits)
  then show ?thesis
    by (simp add: parsed_count_def or_zero_round64)
qed

lemma skip_white_space:
  assumes "list_all is_ws ws" "rest = [] \<or> \<not> is_ws (hd rest)"
  shows "dropWhile is_ws (ws @ rest) = rest"
proof -
  have "dropWhile is_ws (ws @ rest) = dropWhile is_ws rest"
    using assms(1) by (intro dropWhile_append2) (simp add: list_all_iff)
  also have "\<dots> = rest"
    using assms(2) by (cases rest) simp_all
  finally show ?thesis .
qed

lemma parsed_count_no_number:
  assumes "list_all is_ws ws"
    and "rest = [] \<or> \<not> (is_ws (hd rest) \<or> is_digit (hd rest) \<or> hd rest \<in> set ''+-'')"
  shows "parsed_count (JStr (ws @ rest)) = Fin 0"
proof -
  have skip: "dropWhile is_ws (ws @ rest) = rest"
    using assms by (intro skip_white_space) auto
  have "scan_sign rest = (1, rest)" "takeWhile is_digit rest = []"
    using assms(2) by (cases rest; simp)+
  then show ?thesis
    by (simp add: parsed_count_def parseInt_str_def skip or_zero_def)
qed

lemma parsed_real_no_number:
  assumes "list_all is_ws ws"
    and "rest = [] \<or> \<not> (is_ws (hd rest) \<or> is_digit (hd rest) \<or> hd rest \<in> set ''+-.I'')"
  shows "parsed_real (JStr (ws @ rest)) = Fin 0"
proof -
  have skip: "dropWhile is_ws (ws @ rest) = rest"
    using assms by (intro skip_white_space) auto
  have "scan_sign rest = (1, rest)" "takeWhile is_digit rest = []" "dropWhile is_digit rest = rest"
    "take 8 rest \<noteq> ''Infinity''" "rest = [] \<or> hd rest \<noteq> CHR ''.''"
    using assms(2) by (cases rest; auto)+
  then show ?thesis
    by (auto simp: parsed_real_def parseFloat_str_def skip or_zero_def Let_def)
qed

lemma nullish_reads:
  "parsed_real JUndefined = Fin 0" "parsed_real JNull = Fin 0"
  "parsed_count JUndefined = Fin 0" "parsed_count JNull = Fin 0"
  by (simp_all add: parsed_real_def parsed_count_def or_zero_def)

lemma count_examples:
  "parsed_count (JNum (Fin (5 / 2))) = Fin 2"
  "parsed_count (JStr ''1e5'') = Fin 1"
  "parsed_count (JStr ''2.5'') = Fin 2"
  by (simp_all add: parsed_count_def or_zero_def round64_two_and_half tiny_le_one
      parseInt_str_def is_ws_def is_digit_def digits_val_def digit_val_def round64_numeral)

lemma count_three: "parsed_count (JNum (Fin 3)) = Fin 3"
  using parsed_count_int [of 3] by simp

lemma count_one: "parsed_count (JNum (Fin 1)) = Fin 1"
  using parsed_count_int [of 1] by simp

lemma count_hundred: "parsed_count (JStr ''100'') = Fin 100"
  by (simp add: parsed_count_def or_zero_def parseInt_str_def is_ws_def is_digit_def digits_val_def
      digit_val_def round64_numeral)

lemma real_two_and_half: "parsed_real (JStr ''2.5'') = Fin (5 / 2)"
  by (simp add: parsed_real_def or_zero_def parseFloat_str_def is_ws_def is_digit_def digits_val_def
      digit_val_def pow10_def round64_two_and_half)

lemma lead_digit_tiny: "repr_lead_digit (4722366482869645 / 9444732965739290427392) = 5"
  by (simp add: repr_lead_digit_def lead_digit_def dec_exp_def ndigits.simps power_int_minus
      small_number)

lemma lead_digit_1e21: "repr_lead_digit 1000000000000000000000 = 1"
  by (simp add: repr_lead_digit_def lead_digit_def dec_exp_def ndigits.simps num_2e21)

lemma count_1e21: "parsed_count (JNum (Fin (10 ^ 21))) = Fin 1"
  using parsed_count_exponent(1) [of "10 ^ 21" "10 ^ 21"]
  by (simp add: num_1e21 lead_digit_1e21)

text \<open>Some estimates.\<close>

lemma date_2025_01_03: "Date_new (JStr ''2025-01-03'') = Date 1735862400000"
  by (simp add: parse_date_only_def digits_val_def digit_val_def is_digit_def DayFromYear_def
      days_before_month_def days_in_month_def leap_year_def)

lemma duration_jan_1_to_3:
  "calculateCampDurationDays Date_new (camp_window (JStr ''2025-01-01'') (JStr ''2025-01-03'')) = Fin 3"
  using duration_of_window [OF _ _ date_2025_01_01 date_2025_01_03] by simp

lemma duration_null: "calculateCampDurationDays newDate JNull = Fin 1"
  using duration_absent [of JNull newDate] by simp

lemma one_staff_three_days:
  assumes "staffPerDay costs = Fin 50" "calculateCampDurationDays newDate cd = Fin 3"
  shows "calculateEstimatedCost costs newDate cd [s] [] [] tp = \<lparr>cost_min = Fin 128, cost_max = Fin 173\<rparr>"
proof -
  have "estimateCost_spec parsed_real parsed_count costs (Fin 3) [s] [] [] tp = cost_band (Fin 150)"
    by (simp add: estimateCost_spec_def staffCost_spec_def medicineCost_spec_def
        equipmentCost_spec_def js_sum_def assms(1) round64_numeral)
  then show ?thesis
    by (simp only: estimate_is_formula assms(2) band_150)
qed

lemma one_staff_one_day:
  assumes "staffPerDay costs = Fin 50" "calculateCampDurationDays newDate cd = Fin 1"
  shows "calculateEstimatedCost costs newDate cd [s] [] [] tp = \<lparr>cost_min = Fin 43, cost_max = Fin 57\<rparr>"
proof -
  have "estimateCost_spec parsed_real parsed_count costs (Fin 1) [s] [] [] tp = cost_band (Fin 50)"
    by (simp add: estimateCost_spec_def staffCost_spec_def medicineCost_spec_def
        equipmentCost_spec_def js_sum_def assms(1) round64_numeral)
  then show ?thesis
    by (simp only: estimate_is_formula assms(2) band_50)
qed

lemma estimate_overflows:
  "calculateEstimatedCost placeholderCosts Date_new JNull []
     [\<lparr>name = ''Saline'', notes' = [], entry_id = None, unit = ''ml'',
       quantityPerPatient = JNum (Fin (10 ^ 308))\<rparr>] [] (JNum (Fin 1))
     = \<lparr>cost_min = PosInf, cost_max = PosInf\<rparr>"
proof -
  have qty: "parsed_real (JNum (Fin (10 ^ 308))) = Fin 100000000000000001097906362944045541740492309677311846336810682903157585404911491537163328978494688899061249669721172515611590283743140088328307009198146046031271664502933027185697489699588559043338384466165001178426897626212945177628091195786707458122783970171784415105291802893207873272974885715430223118336"
    by (simp only: parsed_real_number num_1e308)
  have "js_mul (js_mul (Fin 100000000000000001097906362944045541740492309677311846336810682903157585404911491537163328978494688899061249669721172515611590283743140088328307009198146046031271664502933027185697489699588559043338384466165001178426897626212945177628091195786707458122783970171784415105291802893207873272974885715430223118336) (Fin 1)) (Fin 2) = PosInf"
    by (simp only: js_mul.simps mult_1_right num_1e308_fixed mult.commute [of _ 2] twice_1e308)
  then have "medicineCost_spec parsed_real parsed_count placeholderCosts
               [\<lparr>name = ''Saline'', notes' = [], entry_id = None, unit = ''ml'',
                 quantityPerPatient = JNum (Fin (10 ^ 308))\<rparr>] (JNum (Fin 1)) = PosInf"
    by (simp add: medicineCost_spec_def js_sum_def qty count_one placeholderCosts_def
        del: power_numeral)
  moreover have "cost_band PosInf = \<lparr>cost_min = PosInf, cost_max = PosInf\<rparr>"
    by (simp add: cost_band_def lit_085 lit_115 signed_inf_def)
  ultimately show ?thesis
    by (simp add: estimate_is_formula estimateCost_spec_def staffCost_spec_def
        equipmentCost_spec_def js_sum_def del: power_numeral)
qed

lemma example_725:
  "calculateEstimatedCost placeholderCosts Date_new JNull []
     [\<lparr>name = ''Paracetamol'', notes' = [], entry_id = None, unit = ''tablet'',
       quantityPerPatient = JStr ''2.5''\<rparr>]
     [\<lparr>name = ''Stretcher'', notes' = [], entry_id = None, quantity = JNum (Fin 3)\<rparr>]
     (JStr ''100'')
     = \<lparr>cost_min = Fin 616, cost_max = Fin 834\<rparr>"
proof -
  have "estimateCost_spec parsed_real parsed_count placeholderCosts (Fin 1) []
     [\<lparr>name = ''Paracetamol'', notes' = [], entry_id = None, unit = ''tablet'',
       quantityPerPatient = JStr ''2.5''\<rparr>]
     [\<lparr>name = ''Stretcher'', notes' = [], entry_id = None, quantity = JNum (Fin 3)\<rparr>]
     (JStr ''100'') = cost_band (Fin 725)"
    by (simp add: estimateCost_spec_def staffCost_spec_def medicineCost_spec_def
        equipmentCost_spec_def js_sum_def placeholderCosts_def real_two_and_half count_hundred
        count_three round64_numeral)
  then show ?thesis
    by (simp only: estimate_is_formula duration_null band_725)
qed

lemma example_fractional_code:
  "calculateEstimatedCost placeholderCosts Date_new JNull []
     [\<lparr>name = ''Paracetamol'', notes' = [], entry_id = None, unit = ''tablet'',
       quantityPerPatient = JNum (Fin 1)\<rparr>] [] (JNum (Fin (5 / 2)))
     = \<lparr>cost_min = Fin 3, cost_max = Fin 5\<rparr>"
proof -
  have "estimateCost_spec parsed_real parsed_count placeholderCosts (Fin 1) []
     [\<lparr>name = ''Paracetamol'', notes' = [], entry_id = None, unit = ''tablet'',
       quantityPerPatient = JNum (Fin 1)\<rparr>] [] (JNum (Fin (5 / 2))) = cost_band (Fin 4)"
    by (simp add: estimateCost_spec_def staffCost_spec_def medicineCost_spec_def
        equipmentCost_spec_def js_sum_def placeholderCosts_def parsed_real_number count_examples(1)
        round64_numeral)
  then show ?thesis
    by (simp only: estimate_is_formula duration_null band_4)
qed

lemma example_fractional_spec:
  "estimateCost_spec numeric_or_zero numeric_or_zero placeholderCosts
       (calculateCampDurationDays Date_new JNull) []
       [\<lparr>name = ''Paracetamol'', notes' = [], entry_id = None, unit = ''tablet'',
         quantityPerPatient = JNum (Fin 1)\<rparr>] [] (JNum (Fin (5 / 2)))
     = \<lparr>cost_min = Fin 4, cost_max = Fin 6\<rparr>"
proof -
  have "estimateCost_spec numeric_or_zero numeric_or_zero placeholderCosts (Fin 1) []
     [\<lparr>name = ''Paracetamol'', notes' = [], entry_id = None, unit = ''tablet'',
       quantityPerPatient = JNum (Fin 1)\<rparr>] [] (JNum (Fin (5 / 2))) = cost_band (Fin 5)"
    by (simp add: estimateCost_spec_def staffCost_spec_def medicineCost_spec_def
        equipmentCost_spec_def js_sum_def placeholderCosts_def round64_two_and_half
        round64_numeral)
  then show ?thesis
    by (simp only: duration_null band_5)
qed

lemma example_negative:
  "calculateEstimatedCost placeholderCosts Date_new JNull []
     [\<lparr>name = ''Paracetamol'', notes' = [], entry_id = None, unit = ''tablet'',
       quantityPerPatient = JNum (Fin 1)\<rparr>] [] (JNum (Fin (- 10)))
     = \<lparr>cost_min = Fin (- 17), cost_max = Fin (- 23)\<rparr>"
proof -
  have "parsed_count (JNum (Fin (- 10))) = Fin (- 10)"
    using parsed_count_decimal [of "- 10" "- 10"] by (simp add: round64_numeral lit_1e_6)
  then have "estimateCost_spec parsed_real parsed_count placeholderCosts (Fin 1) []
     [\<lparr>name = ''Paracetamol'', notes' = [], entry_id = None, unit = ''tablet'',
       quantityPerPatient = JNum (Fin 1)\<rparr>] [] (JNum (Fin (- 10))) = cost_band (Fin (- 20))"
    by (simp add: estimateCost_spec_def staffCost_spec_def medicineCost_spec_def
        equipmentCost_spec_def js_sum_def placeholderCosts_def parsed_real_number
        round64_numeral)
  then show ?thesis
    by (simp only: estimate_is_formula duration_null band_minus_20)
qed

lemma two_staff_three_days:
  "calculateEstimatedCost placeholderCosts Date_new
     (camp_window (JStr ''2025-01-01'') (JStr ''2025-01-03'')) [s, s'] [] [] tp
     = \<lparr>cost_min = Fin 255, cost_max = Fin 345\<rparr>"
proof -
  have "estimateCost_spec parsed_real parsed_count placeholderCosts (Fin 3) [s, s'] [] [] tp
          = cost_band (Fin 300)"
    by (simp add: estimateCost_spec_def staffCost_spec_def medicineCost_spec_def
        equipmentCost_spec_def js_sum_def placeholderCosts_def round64_numeral)
  then show ?thesis
    by (simp only: estimate_is_formula duration_jan_1_to_3 band_300)
qed

text \<open>
  C1, as amended. For every unit costs, Date constructor, camp details, staff list,
  medicine list, equipment list and target patients, the estimate is
  \<open>min = round(base * 0.85)\<close> and \<open>max = round(base * 1.15)\<close> with
  \<open>base = staffCost + medicineCost + equipmentCost\<close>, where the staff cost sums
  \<open>staffPerDay * durationDays\<close> once per staff entry, the medicine cost sums
  \<open>quantityPerPatient * targetPatients * medicinePerUnit\<close> and the equipment cost
  sums \<open>quantity * equipmentPerItem\<close>. Every product and sum is the binary64 one,
  rounded to nearest, \<open>0.85\<close> and \<open>1.15\<close> are the binary64 numbers of these numerals,
  and each sum runs from left to right starting from 0. The quantity per patient is read
  by \<open>parseFloat\<close> and the target patients and the equipment quantity by \<open>parseInt\<close> in
  base 10, with 0 for a value that parses to NaN. So a number is its own quantity per
  patient; a count that is a whole number from 0 to \<open>2^53\<close> is itself; a number of
  magnitude from the binary64 number of \<open>1e-6\<close> up to \<open>1e21\<close> is cut to its integer
  part, towards zero; a number that is not zero outside that range is read as the first
  digit, from 1 to 9, of its shortest decimal string, with its sign; a string made of
  white space, an optional sign, decimal digits and a rest that does not start with a
  digit is read as the signed number of its digits; a string that after its white space
  starts with no sign and no digit (for \<open>parseFloat\<close>: nor with a point or an \<open>I\<close>)
  counts as 0; and \<open>undefined\<close> and \<open>null\<close> count as 0. With 50 per staff day,
  one staff entry, a duration of 3 days and no medicine or equipment the estimate is 128
  to 173; with a duration of 1 day it is 43 to 57, the binary64 product \<open>50 * 1.15\<close>
  lying below 57.5.
\<close>

theorem estimate_cost_amended:
  "calculateEstimatedCost costs newDate cd staff_list medicine_list equipment_list tp
     = estimateCost_spec parsed_real parsed_count costs (calculateCampDurationDays newDate cd)
         staff_list medicine_list equipment_list tp
   \<and> parsed_real v = (if parseFloat v = NaN then Fin 0 else parseFloat v)
   \<and> parsed_count v = (if parseInt10 v = NaN then Fin 0 else parseInt10 v)
   \<and> (\<forall>q. parsed_real (JNum (Fin q)) = round64 q)
   \<and> (\<forall>k. 0 \<le> k \<and> k \<le> 9007199254740992
          \<longrightarrow> parsed_count (JNum (Fin (of_int k))) = Fin (of_int k))
   \<and> (\<forall>x y. round64 x = Fin y \<and> js_le (round64 (1 / 10 ^ 6)) (Fin \<bar>y\<bar>) \<and> \<bar>y\<bar> < 10 ^ 21
          \<longrightarrow> parsed_count (JNum (Fin x)) = Fin (of_int (if y < 0 then - \<lfloor>- y\<rfloor> else \<lfloor>y\<rfloor>)))
   \<and> (\<forall>x y. round64 x = Fin y \<and> y \<noteq> 0
            \<and> \<not> (js_le (round64 (1 / 10 ^ 6)) (Fin \<bar>y\<bar>) \<and> \<bar>y\<bar> < 10 ^ 21)
          \<longrightarrow> parsed_count (JNum (Fin x))
                = Fin (of_int ((if y < 0 then - 1 else 1) * repr_lead_digit \<bar>y\<bar>))
              \<and> 1 \<le> repr_lead_digit \<bar>y\<bar> \<and> repr_lead_digit \<bar>y\<bar> \<le> 9)
   \<and> (\<forall>ws sg ds rest. ds \<noteq> [] \<and> list_all is_digit ds \<and> list_all is_ws ws
            \<and> (rest = [] \<or> \<not> is_digit (hd rest)) \<and> (sg = [] \<or> sg = ''+'' \<or> sg = ''-'')
          \<longrightarrow> parsed_count (JStr (ws @ sg @ ds @ rest))
                = round64 (of_int ((if sg = ''-'' then - 1 else 1) * digits_val ds)))
   \<and> (\<forall>ws rest. list_all is_ws ws
            \<and> (rest = [] \<or> \<not> (is_ws (hd rest) \<or> is_digit (hd rest) \<or> hd rest \<in> set ''+-''))
          \<longrightarrow> parsed_count (JStr (ws @ rest)) = Fin 0)
   \<and> (\<forall>ws rest. list_all is_ws ws
            \<and> (rest = [] \<or> \<not> (is_ws (hd rest) \<or> is_digit (hd rest) \<or> hd rest \<in> set ''+-.I''))
          \<longrightarrow> parsed_real (JStr (ws @ rest)) = Fin 0)
   \<and> parsed_real JUndefined = Fin 0 \<and> parsed_real JNull = Fin 0
   \<and> parsed_count JUndefined = Fin 0 \<and> parsed_count JNull = Fin 0
   \<and> (\<forall>s. staffPerDay costs = Fin 50 \<and> calculateCampDurationDays newDate cd = Fin 3
      \<longrightarrow> calculateEstimatedCost costs newDate cd [s] [] [] tp
            = \<lparr>cost_min = Fin 128, cost_max = Fin 173\<rparr>)
   \<and> (\<forall>s. staffPerDay costs = Fin 50 \<and> calculateCampDurationDays newDate cd = Fin 1
      \<longrightarrow> calculateEstimatedCost costs newDate cd [s] [] [] tp
            = \<lparr>cost_min = Fin 43, cost_max = Fin 57\<rparr>)"
proof (intro conjI allI impI)
  show "calculateEstimatedCost costs newDate cd staff_list medicine_list equipment_list tp
          = estimateCost_spec parsed_real parsed_count costs (calculateCampDurationDays newDate cd)
              staff_list medicine_list equipment_list tp"
    by (rule estimate_is_formula)
next
  show "parsed_real v = (if parseFloat v = NaN then Fin 0 else parseFloat v)"
    by (simp add: parsed_real_def or_zero_def)
next
  show "parsed_count v = (if parseInt10 v = NaN then Fin 0 else parseInt10 v)"
    by (simp add: parsed_count_def or_zero_def)
next
  fix q :: real
  show "parsed_real (JNum (Fin q)) = round64 q"
    by (rule parsed_real_number)
next
  fix k :: int
  assume "0 \<le> k \<and> k \<le> 9007199254740992"
  then show "parsed_count (JNum (Fin (of_int k))) = Fin (of_int k)"
    using parsed_count_int [of k] by blast
next
  fix x y :: real
  assume "round64 x = Fin y \<and> js_le (round64 (1 / 10 ^ 6)) (Fin \<bar>y\<bar>) \<and> \<bar>y\<bar> < 10 ^ 21"
  then show "parsed_count (JNum (Fin x)) = Fin (of_int (if y < 0 then - \<lfloor>- y\<rfloor> else \<lfloor>y\<rfloor>))"
    using parsed_count_decimal [of x y] by blast
next
  fix x y :: real
  assume a: "round64 x = Fin y \<and> y \<noteq> 0
             \<and> \<not> (js_le (round64 (1 / 10 ^ 6)) (Fin \<bar>y\<bar>) \<and> \<bar>y\<bar> < 10 ^ 21)"
  then show "parsed_count (JNum (Fin x))
               = Fin (of_int ((if y < 0 then - 1 else 1) * repr_lead_digit \<bar>y\<bar>))"
    using parsed_count_exponent(1) [of x y] by blast
  from a show "1 \<le> repr_lead_digit \<bar>y\<bar>"
    using parsed_count_exponent(2) [of x y] by blast
  from a show "repr_lead_digit \<bar>y\<bar> \<le> 9"
    using parsed_count_exponent(3) [of x y] by blast
next
  fix ws sg ds rest
  assume a: "ds \<noteq> [] \<and> list_all is_digit ds \<and> list_all is_ws ws
          \<and> (rest = [] \<or> \<not> is_digit (hd rest)) \<and> (sg = [] \<or> sg = ''+'' \<or> sg = ''-'')"
  show "parsed_count (JStr (ws @ sg @ ds @ rest))
               = round64 (of_int ((if sg = ''-'' then - 1 else 1) * digits_val ds))"
    by (rule parsed_count_signed_digits
        [OF a [THEN conjunct1] a [THEN conjunct2, THEN conjunct1]
          a [THEN conjunct2, THEN conjunct2, THEN conjunct1]
          a [THEN conjunct2, THEN conjunct2, THEN conjunct2, THEN conjunct1]
          a [THEN conjunct2, THEN conjunct2, THEN conjunct2, THEN conjunct2]])
next
  fix ws rest
  assume a: "list_all is_ws ws
          \<and> (rest = [] \<or> \<not> (is_ws (hd rest) \<or> is_digit (hd rest) \<or> hd rest \<in> set ''+-''))"
  show "parsed_count (JStr (ws @ rest)) = Fin 0"
    by (rule parsed_count_no_number [OF a [THEN conjunct1] a [THEN conjunct2]])
next
  fix ws rest
  assume a: "list_all is_ws ws
          \<and> (rest = [] \<or> \<not> (is_ws (hd rest) \<or> is_digit (hd rest) \<or> hd rest \<in> set ''+-.I''))"
  show "parsed_real (JStr (ws @ rest)) = Fin 0"
    by (rule parsed_real_no_number [OF a [THEN conjunct1] a [THEN conjunct2]])
next
  show "parsed_real JUndefined = Fin 0" "parsed_real JNull = Fin 0"
    "parsed_count JUndefined = Fin 0" "parsed_count JNull = Fin 0"
    by (rule nullish_reads)+
next
  fix s
  assume "staffPerDay costs = Fin 50 \<and> calculateCampDurationDays newDate cd = Fin 3"
  then show "calculateEstimatedCost costs newDate cd [s] [] [] tp
               = \<lparr>cost_min = Fin 128, cost_max = Fin 173\<rparr>"
    using one_staff_three_days [of costs newDate cd s tp] by blast
next
  fix s
  assume "staffPerDay costs = Fin 50 \<and> calculateCampDurationDays newDate cd = Fin 1"
  then show "calculateEstimatedCost costs newDate cd [s] [] [] tp
               = \<lparr>cost_min = Fin 43, cost_max = Fin 57\<rparr>"
    using one_staff_one_day [of costs newDate cd s tp] by blast
qed

theorem estimate_cost_amended_witness:
  "staffPerDay placeholderCosts = Fin 50
   \<and> calculateCampDurationDays Date_new (camp_window (JStr ''2025-01-01'') (JStr ''2025-01-03''))
       = Fin 3
   \<and> calculateEstimatedCost placeholderCosts Date_new
        (camp_window (JStr ''2025-01-01'') (JStr ''2025-01-03''))
        [\<lparr>name = ''Asha'', notes' = [], entry_id = None, role = ''Doctor'', origin = ''City Hospital'',
          contact = ''555-0101''\<rparr>] [] [] (JNum (Fin 0))
       = \<lparr>cost_min = Fin 128, cost_max = Fin 173\<rparr>
   \<and> calculateCampDurationDays Date_new JNull = Fin 1
   \<and> calculateEstimatedCost placeholderCosts Date_new JNull
        [\<lparr>name = ''Asha'', notes' = [], entry_id = None, role = ''Doctor'', origin = ''City Hospital'',
          contact = ''555-0101''\<rparr>] [] [] (JNum (Fin 0))
       = \<lparr>cost_min = Fin 43, cost_max = Fin 57\<rparr>
   \<and> (0 :: int) \<le> 3 \<and> (3 :: int) \<le> 9007199254740992
   \<and> parsed_count (JNum (Fin 3)) = Fin 3
   \<and> round64 (5 / 2) = Fin (5 / 2)
   \<and> js_le (round64 (1 / 10 ^ 6)) (Fin \<bar>5 / 2\<bar>) \<and> \<bar>5 / 2 :: real\<bar> < 10 ^ 21
   \<and> parsed_count (JNum (Fin (5 / 2))) = Fin 2
   \<and> round64 (5 / 10 ^ 7) = Fin (4722366482869645 / 9444732965739290427392)
   \<and> (4722366482869645 / 9444732965739290427392 :: real) \<noteq> 0
   \<and> \<not> js_le (round64 (1 / 10 ^ 6)) (Fin \<bar>4722366482869645 / 9444732965739290427392\<bar>)
   \<and> parsed_count (JNum (Fin (5 / 10 ^ 7))) = Fin 5
   \<and> ''1'' \<noteq> [] \<and> list_all is_digit ''1'' \<and> list_all is_ws '' '' \<and> \<not> is_digit (hd ''e5'')
   \<and> parsed_count (JStr '' 1e5'') = Fin 1
   \<and> list_all is_ws [] \<and> \<not> is_ws (hd ''N/A'') \<and> \<not> is_digit (hd ''N/A'')
   \<and> hd ''N/A'' \<notin> set ''+-.I''
   \<and> parsed_count (JStr ''N/A'') = Fin 0 \<and> parsed_real (JStr ''N/A'') = Fin 0"
proof -
  let ?asha = "\<lparr>name = ''Asha'', notes' = [], entry_id = None, role = ''Doctor'',
                 origin = ''City Hospital'', contact = ''555-0101''\<rparr>"
  let ?tiny = "4722366482869645 / 9444732965739290427392 :: real"
  note three_days = estimate_cost_amended [of placeholderCosts Date_new
      "camp_window (JStr ''2025-01-01'') (JStr ''2025-01-03'')" "[]" "[]" "[]" "JNum (Fin 0)" JNull]
  note one_day = estimate_cost_amended [of placeholderCosts Date_new JNull "[]" "[]" "[]"
      "JNum (Fin 0)" JNull]
  note strings = one_day [THEN conjunct2, THEN conjunct2, THEN conjunct2, THEN conjunct2,
      THEN conjunct2, THEN conjunct2, THEN conjunct2]
  note signed_digits = strings [THEN conjunct1]
  note no_number_count = strings [THEN conjunct2, THEN conjunct1]
  note no_number_real = strings [THEN conjunct2, THEN conjunct2, THEN conjunct1]
  have rate: "staffPerDay placeholderCosts = Fin 50"
    by (simp add: placeholderCosts_def)
  have e3: "calculateEstimatedCost placeholderCosts Date_new
              (camp_window (JStr ''2025-01-01'') (JStr ''2025-01-03'')) [?asha] [] [] (JNum (Fin 0))
              = \<lparr>cost_min = Fin 128, cost_max = Fin 173\<rparr>"
    using three_days rate duration_jan_1_to_3 by blast
  have e1: "calculateEstimatedCost placeholderCosts Date_new JNull [?asha] [] [] (JNum (Fin 0))
              = \<lparr>cost_min = Fin 43, cost_max = Fin 57\<rparr>"
    using one_day rate duration_null [of Date_new] by blast
  have range3: "(0 :: int) \<le> 3 \<and> (3 :: int) \<le> 9007199254740992"
    by simp
  with one_day have "parsed_count (JNum (Fin (of_int 3))) = Fin (of_int 3)"
    by blast
  then have c3: "parsed_count (JNum (Fin 3)) = Fin 3"
    by simp
  have dec: "round64 (5 / 2) = Fin (5 / 2) \<and> js_le (round64 (1 / 10 ^ 6)) (Fin \<bar>5 / 2\<bar>)
             \<and> \<bar>5 / 2 :: real\<bar> < 10 ^ 21"
    by (simp add: round64_two_and_half lit_1e_6)
  with one_day
  have "parsed_count (JNum (Fin (5 / 2)))
          = Fin (of_int (if (5 / 2 :: real) < 0 then - \<lfloor>- (5 / 2 :: real)\<rfloor> else \<lfloor>5 / 2 :: real\<rfloor>))"
    by blast
  then have c2: "parsed_count (JNum (Fin (5 / 2))) = Fin 2"
    by simp
  have small: "round64 (5 / 10 ^ 7) = Fin ?tiny"
    by (simp add: small_number)
  have outside: "?tiny \<noteq> 0" "\<not> js_le (round64 (1 / 10 ^ 6)) (Fin \<bar>?tiny\<bar>)"
    by (simp_all add: lit_1e_6)
  then have "round64 (5 / 10 ^ 7) = Fin ?tiny \<and> ?tiny \<noteq> 0
             \<and> \<not> (js_le (round64 (1 / 10 ^ 6)) (Fin \<bar>?tiny\<bar>) \<and> \<bar>?tiny\<bar> < 10 ^ 21)"
    using small by blast
  with one_day
  have "parsed_count (JNum (Fin (5 / 10 ^ 7)))
          = Fin (of_int ((if ?tiny < 0 then - 1 else 1) * repr_lead_digit \<bar>?tiny\<bar>))"
    by blast
  then have c5: "parsed_count (JNum (Fin (5 / 10 ^ 7))) = Fin 5"
    by (simp add: lead_digit_tiny)
  have str: "''1'' \<noteq> [] \<and> list_all is_digit ''1'' \<and> list_all is_ws '' ''
             \<and> \<not> is_digit (hd ''e5'')"
    by (simp add: is_digit_def is_ws_def)
  then have "''1'' \<noteq> [] \<and> list_all is_digit ''1'' \<and> list_all is_ws '' ''
             \<and> (''e5'' = [] \<or> \<not> is_digit (hd ''e5''))
             \<and> (([] :: string) = [] \<or> ([] :: string) = ''+'' \<or> ([] :: string) = ''-'')"
    by simp
  from signed_digits [rule_format, of "''1''" "'' ''" "''e5''" "[]", OF this]
  have "parsed_count (JStr ('' '' @ [] @ ''1'' @ ''e5''))
          = round64 (of_int ((if ([] :: string) = ''-'' then - 1 else 1) * digits_val ''1''))" .
  then have c1: "parsed_count (JStr '' 1e5'') = Fin 1"
    by (simp add: digits_val_def digit_val_def round64_numeral)
  have letters: "list_all is_ws [] \<and> \<not> is_ws (hd ''N/A'') \<and> \<not> is_digit (hd ''N/A'')
              \<and> hd ''N/A'' \<notin> set ''+-.I''"
    by (simp add: is_digit_def is_ws_def)
  then have no_count: "list_all is_ws []
             \<and> (''N/A'' = [] \<or> \<not> (is_ws (hd ''N/A'') \<or> is_digit (hd ''N/A'')
                                  \<or> hd ''N/A'' \<in> set ''+-''))"
    and no_real: "list_all is_ws []
         \<and> (''N/A'' = [] \<or> \<not> (is_ws (hd ''N/A'') \<or> is_digit (hd ''N/A'')
                              \<or> hd ''N/A'' \<in> set ''+-.I''))"
    by simp_all
  have "parsed_count (JStr ([] @ ''N/A'')) = Fin 0" "parsed_real (JStr ([] @ ''N/A'')) = Fin 0"
    using no_number_count [rule_format, of "[]" "''N/A''", OF no_count]
      no_number_real [rule_format, of "[]" "''N/A''", OF no_real]
    by (simp_all only:)
  then have none: "parsed_count (JStr ''N/A'') = Fin 0" "parsed_real (JStr ''N/A'') = Fin 0"
    by simp_all
  from rate duration_jan_1_to_3 e3 duration_null [of Date_new] e1 range3 c3 dec c2 small outside
    c5 str c1 letters none
  show ?thesis
    by (simp only: simp_thms)
qed

text \<open>
  C1 as stated fails: with one medicine entry of 1 per patient and 2.5 target patients
  the formula of the specification has a base of \<open>1 * 2.5 * 2 = 5\<close> and the band 4 to 6,
  while the code reads the target patients as the integer 2 and returns the band 3 to 5.
\<close>

theorem estimate_fractional_patients_counterexample:
  "calculateEstimatedCost placeholderCosts Date_new JNull []
     [\<lparr>name = ''Paracetamol'', notes' = [], entry_id = None, unit = ''tablet'',
       quantityPerPatient = JNum (Fin 1)\<rparr>] [] (JNum (Fin (5 / 2)))
     = \<lparr>cost_min = Fin 3, cost_max = Fin 5\<rparr>
   \<and> estimateCost_spec numeric_or_zero numeric_or_zero placeholderCosts
       (calculateCampDurationDays Date_new JNull) []
       [\<lparr>name = ''Paracetamol'', notes' = [], entry_id = None, unit = ''tablet'',
         quantityPerPatient = JNum (Fin 1)\<rparr>] [] (JNum (Fin (5 / 2)))
     = \<lparr>cost_min = Fin 4, cost_max = Fin 6\<rparr>
   \<and> calculateEstimatedCost placeholderCosts Date_new JNull []
       [\<lparr>name = ''Paracetamol'', notes' = [], entry_id = None, unit = ''tablet'',
         quantityPerPatient = JNum (Fin 1)\<rparr>] [] (JNum (Fin (5 / 2)))
     \<noteq> estimateCost_spec numeric_or_zero numeric_or_zero placeholderCosts
         (calculateCampDurationDays Date_new JNull) []
         [\<lparr>name = ''Paracetamol'', notes' = [], entry_id = None, unit = ''tablet'',
           quantityPerPatient = JNum (Fin 1)\<rparr>] [] (JNum (Fin (5 / 2)))"
  by (simp add: example_fractional_code example_fractional_spec)

text \<open>
  C3, as amended. When the three unit costs are finite and not negative, the target
  patients are read (by \<open>parseInt\<close>, 0 for NaN) as a number that is not negative, every
  quantity per patient is read (by \<open>parseFloat\<close>, 0 for NaN) as a finite number that is
  not negative, every equipment quantity is read as a number that is not negative, and
  no product or sum overflows, so that the upper end of the estimate is a finite number,
  then for every staff list and every camp details \<open>min\<close> and \<open>max\<close> are integers that
  are not negative, and \<open>min \<le> max\<close>. Without the last condition both ends can be
  infinite: such is the estimate for one medicine entry of \<open>1e308\<close> per patient and one
  patient, at 2 per unit.
\<close>

theorem estimate_valid_amended:
  assumes "nonneg_finite (staffPerDay costs)"
    and "nonneg_finite (medicinePerUnit costs)"
    and "nonneg_finite (equipmentPerItem costs)"
    and "nonneg_finite (parsed_count tp)"
    and "\<forall>med \<in> set medicine_list. nonneg_finite (parsed_real (quantityPerPatient med))"
    and "\<forall>equip \<in> set equipment_list. nonneg_finite (parsed_count (quantity equip))"
    and "is_finite
           (cost_max (calculateEstimatedCost costs newDate cd staff_list medicine_list
                        equipment_list tp))"
  shows "valid_estimate
           (calculateEstimatedCost costs newDate cd staff_list medicine_list equipment_list tp)"
proof -
  let ?days = "calculateCampDurationDays newDate cd"
  have staff: "not_below_zero (staffCost_spec costs ?days staff_list)"
    unfolding staffCost_spec_def
    by (rule nbz_sum) (simp add: nbz_mul nonneg_finite_nbz assms(1) duration_nbz)
  have med: "not_below_zero (medicineCost_spec parsed_real parsed_count costs medicine_list tp)"
    unfolding medicineCost_spec_def
    by (rule nbz_sum) (simp add: nbz_mul nonneg_finite_nbz assms(2,4,5))
  have equip: "not_below_zero (equipmentCost_spec parsed_count costs equipment_list)"
    unfolding equipmentCost_spec_def
    by (rule nbz_sum) (simp add: nbz_mul nonneg_finite_nbz assms(3,6))
  have base: "not_below_zero
                (js_add (js_add (staffCost_spec costs ?days staff_list)
                           (medicineCost_spec parsed_real parsed_count costs medicine_list tp))
                   (equipmentCost_spec parsed_count costs equipment_list))"
    by (intro nbz_add staff med equip)
  from assms(7) show ?thesis
    unfolding estimate_is_formula estimateCost_spec_def
    by (intro band_valid base)
qed

theorem estimate_valid_amended_witness:
  "nonneg_finite (staffPerDay placeholderCosts)
   \<and> nonneg_finite (medicinePerUnit placeholderCosts)
   \<and> nonneg_finite (equipmentPerItem placeholderCosts)
   \<and> nonneg_finite (parsed_count (JStr ''100''))
   \<and> nonneg_finite (parsed_real (JStr ''2.5''))
   \<and> nonneg_finite (parsed_count (JNum (Fin 3)))
   \<and> calculateEstimatedCost placeholderCosts Date_new JNull []
        [\<lparr>name = ''Paracetamol'', notes' = [], entry_id = None, unit = ''tablet'',
          quantityPerPatient = JStr ''2.5''\<rparr>]
        [\<lparr>name = ''Stretcher'', notes' = [], entry_id = None, quantity = JNum (Fin 3)\<rparr>]
        (JStr ''100'')
       = \<lparr>cost_min = Fin 616, cost_max = Fin 834\<rparr>
   \<and> is_finite (Fin 834)
   \<and> valid_estimate
       (calculateEstimatedCost placeholderCosts Date_new JNull []
          [\<lparr>name = ''Paracetamol'', notes' = [], entry_id = None, unit = ''tablet'',
            quantityPerPatient = JStr ''2.5''\<rparr>]
          [\<lparr>name = ''Stretcher'', notes' = [], entry_id = None, quantity = JNum (Fin 3)\<rparr>]
          (JStr ''100''))"
proof -
  have costs: "nonneg_finite (staffPerDay placeholderCosts)"
    "nonneg_finite (medicinePerUnit placeholderCosts)"
    "nonneg_finite (equipmentPerItem placeholderCosts)"
    by (simp_all add: placeholderCosts_def)
  have patients: "nonneg_finite (parsed_count (JStr ''100''))"
    by (simp add: count_hundred)
  have entries: "nonneg_finite (parsed_real (JStr ''2.5''))"
    "nonneg_finite (parsed_count (JNum (Fin 3)))"
    by (simp_all add: real_two_and_half count_three)
  then have meds: "\<forall>med \<in> set [\<lparr>name = ''Paracetamol'', notes' = [], entry_id = None,
                                  unit = ''tablet'', quantityPerPatient = JStr ''2.5''\<rparr>].
                     nonneg_finite (parsed_real (quantityPerPatient med))"
    and equips: "\<forall>equip \<in> set [\<lparr>name = ''Stretcher'', notes' = [], entry_id = None,
                                    quantity = JNum (Fin 3)\<rparr>].
                   nonneg_finite (parsed_count (quantity equip))"
    by simp_all
  have fin: "is_finite
               (cost_max (calculateEstimatedCost placeholderCosts Date_new JNull []
                  [\<lparr>name = ''Paracetamol'', notes' = [], entry_id = None, unit = ''tablet'',
                    quantityPerPatient = JStr ''2.5''\<rparr>]
                  [\<lparr>name = ''Stretcher'', notes' = [], entry_id = None, quantity = JNum (Fin 3)\<rparr>]
                  (JStr ''100'')))"
    by (simp add: example_725)
  have "is_finite (Fin 834)" by simp
  with estimate_valid_amended [OF costs patients meds equips fin] costs patients entries example_725
  show ?thesis
    by (simp only: simp_thms)
qed

text \<open>
  C3 as stated fails: with one medicine entry of 1 per patient and -10 target patients
  the estimate is \<open>min = -17\<close> and \<open>max = -23\<close>, both negative and \<open>min > max\<close>.
\<close>

theorem estimate_negative_patients_counterexample:
  "calculateEstimatedCost placeholderCosts Date_new JNull []
     [\<lparr>name = ''Paracetamol'', notes' = [], entry_id = None, unit = ''tablet'',
       quantityPerPatient = JNum (Fin 1)\<rparr>] [] (JNum (Fin (- 10)))
     = \<lparr>cost_min = Fin (- 17), cost_max = Fin (- 23)\<rparr>
   \<and> \<not> valid_estimate
         (calculateEstimatedCost placeholderCosts Date_new JNull []
            [\<lparr>name = ''Paracetamol'', notes' = [], entry_id = None, unit = ''tablet'',
              quantityPerPatient = JNum (Fin 1)\<rparr>] [] (JNum (Fin (- 10))))"
  by (simp add: example_negative valid_estimate_def)

text \<open>
  C9. The staff cost is flat per entry. For two staff lists of equal length, whatever
  their entries hold, and otherwise identical inputs, the estimates are identical. The
  base of the estimate is the staff cost plus the medicine cost plus the equipment cost,
  where the staff cost is the sum, from left to right starting from 0, of one product
  \<open>staffPerDay * durationDays\<close> per staff entry. When the cost per staff day and the
  duration are whole numbers \<open>r\<close> and \<open>d\<close> that are not negative and \<open>n\<close> staff entries
  give \<open>n * r * d\<close> of at most \<open>2^53\<close>, the staff cost is exactly \<open>n * r * d\<close>, and with
  no medicine or equipment the estimate is the band around \<open>n * r * d\<close>.
\<close>

theorem staff_cost_flat:
  "(length staff_list = length staff_list'
      \<longrightarrow> calculateEstimatedCost costs newDate cd staff_list medicine_list equipment_list tp
          = calculateEstimatedCost costs newDate cd staff_list' medicine_list equipment_list tp)
   \<and> calculateEstimatedCost costs newDate cd staff_list medicine_list equipment_list tp
       = cost_band
           (js_add
              (js_add
                 (js_sum (replicate (length staff_list)
                            (js_mul (staffPerDay costs) (calculateCampDurationDays newDate cd))))
                 (medicineCost_spec parsed_real parsed_count costs medicine_list tp))
              (equipmentCost_spec parsed_count costs equipment_list))
   \<and> (\<forall>r d. 0 \<le> r \<and> 0 \<le> d \<and> staffPerDay costs = Fin (of_int r)
          \<and> calculateCampDurationDays newDate cd = Fin (of_int d)
          \<and> int (length staff_list) * (r * d) \<le> 9007199254740992
        \<longrightarrow> js_sum (replicate (length staff_list)
                      (js_mul (staffPerDay costs) (calculateCampDurationDays newDate cd)))
              = Fin (of_int (int (length staff_list) * (r * d)))
            \<and> calculateEstimatedCost costs newDate cd staff_list [] [] tp
              = cost_band (Fin (of_int (int (length staff_list) * (r * d)))))"
proof (intro conjI allI impI)
  assume len: "length staff_list = length staff_list'"
  show "calculateEstimatedCost costs newDate cd staff_list medicine_list equipment_list tp
          = calculateEstimatedCost costs newDate cd staff_list' medicine_list equipment_list tp"
    unfolding calculateEstimatedCost_def Let_def
    by (simp only: foldl_ignores_entries [OF len])
next
  show "calculateEstimatedCost costs newDate cd staff_list medicine_list equipment_list tp
       = cost_band
           (js_add
              (js_add
                 (js_sum (replicate (length staff_list)
                            (js_mul (staffPerDay costs) (calculateCampDurationDays newDate cd))))
                 (medicineCost_spec parsed_real parsed_count costs medicine_list tp))
              (equipmentCost_spec parsed_count costs equipment_list))"
    by (simp only: estimate_is_formula estimateCost_spec_def staff_sum_replicate)
next
  fix r d :: int
  assume a: "0 \<le> r \<and> 0 \<le> d \<and> staffPerDay costs = Fin (of_int r)
          \<and> calculateCampDurationDays newDate cd = Fin (of_int d)
          \<and> int (length staff_list) * (r * d) \<le> 9007199254740992"
  let ?N = "int (length staff_list) * (r * d)"
  from a have sum: "js_sum (replicate (length staff_list) (js_mul (Fin (of_int r)) (Fin (of_int d))))
                      = Fin (of_int ?N)"
    by (intro staff_contribution_exact) simp_all
  with a show staff: "js_sum (replicate (length staff_list)
                      (js_mul (staffPerDay costs) (calculateCampDurationDays newDate cd)))
              = Fin (of_int ?N)"
    by simp
  have "0 \<le> ?N" using a by simp
  with a have "\<bar>?N\<bar> \<le> 9007199254740992" by simp
  from base_of_staff_only [OF this]
  show "calculateEstimatedCost costs newDate cd staff_list [] [] tp = cost_band (Fin (of_int ?N))"
    by (simp only: estimate_is_formula estimateCost_spec_def staff_sum_replicate staff
        medicineCost_spec_def equipmentCost_spec_def list.map)
qed

theorem staff_cost_flat_witness:
  "length [\<lparr>name = ''Asha'', notes' = [], entry_id = None, role = ''Doctor'', origin = [],
            contact = []\<rparr>,
           \<lparr>name = ''Meera'', notes' = [], entry_id = None, role = ''Nurse'', origin = [],
            contact = []\<rparr>]
     = length [\<lparr>name = ''Ravi'', notes' = ''night shift'', entry_id = Some ''temp-1'',
                role = ''Driver'', origin = ''Depot'', contact = ''555-0102''\<rparr>,
               \<lparr>name = ''Ravi'', notes' = ''night shift'', entry_id = Some ''temp-1'',
                role = ''Driver'', origin = ''Depot'', contact = ''555-0102''\<rparr>]
   \<and> calculateEstimatedCost placeholderCosts Date_new
       (camp_window (JStr ''2025-01-01'') (JStr ''2025-01-03''))
       [\<lparr>name = ''Asha'', notes' = [], entry_id = None, role = ''Doctor'', origin = [],
         contact = []\<rparr>,
        \<lparr>name = ''Meera'', notes' = [], entry_id = None, role = ''Nurse'', origin = [],
         contact = []\<rparr>] [] [] (JNum (Fin 0))
     = calculateEstimatedCost placeholderCosts Date_new
         (camp_window (JStr ''2025-01-01'') (JStr ''2025-01-03''))
         [\<lparr>name = ''Ravi'', notes' = ''night shift'', entry_id = Some ''temp-1'',
           role = ''Driver'', origin = ''Depot'', contact = ''555-0102''\<rparr>,
          \<lparr>name = ''Ravi'', notes' = ''night shift'', entry_id = Some ''temp-1'',
           role = ''Driver'', origin = ''Depot'', contact = ''555-0102''\<rparr>] [] [] (JNum (Fin 0))
   \<and> (0 :: int) \<le> 50 \<and> (0 :: int) \<le> 3
   \<and> staffPerDay placeholderCosts = Fin (of_int 50)
   \<and> calculateCampDurationDays Date_new (camp_window (JStr ''2025-01-01'') (JStr ''2025-01-03''))
       = Fin (of_int 3)
   \<and> int (length [\<lparr>name = ''Asha'', notes' = [], entry_id = None, role = ''Doctor'', origin = [],
                    contact = []\<rparr>,
                   \<lparr>name = ''Meera'', notes' = [], entry_id = None, role = ''Nurse'', origin = [],
                    contact = []\<rparr>]) * (50 * 3) \<le> 9007199254740992
   \<and> js_sum (replicate 2 (js_mul (Fin 50) (Fin 3))) = Fin 300
   \<and> calculateEstimatedCost placeholderCosts Date_new
       (camp_window (JStr ''2025-01-01'') (JStr ''2025-01-03''))
       [\<lparr>name = ''Asha'', notes' = [], entry_id = None, role = ''Doctor'', origin = [],
         contact = []\<rparr>,
        \<lparr>name = ''Meera'', notes' = [], entry_id = None, role = ''Nurse'', origin = [],
         contact = []\<rparr>] [] [] (JNum (Fin 0))
     = \<lparr>cost_min = Fin 255, cost_max = Fin 345\<rparr>"
proof -
  let ?team = "[\<lparr>name = ''Asha'', notes' = [], entry_id = None, role = ''Doctor'', origin = [],
                 contact = []\<rparr>,
                \<lparr>name = ''Meera'', notes' = [], entry_id = None, role = ''Nurse'', origin = [],
                 contact = []\<rparr>]"
  let ?drivers = "[\<lparr>name = ''Ravi'', notes' = ''night shift'', entry_id = Some ''temp-1'',
                    role = ''Driver'', origin = ''Depot'', contact = ''555-0102''\<rparr>,
                   \<lparr>name = ''Ravi'', notes' = ''night shift'', entry_id = Some ''temp-1'',
                    role = ''Driver'', origin = ''Depot'', contact = ''555-0102''\<rparr>]"
  let ?window = "camp_window (JStr ''2025-01-01'') (JStr ''2025-01-03'')"
  note flat = staff_cost_flat [of ?team ?drivers placeholderCosts Date_new ?window "[]" "[]"
      "JNum (Fin 0)"]
  have len: "length ?team = length ?drivers"
    by simp
  with flat have same: "calculateEstimatedCost placeholderCosts Date_new ?window ?team [] []
                          (JNum (Fin 0))
                        = calculateEstimatedCost placeholderCosts Date_new ?window ?drivers [] []
                            (JNum (Fin 0))"
    by blast
  have rate: "staffPerDay placeholderCosts = Fin (of_int 50)"
    by (simp add: placeholderCosts_def)
  have days: "calculateCampDurationDays Date_new ?window = Fin (of_int 3)"
    by (simp add: duration_jan_1_to_3)
  have bound: "int (length ?team) * (50 * 3) \<le> 9007199254740992"
    by simp
  have signs: "(0 :: int) \<le> 50 \<and> (0 :: int) \<le> 3"
    by simp
  with flat rate days bound
  have "js_sum (replicate (length ?team)
                  (js_mul (staffPerDay placeholderCosts) (calculateCampDurationDays Date_new ?window)))
          = Fin (of_int (int (length ?team) * (50 * 3)))
        \<and> calculateEstimatedCost placeholderCosts Date_new ?window ?team [] [] (JNum (Fin 0))
          = cost_band (Fin (of_int (int (length ?team) * (50 * 3))))"
    by blast
  then have sum: "js_sum (replicate 2 (js_mul (Fin 50) (Fin 3))) = Fin 300"
    and est: "calculateEstimatedCost placeholderCosts Date_new ?window ?team [] [] (JNum (Fin 0))
                = \<lparr>cost_min = Fin 255, cost_max = Fin 345\<rparr>"
    by (simp_all add: placeholderCosts_def duration_jan_1_to_3 band_300 js_sum_def
        numeral_2_eq_2 round64_numeral)
  from len same signs rate days bound sum est show ?thesis
    by (simp only: simp_thms)
qed


section \<open>Properties of the heat map samples and of the entry lists\<close>

lemma truthy_not_nullish: "truthy v \<Longrightarrow> not_nullish v"
  by (cases v) (simp_all add: not_nullish_def)

lemma kept_not_nullish: "kept f \<Longrightarrow> not_nullish f"
  by (cases f) (simp_all add: kept_def not_nullish_def)

lemma keep_feature_eq:
  "keep_feature f = (if not_nullish f then Inr (kept f) else Inl TypeError)"
  by (auto simp: keep_feature_def kept_def bind_err_def js_get_def isNaN_def Let_def
      dest: truthy_not_nullish)

lemma to_sample_eq:
  assumes "kept f"
  shows "to_sample d f = Inr (sample_of d f)"
proof -
  have f: "not_nullish f"
    using assms by (rule kept_not_nullish)
  have g: "not_nullish (own_prop f ''geometry'')"
    and c: "not_nullish (own_prop (own_prop f ''geometry'') ''coordinates'')"
    and p: "not_nullish (own_prop f ''properties'')"
    using assms by (simp_all add: kept_def Let_def truthy_not_nullish)
  show ?thesis
    by (simp add: to_sample_def bind_err_def js_get_def f g c p sample_of_def coordinates_of_def
        spec_intensity_def rawValue_def)
qed

lemma js_filter_keep:
  "js_filter keep_feature fs
     = (if list_all not_nullish fs then Inr (filter kept fs) else Inl TypeError)"
  by (induction fs) (simp_all add: keep_feature_eq)

lemma js_map_sample:
  "list_all kept fs \<Longrightarrow> js_map (to_sample d) fs = Inr (map (sample_of d) fs)"
  by (induction fs) (simp_all add: to_sample_eq)

lemma processedData_eq:
  "processedData d fs
     = (if list_all not_nullish fs then Inr (map (sample_of d) (filter kept fs)) else Inl TypeError)"
proof -
  have "list_all kept (filter kept fs)"
    by (simp add: list_all_iff)
  then have m: "js_map (to_sample d) (filter kept fs) = Inr (map (sample_of d) (filter kept fs))"
    by (rule js_map_sample)
  show ?thesis
  proof (cases "fs = []")
    case True
    then show ?thesis by (simp add: processedData_def)
  next
    case False
    then show ?thesis by (simp add: processedData_def js_filter_keep bind_err_def m)
  qed
qed

lemma finite_parse: "is_finite (parseFloat v) \<Longrightarrow> not_nullish v \<and> parseFloat v \<noteq> NaN"
  by (cases v) (auto simp: not_nullish_def)

lemma own_prop_truthy:
  assumes "own_prop x k \<noteq> JUndefined" "k \<noteq> ''length''"
  shows "truthy x"
  using assms by (cases x) (auto split: option.splits if_splits)

lemma spec_keeps_kept:
  assumes "spec_keeps f"
  shows "kept f"
proof -
  let ?g = "own_prop f ''geometry''"
  let ?c = "own_prop ?g ''coordinates''"
  let ?p = "own_prop f ''properties''"
  let ?v = "own_prop ?p ''value''"
  from assms have fin: "is_finite (parseFloat (own_prop ?c ''0''))" "is_finite (parseFloat ?v)"
    by (simp_all add: spec_keeps_def Let_def)
  from fin(1) have "own_prop ?c ''0'' \<noteq> JUndefined"
    using finite_parse [of "own_prop ?c ''0''"] by (auto simp: not_nullish_def)
  then have c: "truthy ?c"
    by (rule own_prop_truthy) simp
  then have "?c \<noteq> JUndefined"
    by auto
  then have g: "truthy ?g"
    by (rule own_prop_truthy) simp
  from fin(2) have v: "not_nullish ?v" "parseFloat ?v \<noteq> NaN"
    using finite_parse [of ?v] by simp_all
  then have "?v \<noteq> JUndefined"
    by (simp add: not_nullish_def)
  then have p: "truthy ?p"
    by (rule own_prop_truthy) simp
  from g c p v show ?thesis
    by (simp add: kept_def Let_def)
qed

lemma filter_index_enumerate:
  "map snd (filter (\<lambda>(i, _). int i \<noteq> index) (enumerate n xs))
     = (if int n \<le> index \<and> index < int n + int (length xs)
        then take (nat (index - int n)) xs @ drop (Suc (nat (index - int n))) xs
        else xs)"
proof (induction xs arbitrary: n)
  case Nil
  then show ?case by simp
next
  case (Cons x xs)
  show ?case
  proof (cases "int n = index")
    case True
    then have "map snd (filter (\<lambda>(i, _). int i \<noteq> index) (enumerate (Suc n) xs)) = xs"
      using Cons.IH [of "Suc n"] by simp
    with True show ?thesis by simp
  next
    case False
    have "nat (index - int n) = Suc (nat (index - int (Suc n)))" if "int n < index"
      using that by simp
    with False Cons.IH [of "Suc n"] show ?thesis
      by auto
  qed
qed

lemma filter_index_eq:
  "filter_index index xs
     = (if 0 \<le> index \<and> index < int (length xs)
        then take (nat index) xs @ drop (Suc (nat index)) xs else xs)"
  using filter_index_enumerate [of index 0 xs] by (simp add: filter_index_def)

lemma pair_coordinates:
  "own_prop (coordinates_of (geo_feature (JArr [lng, lat]) v)) ''1'' = lat"
  "own_prop (coordinates_of (geo_feature (JArr [lng, lat]) v)) ''0'' = lng"
  by (simp_all add: coordinates_of_def geo_feature_def index_of_key_def is_digit_def digits_val_def
      digit_val_def)

lemma geo_feature_kept:
  "kept (geo_feature c v) = (truthy c \<and> not_nullish v \<and> parseFloat v \<noteq> NaN)"
  by (simp add: kept_def geo_feature_def)

lemma geo_feature_raw: "rawValue (geo_feature c v) = parseFloat v"
  by (simp add: rawValue_def geo_feature_def)

lemma geo_feature_not_nullish: "not_nullish (geo_feature c v)"
  by (simp add: geo_feature_def not_nullish_def)

lemma not_nullish_scalar: "not_nullish (JStr s)" "not_nullish (JNum n)"
  by (simp_all add: not_nullish_def)

lemma round64_42_5: "round64 (85 / 2) = Fin (85 / 2)"
  using round64_cert [of "85 / 2" 5 5981343255101440]
  by (simp add: rne_def power_int_minus)

lemma parse_42_5: "parseFloat_str ''42.5'' = Fin (85 / 2)"
  by (simp add: parseFloat_str_def is_ws_def is_digit_def digits_val_def digit_val_def pow10_def
      round64_42_5)

lemma round64_small_finite: "0 \<le> x \<Longrightarrow> x < 128 \<Longrightarrow> is_finite (round64 x)"
  using round64_below_pow [of x 7] by auto

lemma parse_N_A: "parseFloat_str ''N/A'' = NaN"
  by (simp add: parseFloat_str_def is_ws_def is_digit_def)

lemma single_feature:
  assumes "truthy c" "not_nullish v" "parseFloat v \<noteq> NaN"
  shows "processedData d [geo_feature c v]
           = Inr [(own_prop c ''1'', own_prop c ''0'', spec_intensity (inverted d) (parseFloat v))]"
proof -
  have "kept (geo_feature c v)"
    using assms by (simp add: geo_feature_kept)
  moreover have "coordinates_of (geo_feature c v) = c"
    by (simp add: coordinates_of_def geo_feature_def)
  ultimately show ?thesis
    by (simp add: processedData_eq geo_feature_not_nullish sample_of_def geo_feature_raw)
qed

lemma round64_nonpos:
  assumes "x \<le> 0"
  shows "round64 x = NegInf \<or> (\<exists>y. round64 x = Fin y \<and> y \<le> 0)"
proof -
  have "round64 x = js_neg (round64 (- x))"
    using round64_minus [of "- x"] by simp
  moreover have "round64 (- x) = PosInf \<or> (\<exists>y. round64 (- x) = Fin y \<and> 0 \<le> y)"
    using assms by (intro round64_nonneg) simp
  ultimately show ?thesis by auto
qed

text \<open>
  The clamp on a finite raw value: 0 from 100 on, and the binary64 difference below,
  which is exact on whole numbers.
\<close>

lemma clamp_rounded:
  "Math_max (Fin 0) (js_sub (Fin 100) (Fin r)) = (if 100 \<le> r then Fin 0 else round64 (100 - r))"
proof (cases "100 \<le> r")
  case True
  then have "100 - r \<le> 0" by simp
  from round64_nonpos [OF this] True show ?thesis
    by (auto simp: Math_max_def js_sub_def)
next
  case False
  then have "0 \<le> 100 - r" by simp
  from round64_nonneg [OF this] False show ?thesis
    by (auto simp: Math_max_def js_sub_def)
qed

lemma clamp_integer:
  assumes "\<bar>100 - k\<bar> \<le> 9007199254740992"
  shows "Math_max (Fin 0) (js_sub (Fin 100) (Fin (of_int k))) = Fin (of_int (max 0 (100 - k)))"
proof -
  have "round64 (of_int (100 - k)) = Fin (of_int (100 - k))"
    using assms by (rule round64_int)
  then have "round64 (100 - of_int k) = Fin (100 - of_int k)"
    by simp
  then show ?thesis
    by (simp add: clamp_rounded max_def)
qed

lemma intensity_not_NaN: "raw \<noteq> NaN \<Longrightarrow> spec_intensity b raw \<noteq> NaN"
  by (cases raw) (simp_all add: spec_intensity_def Math_max_def js_sub_def round64_not_NaN)

lemma intensity_clamped: "raw \<noteq> NaN \<Longrightarrow> js_le (Fin 0) (spec_intensity True raw)"
proof (cases raw)
  case (Fin r)
  show ?thesis
  proof (cases "100 \<le> r")
    case True
    then show ?thesis by (simp add: Fin spec_intensity_def clamp_rounded)
  next
    case False
    then have "0 \<le> 100 - r" by simp
    from round64_nonneg [OF this] False show ?thesis
      by (auto simp: Fin spec_intensity_def clamp_rounded)
  qed
qed (simp_all add: spec_intensity_def Math_max_def js_sub_def)

text \<open>
  C4, as amended. A collection with a feature that is \<open>null\<close> or \<open>undefined\<close> makes
  the projection throw, and the component then shows no sample. Otherwise the projection
  keeps exactly the features whose geometry, whose coordinates and whose properties are
  truthy and whose value is neither \<open>null\<close> nor \<open>undefined\<close> and parses, by
  \<open>parseFloat\<close>, to a number that is not NaN, one sample for each in their order; the
  other features are dropped without an error. The coordinates are not parsed and the
  value need not be finite; every feature that has a geometry, a coordinate pair that
  parses to two finite numbers and a value that parses to a finite number is kept.
  A feature whose value is the string \<open>N/A\<close> is dropped, and a feature with truthy
  coordinates whose value is the string \<open>42.5\<close> is kept.
\<close>

theorem project_keeps_amended:
  "(list_all not_nullish fs
      \<longrightarrow> processedData d fs = Inr (map (sample_of d) (filter kept fs)))
   \<and> (\<not> list_all not_nullish fs
      \<longrightarrow> processedData d fs = Inl TypeError \<and> heatmapData d fs = [])
   \<and> kept f = (truthy (own_prop f ''geometry'') \<and> truthy (coordinates_of f)
               \<and> truthy (own_prop f ''properties'')
               \<and> not_nullish (own_prop (own_prop f ''properties'') ''value'')
               \<and> rawValue f \<noteq> NaN)
   \<and> (spec_keeps f \<longrightarrow> kept f)
   \<and> \<not> kept (geo_feature c (JStr ''N/A''))
   \<and> (truthy c \<longrightarrow> kept (geo_feature c (JStr ''42.5'')))"
proof (intro conjI impI)
  assume "list_all not_nullish fs"
  then show "processedData d fs = Inr (map (sample_of d) (filter kept fs))"
    by (simp add: processedData_eq)
next
  assume bad: "\<not> list_all not_nullish fs"
  then show "processedData d fs = Inl TypeError"
    by (simp add: processedData_eq)
  from bad show "heatmapData d fs = []"
    by (simp add: heatmapData_def processedData_eq)
next
  show "kept f = (truthy (own_prop f ''geometry'') \<and> truthy (coordinates_of f)
                 \<and> truthy (own_prop f ''properties'')
                 \<and> not_nullish (own_prop (own_prop f ''properties'') ''value'')
                 \<and> rawValue f \<noteq> NaN)"
    by (simp add: kept_def coordinates_of_def rawValue_def Let_def)
next
  assume "spec_keeps f"
  then show "kept f"
    by (rule spec_keeps_kept)
next
  show "\<not> kept (geo_feature c (JStr ''N/A''))"
    by (simp add: geo_feature_kept parse_N_A)
next
  assume "truthy c"
  then show "kept (geo_feature c (JStr ''42.5''))"
    by (simp add: geo_feature_kept parse_42_5 not_nullish_def)
qed

theorem project_keeps_amended_witness:
  "list_all not_nullish
     [geo_feature (JArr [JNum (Fin (7974 / 100)), JNum (Fin (1591 / 100))]) (JStr ''N/A''),
      geo_feature (JArr [JNum (Fin (7974 / 100)), JNum (Fin (1591 / 100))]) (JStr ''42.5'')]
   \<and> processedData (indicatorDetail ''2'')
       [geo_feature (JArr [JNum (Fin (7974 / 100)), JNum (Fin (1591 / 100))]) (JStr ''N/A''),
        geo_feature (JArr [JNum (Fin (7974 / 100)), JNum (Fin (1591 / 100))]) (JStr ''42.5'')]
     = Inr [sample_of (indicatorDetail ''2'')
              (geo_feature (JArr [JNum (Fin (7974 / 100)), JNum (Fin (1591 / 100))]) (JStr ''42.5''))]
   \<and> \<not> list_all not_nullish [JNull]
   \<and> processedData (indicatorDetail ''2'') [JNull] = Inl TypeError
   \<and> heatmapData (indicatorDetail ''2'') [JNull] = []
   \<and> spec_keeps (geo_feature (JArr [JNum (Fin (7974 / 100)), JNum (Fin (1591 / 100))]) (JStr ''42.5''))
   \<and> truthy (JArr [JNum (Fin (7974 / 100)), JNum (Fin (1591 / 100))])
   \<and> kept (geo_feature (JArr [JNum (Fin (7974 / 100)), JNum (Fin (1591 / 100))]) (JStr ''42.5''))"
proof -
  let ?c = "JArr [JNum (Fin (7974 / 100)), JNum (Fin (1591 / 100))]"
  let ?d = "indicatorDetail ''2''"
  note first = project_keeps_amended
    [of "[geo_feature ?c (JStr ''N/A''), geo_feature ?c (JStr ''42.5'')]" ?d
       "geo_feature ?c (JStr ''42.5'')" ?c]
  note second = project_keeps_amended [of "[JNull]" ?d JNull JNull]
  have objects: "list_all not_nullish [geo_feature ?c (JStr ''N/A''), geo_feature ?c (JStr ''42.5'')]"
    by (simp add: geo_feature_not_nullish)
  have c: "truthy ?c"
    by simp
  have spec: "spec_keeps (geo_feature ?c (JStr ''42.5''))"
    by (simp add: spec_keeps_def geo_feature_def parse_42_5 index_of_key_def is_digit_def
        digits_val_def digit_val_def not_nullish_def round64_small_finite)
  from first c have dropped: "\<not> kept (geo_feature ?c (JStr ''N/A''))"
    and retained: "kept (geo_feature ?c (JStr ''42.5''))"
    by blast+
  then have filtered:
    "filter kept [geo_feature ?c (JStr ''N/A''), geo_feature ?c (JStr ''42.5'')]
       = [geo_feature ?c (JStr ''42.5'')]"
    by simp
  from first objects have
    "processedData ?d [geo_feature ?c (JStr ''N/A''), geo_feature ?c (JStr ''42.5'')]
       = Inr (map (sample_of ?d)
                (filter kept [geo_feature ?c (JStr ''N/A''), geo_feature ?c (JStr ''42.5'')]))"
    by blast
  then have samples:
    "processedData ?d [geo_feature ?c (JStr ''N/A''), geo_feature ?c (JStr ''42.5'')]
       = Inr [sample_of ?d (geo_feature ?c (JStr ''42.5''))]"
    by (simp only: filtered list.map)
  have null: "\<not> list_all not_nullish [JNull]"
    by (simp add: not_nullish_def)
  with second have thrown: "processedData ?d [JNull] = Inl TypeError" "heatmapData ?d [JNull] = []"
    by blast+
  from objects samples null thrown spec c retained show ?thesis
    by (simp only: simp_thms)
qed

text \<open>
  C4 as stated fails: a feature whose coordinate pair is \<open>[null, null]\<close>, which does not
  parse to two finite numbers, and whose value is \<open>42.5\<close> is kept, and its sample carries
  the two \<open>null\<close>s.
\<close>

theorem project_unparsed_coordinates_counterexample:
  "processedData None [geo_feature (JArr [JNull, JNull]) (JStr ''42.5'')]
     = Inr [(JNull, JNull, Fin (85 / 2))]
   \<and> \<not> spec_keeps (geo_feature (JArr [JNull, JNull]) (JStr ''42.5''))"
proof
  have "processedData None [geo_feature (JArr [JNull, JNull]) (JStr ''42.5'')]
          = Inr [(own_prop (JArr [JNull, JNull]) ''1'', own_prop (JArr [JNull, JNull]) ''0'',
                  spec_intensity (inverted None) (parseFloat (JStr ''42.5'')))]"
    by (rule single_feature) (simp_all add: not_nullish_def parse_42_5)
  then show "processedData None [geo_feature (JArr [JNull, JNull]) (JStr ''42.5'')]
               = Inr [(JNull, JNull, Fin (85 / 2))]"
    by (simp add: parse_42_5 spec_intensity_def inverted_def index_of_key_def is_digit_def
        digits_val_def digit_val_def)
  show "\<not> spec_keeps (geo_feature (JArr [JNull, JNull]) (JStr ''42.5''))"
    by (simp add: spec_keeps_def geo_feature_def index_of_key_def is_digit_def digits_val_def
        digit_val_def)
qed

text \<open>
  C5. For every collection that the projection turns into samples, the intensities of
  the samples are, feature by feature in the order of the kept features,
  \<open>max(0, 100 - rawValue)\<close> when the indicator is there and has its invert flag set, and
  \<open>rawValue\<close> otherwise, where \<open>rawValue\<close> is \<open>parseFloat\<close> of the feature's value. On
  a finite raw value the inverted intensity is clamped at zero only: it is 0 when the
  raw value is 100 or more and the binary64 difference \<open>100 - rawValue\<close> below 100,
  which on a whole number is the exact \<open>max(0, 100 - rawValue)\<close>. For the inverted
  indicator 9, a raw value of 30 gives the intensity 70 and a raw value of 120 gives 0.
\<close>

theorem intensity_inverted:
  "(processedData d fs = Inr samples
      \<longrightarrow> map (\<lambda>(lat, lng, intensity). intensity) samples
            = map (\<lambda>f. if inverted d then Math_max (Fin 0) (js_sub (Fin 100) (rawValue f))
                       else rawValue f)
                (filter kept fs))
   \<and> inverted d = (\<exists>ind. d = Some ind \<and> invert ind = Some True)
   \<and> (\<forall>r. Math_max (Fin 0) (js_sub (Fin 100) (Fin r))
          = (if 100 \<le> r then Fin 0 else round64 (100 - r)))
   \<and> (\<forall>k. \<bar>100 - k\<bar> \<le> 9007199254740992
          \<longrightarrow> Math_max (Fin 0) (js_sub (Fin 100) (Fin (of_int k)))
                = Fin (of_int (max 0 (100 - k))))
   \<and> (truthy c
      \<longrightarrow> processedData (indicatorDetail ''9'') [geo_feature c (JNum (Fin 30))]
            = Inr [(own_prop c ''1'', own_prop c ''0'', Fin 70)]
          \<and> processedData (indicatorDetail ''9'') [geo_feature c (JNum (Fin 120))]
            = Inr [(own_prop c ''1'', own_prop c ''0'', Fin 0)])"
proof (intro conjI impI allI)
  assume "processedData d fs = Inr samples"
  then have "samples = map (sample_of d) (filter kept fs)"
    by (simp add: processedData_eq split: if_splits)
  then show "map (\<lambda>(lat, lng, intensity). intensity) samples
               = map (\<lambda>f. if inverted d then Math_max (Fin 0) (js_sub (Fin 100) (rawValue f))
                          else rawValue f)
                   (filter kept fs)"
    by (simp add: sample_of_def spec_intensity_def)
next
  show "inverted d = (\<exists>ind. d = Some ind \<and> invert ind = Some True)"
    by (cases d) (simp_all add: inverted_def)
next
  fix r
  show "Math_max (Fin 0) (js_sub (Fin 100) (Fin r))
          = (if 100 \<le> r then Fin 0 else round64 (100 - r))"
    by (rule clamp_rounded)
next
  fix k :: int
  assume "\<bar>100 - k\<bar> \<le> 9007199254740992"
  then show "Math_max (Fin 0) (js_sub (Fin 100) (Fin (of_int k))) = Fin (of_int (max 0 (100 - k)))"
    by (rule clamp_integer)
next
  assume c: "truthy c"
  have nine: "inverted (indicatorDetail ''9'')"
    by (simp add: indicatorDetail_def selectableIndicators_def inverted_def)
  have "processedData (indicatorDetail ''9'') [geo_feature c (JNum (Fin 30))]
          = Inr [(own_prop c ''1'', own_prop c ''0'',
                  spec_intensity (inverted (indicatorDetail ''9'')) (parseFloat (JNum (Fin 30))))]"
    using c by (intro single_feature) (simp_all add: not_nullish_def round64_not_NaN)
  then show "processedData (indicatorDetail ''9'') [geo_feature c (JNum (Fin 30))]
               = Inr [(own_prop c ''1'', own_prop c ''0'', Fin 70)]"
    by (simp add: nine spec_intensity_def clamp_rounded round64_numeral)
  have "processedData (indicatorDetail ''9'') [geo_feature c (JNum (Fin 120))]
          = Inr [(own_prop c ''1'', own_prop c ''0'',
                  spec_intensity (inverted (indicatorDetail ''9'')) (parseFloat (JNum (Fin 120))))]"
    using c by (intro single_feature) (simp_all add: not_nullish_def round64_not_NaN)
  then show "processedData (indicatorDetail ''9'') [geo_feature c (JNum (Fin 120))]
               = Inr [(own_prop c ''1'', own_prop c ''0'', Fin 0)]"
    by (simp add: nine spec_intensity_def clamp_rounded round64_numeral)
qed

theorem intensity_inverted_witness:
  "processedData (indicatorDetail ''9'')
     [geo_feature (JArr [JNum (Fin (7974 / 100)), JNum (Fin (1591 / 100))]) (JStr ''30''),
      geo_feature (JArr [JNum (Fin (7974 / 100)), JNum (Fin (1591 / 100))]) (JStr ''N/A''),
      geo_feature (JArr [JNum (Fin (7974 / 100)), JNum (Fin (1591 / 100))]) (JNum (Fin 120))]
     = Inr [(JNum (Fin (1591 / 100)), JNum (Fin (7974 / 100)), Fin 70),
            (JNum (Fin (1591 / 100)), JNum (Fin (7974 / 100)), Fin 0)]
   \<and> map (\<lambda>(lat, lng, intensity). intensity)
       [(JNum (Fin (1591 / 100)), JNum (Fin (7974 / 100)), Fin 70),
        (JNum (Fin (1591 / 100)), JNum (Fin (7974 / 100)), Fin 0)]
     = map (\<lambda>f. if inverted (indicatorDetail ''9'')
                 then Math_max (Fin 0) (js_sub (Fin 100) (rawValue f)) else rawValue f)
         (filter kept
            [geo_feature (JArr [JNum (Fin (7974 / 100)), JNum (Fin (1591 / 100))]) (JStr ''30''),
             geo_feature (JArr [JNum (Fin (7974 / 100)), JNum (Fin (1591 / 100))]) (JStr ''N/A''),
             geo_feature (JArr [JNum (Fin (7974 / 100)), JNum (Fin (1591 / 100))]) (JNum (Fin 120))])
   \<and> truthy (JArr [JNum (Fin (7974 / 100)), JNum (Fin (1591 / 100))])
   \<and> processedData (indicatorDetail ''9'')
       [geo_feature (JArr [JNum (Fin (7974 / 100)), JNum (Fin (1591 / 100))]) (JNum (Fin 30))]
     = Inr [(JNum (Fin (1591 / 100)), JNum (Fin (7974 / 100)), Fin 70)]
   \<and> \<bar>100 - 30 :: int\<bar> \<le> 9007199254740992
   \<and> Math_max (Fin 0) (js_sub (Fin 100) (Fin 30)) = Fin 70"
proof -
  let ?c = "JArr [JNum (Fin (7974 / 100)), JNum (Fin (1591 / 100))]"
  let ?fs = "[geo_feature ?c (JStr ''30''), geo_feature ?c (JStr ''N/A''),
              geo_feature ?c (JNum (Fin 120))]"
  let ?out = "[(JNum (Fin (1591 / 100)), JNum (Fin (7974 / 100)), Fin 70),
               (JNum (Fin (1591 / 100)), JNum (Fin (7974 / 100)), Fin 0)]"
  have nine: "inverted (indicatorDetail ''9'')"
    by (simp add: indicatorDetail_def selectableIndicators_def inverted_def)
  have thirty: "parseFloat_str ''30'' = Fin 30"
    by (simp add: parseFloat_str_def is_ws_def is_digit_def digits_val_def digit_val_def pow10_def
        round64_numeral)
  have run: "processedData (indicatorDetail ''9'') ?fs = Inr ?out"
    by (simp add: processedData_eq geo_feature_not_nullish geo_feature_kept parse_N_A thirty
        not_nullish_scalar sample_of_def pair_coordinates geo_feature_raw nine spec_intensity_def
        clamp_rounded round64_numeral)
  have c: "truthy ?c"
    by simp
  note inst = intensity_inverted [of "indicatorDetail ''9''" ?fs ?out ?c]
  from inst run have intensities:
    "map (\<lambda>(lat, lng, intensity). intensity) ?out
       = map (\<lambda>f. if inverted (indicatorDetail ''9'')
                   then Math_max (Fin 0) (js_sub (Fin 100) (rawValue f)) else rawValue f)
           (filter kept ?fs)"
    by blast
  from inst c have "processedData (indicatorDetail ''9'') [geo_feature ?c (JNum (Fin 30))]
                      = Inr [(own_prop ?c ''1'', own_prop ?c ''0'', Fin 70)]"
    by blast
  then have single: "processedData (indicatorDetail ''9'') [geo_feature ?c (JNum (Fin 30))]
                       = Inr [(JNum (Fin (1591 / 100)), JNum (Fin (7974 / 100)), Fin 70)]"
    by (simp add: index_of_key_def is_digit_def digits_val_def digit_val_def)
  have small: "\<bar>100 - 30 :: int\<bar> \<le> 9007199254740992"
    by simp
  with inst have "Math_max (Fin 0) (js_sub (Fin 100) (Fin (of_int 30))) = Fin (of_int (max 0 (100 - 30)))"
    by blast
  then have clamp: "Math_max (Fin 0) (js_sub (Fin 100) (Fin 30)) = Fin 70"
    by simp
  from run intensities c single small clamp show ?thesis
    by (simp only: simp_thms)
qed

text \<open>
  C6. For every collection that the projection turns into samples, each sample starts
  with the entry at index 1 of the feature's coordinates followed by the entry at
  index 0, feature by feature in the order of the kept features. So a feature that
  stores the pair as (longitude, latitude) and has a value that parses gives the sample
  (latitude, longitude, intensity); the coordinates \<open>[79.74, 15.91]\<close> give the pair
  \<open>(15.91, 79.74)\<close>.
\<close>

theorem coordinates_reversed:
  "(processedData d fs = Inr samples
      \<longrightarrow> map (\<lambda>(lat, lng, intensity). (lat, lng)) samples
            = map (\<lambda>f. (own_prop (coordinates_of f) ''1'', own_prop (coordinates_of f) ''0''))
                (filter kept fs))
   \<and> (not_nullish v \<and> parseFloat v \<noteq> NaN
      \<longrightarrow> processedData d [geo_feature (JArr [lng, lat]) v]
            = Inr [(lat, lng, spec_intensity (inverted d) (parseFloat v))])
   \<and> processedData d
       [geo_feature (JArr [JNum (Fin (7974 / 100)), JNum (Fin (1591 / 100))]) (JStr ''42.5'')]
     = Inr [(JNum (Fin (1591 / 100)), JNum (Fin (7974 / 100)),
             spec_intensity (inverted d) (Fin (85 / 2)))]"
proof (intro conjI impI)
  assume "processedData d fs = Inr samples"
  then have "samples = map (sample_of d) (filter kept fs)"
    by (simp add: processedData_eq split: if_splits)
  then show "map (\<lambda>(lat, lng, intensity). (lat, lng)) samples
               = map (\<lambda>f. (own_prop (coordinates_of f) ''1'', own_prop (coordinates_of f) ''0''))
                   (filter kept fs)"
    by (simp add: sample_of_def)
next
  assume "not_nullish v \<and> parseFloat v \<noteq> NaN"
  then have "processedData d [geo_feature (JArr [lng, lat]) v]
               = Inr [(own_prop (JArr [lng, lat]) ''1'', own_prop (JArr [lng, lat]) ''0'',
                       spec_intensity (inverted d) (parseFloat v))]"
    by (intro single_feature) simp_all
  then show "processedData d [geo_feature (JArr [lng, lat]) v]
               = Inr [(lat, lng, spec_intensity (inverted d) (parseFloat v))]"
    by (simp add: index_of_key_def is_digit_def digits_val_def digit_val_def)
next
  let ?c = "JArr [JNum (Fin (7974 / 100)), JNum (Fin (1591 / 100))]"
  have "processedData d [geo_feature ?c (JStr ''42.5'')]
          = Inr [(own_prop ?c ''1'', own_prop ?c ''0'',
                  spec_intensity (inverted d) (parseFloat (JStr ''42.5'')))]"
    by (intro single_feature) (simp_all add: not_nullish_scalar parse_42_5)
  then show "processedData d [geo_feature ?c (JStr ''42.5'')]
               = Inr [(JNum (Fin (1591 / 100)), JNum (Fin (7974 / 100)),
                       spec_intensity (inverted d) (Fin (85 / 2)))]"
    by (simp add: parse_42_5 index_of_key_def is_digit_def digits_val_def digit_val_def)
qed

theorem coordinates_reversed_witness:
  "not_nullish (JNum (Fin 12)) \<and> parseFloat (JNum (Fin 12)) \<noteq> NaN
   \<and> processedData (indicatorDetail ''73'')
       [geo_feature (JArr [JNum (Fin (7974 / 100)), JNum (Fin (1591 / 100))]) (JNum (Fin 12))]
     = Inr [(JNum (Fin (1591 / 100)), JNum (Fin (7974 / 100)), Fin 12)]
   \<and> map (\<lambda>(lat, lng, intensity). (lat, lng))
       [(JNum (Fin (1591 / 100)), JNum (Fin (7974 / 100)), Fin 12)]
     = map (\<lambda>f. (own_prop (coordinates_of f) ''1'', own_prop (coordinates_of f) ''0''))
         (filter kept
            [geo_feature (JArr [JNum (Fin (7974 / 100)), JNum (Fin (1591 / 100))]) (JNum (Fin 12))])"
proof -
  let ?f = "geo_feature (JArr [JNum (Fin (7974 / 100)), JNum (Fin (1591 / 100))]) (JNum (Fin 12))"
  let ?out = "[(JNum (Fin (1591 / 100)), JNum (Fin (7974 / 100)), Fin 12)]"
  note inst = coordinates_reversed [of "indicatorDetail ''73''" "[?f]" ?out "JNum (Fin 12)"
      "JNum (Fin (7974 / 100))" "JNum (Fin (1591 / 100))"]
  have v: "not_nullish (JNum (Fin 12)) \<and> parseFloat (JNum (Fin 12)) \<noteq> NaN"
    by (simp add: not_nullish_scalar round64_not_NaN)
  have plain: "\<not> inverted (indicatorDetail ''73'')"
    by (simp add: indicatorDetail_def selectableIndicators_def inverted_def)
  from inst v have "processedData (indicatorDetail ''73'') [?f]
                      = Inr [(JNum (Fin (1591 / 100)), JNum (Fin (7974 / 100)),
                              spec_intensity (inverted (indicatorDetail ''73''))
                                (parseFloat (JNum (Fin 12))))]"
    by blast
  then have run: "processedData (indicatorDetail ''73'') [?f] = Inr ?out"
    by (simp add: plain spec_intensity_def round64_numeral)
  with inst have pairs:
    "map (\<lambda>(lat, lng, intensity). (lat, lng)) ?out
       = map (\<lambda>f. (own_prop (coordinates_of f) ''1'', own_prop (coordinates_of f) ''0''))
           (filter kept [?f])"
    by blast
  from v run pairs show ?thesis
    by (simp only: simp_thms)
qed

text \<open>
  C7, as amended. Every sample that the projection emits has an intensity that is a
  number, not NaN, and, when the indicator is there and has its invert flag set, an
  intensity that is at least 0. The latitude and the longitude of a sample are the
  entries of the feature's coordinates as they come, and without the invert flag the
  intensity is the raw value as it comes.
\<close>

theorem sample_intensity_amended:
  assumes "processedData d fs = Inr samples"
  shows "\<forall>(lat, lng, intensity) \<in> set samples.
           intensity \<noteq> NaN \<and> (inverted d \<longrightarrow> js_le (Fin 0) intensity)"
proof -
  from assms have samples: "samples = map (sample_of d) (filter kept fs)"
    by (simp add: processedData_eq split: if_splits)
  have "spec_intensity (inverted d) (rawValue f) \<noteq> NaN
          \<and> (inverted d \<longrightarrow> js_le (Fin 0) (spec_intensity (inverted d) (rawValue f)))"
    if "kept f" for f
  proof -
    from that have raw: "rawValue f \<noteq> NaN"
      by (simp add: kept_def rawValue_def Let_def)
    then show ?thesis
      using intensity_not_NaN [of "rawValue f" "inverted d"] intensity_clamped [of "rawValue f"]
      by auto
  qed
  then show ?thesis
    by (auto simp: samples sample_of_def)
qed

theorem sample_intensity_amended_witness:
  "processedData (indicatorDetail ''9'')
     [geo_feature (JArr [JNum (Fin 500), JNum (Fin 500)]) (JNum (Fin 120))]
     = Inr [(JNum (Fin 500), JNum (Fin 500), Fin 0)]
   \<and> inverted (indicatorDetail ''9'')
   \<and> Fin 0 \<noteq> NaN
   \<and> js_le (Fin 0) (Fin 0)"
proof -
  have nine: "inverted (indicatorDetail ''9'')"
    by (simp add: indicatorDetail_def selectableIndicators_def inverted_def)
  have "processedData (indicatorDetail ''9'')
          [geo_feature (JArr [JNum (Fin 500), JNum (Fin 500)]) (JNum (Fin 120))]
          = Inr [(own_prop (JArr [JNum (Fin 500), JNum (Fin 500)]) ''1'',
                  own_prop (JArr [JNum (Fin 500), JNum (Fin 500)]) ''0'',
                  spec_intensity (inverted (indicatorDetail ''9'')) (parseFloat (JNum (Fin 120))))]"
    by (intro single_feature) (simp_all add: not_nullish_scalar round64_not_NaN)
  then have run: "processedData (indicatorDetail ''9'')
                    [geo_feature (JArr [JNum (Fin 500), JNum (Fin 500)]) (JNum (Fin 120))]
                    = Inr [(JNum (Fin 500), JNum (Fin 500), Fin 0)]"
    by (simp add: nine spec_intensity_def clamp_rounded round64_numeral index_of_key_def is_digit_def digits_val_def
        digit_val_def)
  from sample_intensity_amended [OF run] nine
  have "Fin 0 \<noteq> NaN" "js_le (Fin 0) (Fin 0)"
    by simp_all
  with run nine show ?thesis
    by (simp only: simp_thms)
qed

text \<open>
  C7 as stated fails: without the invert flag, a feature at the coordinates
  \<open>[500, 500]\<close> with the value -5 gives the sample \<open>(500, 500, -5)\<close>, whose latitude and
  longitude are out of range and whose intensity is negative.
\<close>

theorem sample_out_of_range_counterexample:
  "processedData (indicatorDetail ''2'')
     [geo_feature (JArr [JNum (Fin 500), JNum (Fin 500)]) (JNum (Fin (- 5)))]
     = Inr [(JNum (Fin 500), JNum (Fin 500), Fin (- 5))]
   \<and> \<not> is_HeatSample (JNum (Fin 500), JNum (Fin 500), Fin (- 5))"
proof
  have two: "\<not> inverted (indicatorDetail ''2'')"
    by (simp add: indicatorDetail_def selectableIndicators_def inverted_def)
  have "processedData (indicatorDetail ''2'')
          [geo_feature (JArr [JNum (Fin 500), JNum (Fin 500)]) (JNum (Fin (- 5)))]
          = Inr [(own_prop (JArr [JNum (Fin 500), JNum (Fin 500)]) ''1'',
                  own_prop (JArr [JNum (Fin 500), JNum (Fin 500)]) ''0'',
                  spec_intensity (inverted (indicatorDetail ''2'')) (parseFloat (JNum (Fin (- 5)))))]"
    by (intro single_feature) (simp_all add: not_nullish_scalar round64_not_NaN)
  then show "processedData (indicatorDetail ''2'')
               [geo_feature (JArr [JNum (Fin 500), JNum (Fin 500)]) (JNum (Fin (- 5)))]
               = Inr [(JNum (Fin 500), JNum (Fin 500), Fin (- 5))]"
    by (simp add: two spec_intensity_def index_of_key_def is_digit_def digits_val_def digit_val_def
        round64_numeral)
  show "\<not> is_HeatSample (JNum (Fin 500), JNum (Fin 500), Fin (- 5))"
    by simp
qed

text \<open>
  C8. Adding an entry of a kind whose draft has an empty name leaves the whole state,
  lists and drafts, unchanged, and adding one whose draft has a name appends the draft,
  with the temporary identifier made from the clock, at the end of the list of its kind.
  Removing at an index within the list of a kind removes the entry at that index and
  keeps the others in their order, and removing at any other index leaves the state
  unchanged.
\<close>

theorem add_remove_entries:
  "(name (newStaff st) = [] \<longrightarrow> addItem ''staff'' now st = st)
   \<and> (name (newMedicine st) = [] \<longrightarrow> addItem ''medicine'' now st = st)
   \<and> (name (newEquipment st) = [] \<longrightarrow> addItem ''equipment'' now st = st)
   \<and> (name (newStaff st) \<noteq> []
      \<longrightarrow> staffList (addItem ''staff'' now st)
            = staffList st @ [(newStaff st)\<lparr>entry_id := Some (temp_id now)\<rparr>])
   \<and> (name (newMedicine st) \<noteq> []
      \<longrightarrow> medicineList (addItem ''medicine'' now st)
            = medicineList st @ [(newMedicine st)\<lparr>entry_id := Some (temp_id now)\<rparr>])
   \<and> (name (newEquipment st) \<noteq> []
      \<longrightarrow> equipmentList (addItem ''equipment'' now st)
            = equipmentList st @ [(newEquipment st)\<lparr>entry_id := Some (temp_id now)\<rparr>])
   \<and> (0 \<le> index \<and> index < int (length (staffList st))
      \<longrightarrow> staffList (removeItem ''staff'' index st)
            = take (nat index) (staffList st) @ drop (Suc (nat index)) (staffList st))
   \<and> (0 \<le> index \<and> index < int (length (medicineList st))
      \<longrightarrow> medicineList (removeItem ''medicine'' index st)
            = take (nat index) (medicineList st) @ drop (Suc (nat index)) (medicineList st))
   \<and> (0 \<le> index \<and> index < int (length (equipmentList st))
      \<longrightarrow> equipmentList (removeItem ''equipment'' index st)
            = take (nat index) (equipmentList st) @ drop (Suc (nat index)) (equipmentList st))
   \<and> (\<not> (0 \<le> index \<and> index < int (length (staffList st)))
      \<longrightarrow> removeItem ''staff'' index st = st)
   \<and> (\<not> (0 \<le> index \<and> index < int (length (medicineList st)))
      \<longrightarrow> removeItem ''medicine'' index st = st)
   \<and> (\<not> (0 \<le> index \<and> index < int (length (equipmentList st)))
      \<longrightarrow> removeItem ''equipment'' index st = st)"
  by (simp add: addItem_def removeItem_def filter_index_eq)

theorem add_remove_entries_witness:
  "name (newStaff (page_with blank_staff blank_medicine blank_equipment)) = []
   \<and> name (newMedicine (page_with blank_staff blank_medicine blank_equipment)) = []
   \<and> name (newEquipment (page_with blank_staff blank_medicine blank_equipment)) = []
   \<and> addItem ''staff'' 1735689600000 (page_with blank_staff blank_medicine blank_equipment)
     = page_with blank_staff blank_medicine blank_equipment
   \<and> addItem ''medicine'' 1735689600000 (page_with blank_staff blank_medicine blank_equipment)
     = page_with blank_staff blank_medicine blank_equipment
   \<and> addItem ''equipment'' 1735689600000 (page_with blank_staff blank_medicine blank_equipment)
     = page_with blank_staff blank_medicine blank_equipment
   \<and> name (newStaff (page_with (blank_staff\<lparr>name := ''Meena''\<rparr>)
              (blank_medicine\<lparr>name := ''ORS''\<rparr>) (blank_equipment\<lparr>name := ''Tent''\<rparr>))) \<noteq> []
   \<and> name (newMedicine (page_with (blank_staff\<lparr>name := ''Meena''\<rparr>)
              (blank_medicine\<lparr>name := ''ORS''\<rparr>) (blank_equipment\<lparr>name := ''Tent''\<rparr>))) \<noteq> []
   \<and> name (newEquipment (page_with (blank_staff\<lparr>name := ''Meena''\<rparr>)
              (blank_medicine\<lparr>name := ''ORS''\<rparr>) (blank_equipment\<lparr>name := ''Tent''\<rparr>))) \<noteq> []
   \<and> staffList (addItem ''staff'' 1735689600000
        (page_with (blank_staff\<lparr>name := ''Meena''\<rparr>) (blank_medicine\<lparr>name := ''ORS''\<rparr>)
           (blank_equipment\<lparr>name := ''Tent''\<rparr>)))
     = [blank_staff\<lparr>name := ''Asha''\<rparr>, blank_staff\<lparr>name := ''Ravi''\<rparr>,
        blank_staff\<lparr>name := ''Meena'', entry_id := Some ''temp-1735689600000''\<rparr>]
   \<and> medicineList (addItem ''medicine'' 1735689600000
        (page_with (blank_staff\<lparr>name := ''Meena''\<rparr>) (blank_medicine\<lparr>name := ''ORS''\<rparr>)
           (blank_equipment\<lparr>name := ''Tent''\<rparr>)))
     = [blank_medicine\<lparr>name := ''Paracetamol''\<rparr>, blank_medicine\<lparr>name := ''Zinc''\<rparr>,
        blank_medicine\<lparr>name := ''ORS'', entry_id := Some ''temp-1735689600000''\<rparr>]
   \<and> equipmentList (addItem ''equipment'' 1735689600000
        (page_with (blank_staff\<lparr>name := ''Meena''\<rparr>) (blank_medicine\<lparr>name := ''ORS''\<rparr>)
           (blank_equipment\<lparr>name := ''Tent''\<rparr>)))
     = [blank_equipment\<lparr>name := ''Stretcher''\<rparr>, blank_equipment\<lparr>name := ''Scale''\<rparr>,
        blank_equipment\<lparr>name := ''Tent'', entry_id := Some ''temp-1735689600000''\<rparr>]
   \<and> (0 :: int) \<le> 0
   \<and> (0 :: int) < int (length (staffList (page_with blank_staff blank_medicine blank_equipment)))
   \<and> (0 :: int) < int (length (medicineList (page_with blank_staff blank_medicine blank_equipment)))
   \<and> (0 :: int) < int (length (equipmentList (page_with blank_staff blank_medicine blank_equipment)))
   \<and> staffList (removeItem ''staff'' 0 (page_with blank_staff blank_medicine blank_equipment))
     = [blank_staff\<lparr>name := ''Ravi''\<rparr>]
   \<and> medicineList (removeItem ''medicine'' 0 (page_with blank_staff blank_medicine blank_equipment))
     = [blank_medicine\<lparr>name := ''Zinc''\<rparr>]
   \<and> equipmentList (removeItem ''equipment'' 0 (page_with blank_staff blank_medicine blank_equipment))
     = [blank_equipment\<lparr>name := ''Scale''\<rparr>]
   \<and> \<not> ((0 :: int) \<le> 2
          \<and> (2 :: int) < int (length (staffList (page_with blank_staff blank_medicine blank_equipment))))
   \<and> \<not> ((0 :: int) \<le> 2
          \<and> (2 :: int) < int (length (medicineList (page_with blank_staff blank_medicine blank_equipment))))
   \<and> \<not> ((0 :: int) \<le> 2
          \<and> (2 :: int) < int (length (equipmentList (page_with blank_staff blank_medicine blank_equipment))))
   \<and> removeItem ''staff'' 2 (page_with blank_staff blank_medicine blank_equipment)
     = page_with blank_staff blank_medicine blank_equipment
   \<and> removeItem ''medicine'' 2 (page_with blank_staff blank_medicine blank_equipment)
     = page_with blank_staff blank_medicine blank_equipment
   \<and> removeItem ''equipment'' 2 (page_with blank_staff blank_medicine blank_equipment)
     = page_with blank_staff blank_medicine blank_equipment"
proof -
  let ?b = "page_with blank_staff blank_medicine blank_equipment"
  let ?a = "page_with (blank_staff\<lparr>name := ''Meena''\<rparr>) (blank_medicine\<lparr>name := ''ORS''\<rparr>)
              (blank_equipment\<lparr>name := ''Tent''\<rparr>)"
  have stamp: "temp_id 1735689600000 = ''temp-1735689600000''"
    by (simp add: temp_id_def dec_string.simps)
  have unnamed: "name (newStaff ?b) = []" "name (newMedicine ?b) = []" "name (newEquipment ?b) = []"
    by (simp_all add: page_with_def blank_staff_def blank_medicine_def blank_equipment_def)
  have named: "name (newStaff ?a) \<noteq> []" "name (newMedicine ?a) \<noteq> []" "name (newEquipment ?a) \<noteq> []"
    by (simp_all add: page_with_def)
  note blank = add_remove_entries [of ?b 1735689600000 0]
  from blank unnamed have silent: "addItem ''staff'' 1735689600000 ?b = ?b"
    "addItem ''medicine'' 1735689600000 ?b = ?b" "addItem ''equipment'' 1735689600000 ?b = ?b"
    by blast+
  note filled = add_remove_entries [of ?a 1735689600000 0]
  from filled named
  have "staffList (addItem ''staff'' 1735689600000 ?a)
          = staffList ?a @ [(newStaff ?a)\<lparr>entry_id := Some (temp_id 1735689600000)\<rparr>]"
    and "medicineList (addItem ''medicine'' 1735689600000 ?a)
          = medicineList ?a @ [(newMedicine ?a)\<lparr>entry_id := Some (temp_id 1735689600000)\<rparr>]"
    and "equipmentList (addItem ''equipment'' 1735689600000 ?a)
          = equipmentList ?a @ [(newEquipment ?a)\<lparr>entry_id := Some (temp_id 1735689600000)\<rparr>]"
    by blast+
  then have added:
    "staffList (addItem ''staff'' 1735689600000 ?a)
       = [blank_staff\<lparr>name := ''Asha''\<rparr>, blank_staff\<lparr>name := ''Ravi''\<rparr>,
          blank_staff\<lparr>name := ''Meena'', entry_id := Some ''temp-1735689600000''\<rparr>]"
    "medicineList (addItem ''medicine'' 1735689600000 ?a)
       = [blank_medicine\<lparr>name := ''Paracetamol''\<rparr>, blank_medicine\<lparr>name := ''Zinc''\<rparr>,
          blank_medicine\<lparr>name := ''ORS'', entry_id := Some ''temp-1735689600000''\<rparr>]"
    "equipmentList (addItem ''equipment'' 1735689600000 ?a)
       = [blank_equipment\<lparr>name := ''Stretcher''\<rparr>, blank_equipment\<lparr>name := ''Scale''\<rparr>,
          blank_equipment\<lparr>name := ''Tent'', entry_id := Some ''temp-1735689600000''\<rparr>]"
    by (simp_all add: stamp page_with_def)
  have inside: "(0 :: int) \<le> 0" "(0 :: int) < int (length (staffList ?b))"
    "(0 :: int) < int (length (medicineList ?b))" "(0 :: int) < int (length (equipmentList ?b))"
    by (simp_all add: page_with_def)
  with blank
  have "staffList (removeItem ''staff'' 0 ?b)
          = take (nat 0) (staffList ?b) @ drop (Suc (nat 0)) (staffList ?b)"
    and "medicineList (removeItem ''medicine'' 0 ?b)
          = take (nat 0) (medicineList ?b) @ drop (Suc (nat 0)) (medicineList ?b)"
    and "equipmentList (removeItem ''equipment'' 0 ?b)
          = take (nat 0) (equipmentList ?b) @ drop (Suc (nat 0)) (equipmentList ?b)"
    by blast+
  then have removed: "staffList (removeItem ''staff'' 0 ?b) = [blank_staff\<lparr>name := ''Ravi''\<rparr>]"
    "medicineList (removeItem ''medicine'' 0 ?b) = [blank_medicine\<lparr>name := ''Zinc''\<rparr>]"
    "equipmentList (removeItem ''equipment'' 0 ?b) = [blank_equipment\<lparr>name := ''Scale''\<rparr>]"
    by (simp_all add: page_with_def)
  have outside: "\<not> ((0 :: int) \<le> 2 \<and> (2 :: int) < int (length (staffList ?b)))"
    "\<not> ((0 :: int) \<le> 2 \<and> (2 :: int) < int (length (medicineList ?b)))"
    "\<not> ((0 :: int) \<le> 2 \<and> (2 :: int) < int (length (equipmentList ?b)))"
    by (simp_all add: page_with_def)
  with add_remove_entries [of ?b 1735689600000 2]
  have untouched: "removeItem ''staff'' 2 ?b = ?b" "removeItem ''medicine'' 2 ?b = ?b"
    "removeItem ''equipment'' 2 ?b = ?b"
    by blast+
  from unnamed silent named added inside removed outside untouched show ?thesis
    by (simp only: simp_thms)
qed

end
